theory Spec2Isabelle
  imports Main
begin

section \<open>Data model\<close>

text \<open>
  The durable store of the Content360 core: the tables the API (\<^verbatim>\<open>POST /v1/jobs/create\<close>,
  the admin cancel and retry endpoints, the billing summary) and the BullMQ worker read and
  write. Tables are lists of rows in insertion order; primary keys and unique constraints
  are checked where the SQL checks them (\<^verbatim>\<open>ON CONFLICT ... DO NOTHING\<close>, a violated key
  raising inside the transaction). Text columns are strings, with a character per code
  point. Amounts of AEJ (the cost unit) are integers.

  Time is the \<^verbatim>\<open>NOW()\<close> of the statement, abstracted to the index of its UTC calendar
  month: the month filter \<^verbatim>\<open>created_at >= monthStart AND created_at < monthEnd\<close> is the
  only thing the modelled code computes from a timestamp.
\<close>

datatype json =
    JNull
  | JBool bool
  | JNum int
  | JStr string
  | JArr "json list"
  | JObj "(string \<times> json) list"

text \<open>
  An item of the request body. \<open>ItemNotObject\<close> is an element that is null, not an
  object, or an array. An object is given by the strings \<^verbatim>\<open>String(it.f || "")\<close> of its
  five known fields (before trimming) and by the list of its other keys.
\<close>

record item =
  entity_type :: string
  entity_id :: string
  lang :: string
  source_title :: string
  source_excerpt :: string
  i_extra :: "string list"

datatype item_json = ItemNotObject | ItemObject item

text \<open>
  The value of \<^verbatim>\<open>body.mode\<close>, by what the code observes of it: whether it is truthy,
  whether it is a string, and what \<^verbatim>\<open>String\<close> makes of it. \<open>ModeFalsy\<close> is a falsy value that
  is not a string (the key is absent, or null, false, 0); \<open>ModeString s\<close> is the string
  \<open>s\<close>; \<open>ModeOther s\<close> is a truthy value that is not a string (a number, true, an array,
  an object), where \<open>s\<close> is \<^verbatim>\<open>String\<close> of it: the array \<^verbatim>\<open>["ecom_catalog"]\<close> is
  \<open>ModeOther ''ecom_catalog''\<close>.
\<close>

datatype mode_value = ModeFalsy | ModeString string | ModeOther string

definition mode_truthy :: "mode_value \<Rightarrow> bool" where
  "mode_truthy v = (case v of ModeFalsy \<Rightarrow> False | ModeString s \<Rightarrow> s \<noteq> [] | ModeOther s \<Rightarrow> True)"

text \<open>
  \<^verbatim>\<open>String(v || "")\<close>; for a truthy \<open>v\<close> it is \<^verbatim>\<open>String(v)\<close>, which is also what a template
  literal makes of \<open>v\<close>.
\<close>

definition mode_string :: "mode_value \<Rightarrow> string" where
  "mode_string v = (case v of ModeFalsy \<Rightarrow> [] | ModeString s \<Rightarrow> s | ModeOther s \<Rightarrow> s)"

text \<open>
  The request body, as received and as stored in \<^verbatim>\<open>request_json\<close>: \<open>b_mode\<close> is
  \<^verbatim>\<open>body.mode\<close>, \<open>b_items\<close> is \<^verbatim>\<open>body.items\<close> when it is an array, \<open>b_extra\<close> lists the
  top-level keys other than \<^verbatim>\<open>mode\<close> and \<^verbatim>\<open>items\<close>.
\<close>

record body =
  b_mode :: mode_value
  b_items :: "item_json list option"
  b_extra :: "string list"

datatype request = NotObject | Body body

record headers =
  hdr_idempotency_key :: "string option"
  hdr_x_idempotency_key :: "string option"

record result_entry =
  exec :: json
  source :: string
  llm_error :: "string option"
  r_status :: string

record result_payload =
  r_ok :: bool
  results :: "result_entry list"

record job_row =
  j_id :: nat
  j_client_id :: string
  j_mode :: string
  j_status :: string
  j_progress :: int
  j_request_json :: "body option"
  j_result_json :: "result_payload option"
  j_idempotency_key :: "string option"
  j_aej_estimated :: int
  j_aej_final :: "int option"
  j_error_text :: "string option"
  j_finished_at :: "nat option"

record hold_row =
  h_job_id :: nat
  h_client_id :: string
  h_aej_estimated :: int
  h_status :: string
  h_released_at :: "nat option"

record aej_log_row =
  l_client_id :: string
  l_job_id :: nat
  l_stage :: string
  l_aej_used :: int
  l_created_at :: nat

record idem_row =
  k_client_id :: string
  k_idem_key :: string
  k_job_id :: nat

record settings_row =
  q_client_id :: string
  q_plan_code :: "string option"
  q_monthly_quota_aej :: "int option"

record event_row =
  e_job_id :: nat
  e_client_id :: string
  e_event_type :: string
  e_message :: "string option"

record decision_row =
  d_client_id :: string
  d_job_id :: nat
  d_decision_type :: string
  d_decision_reason :: string

record client_row =
  c_id :: string
  c_aej_balance :: "int option"

record store =
  jobs :: "job_row list"
  job_seq :: nat
  holds :: "hold_row list"
  aej_logs :: "aej_log_row list"
  idempotency :: "idem_row list"
  site_settings :: "settings_row list"
  job_events :: "event_row list"
  decision_log :: "decision_row list"
  clients :: "client_row list"
  queue :: "nat list"

section \<open>Strings\<close>

text \<open>The white space that \<^verbatim>\<open>String.prototype.trim\<close> strips, among the code points below 256.\<close>

definition is_ws :: "char \<Rightarrow> bool" where
  "is_ws c = (c \<in> set [CHR 0x09, CHR 0x0A, CHR 0x0B, CHR 0x0C, CHR 0x0D, CHR 0x20, CHR 0xA0])"

definition trim :: "string \<Rightarrow> string" where
  "trim s = rev (dropWhile is_ws (rev (dropWhile is_ws s)))"

definition digit_char :: "nat \<Rightarrow> char" where
  "digit_char d = char_of (48 + d)"

function show_nat :: "nat \<Rightarrow> string" where
  "show_nat n = (if n < 10 then [digit_char n] else show_nat (n div 10) @ [digit_char (n mod 10)])"
  by pat_completeness auto
termination
  by (relation "measure (\<lambda>n. n)") auto

declare show_nat.simps [simp del]

section \<open>Request validation and costing\<close>

text \<open>\<^verbatim>\<open>ALLOWED_MODES\<close> and \<^verbatim>\<open>AEJ_ESTIMATE_PER_ITEM\<close>, the constants of the API.\<close>

definition ALLOWED_MODES :: "string list" where
  "ALLOWED_MODES = [''quick_boost'', ''full_content'', ''ecom_catalog'']"

definition AEJ_ESTIMATE_PER_ITEM :: "string \<Rightarrow> int option" where
  "AEJ_ESTIMATE_PER_ITEM m =
     (if m = ''quick_boost'' then Some 8
      else if m = ''full_content'' then Some 12
      else if m = ''ecom_catalog'' then Some 12
      else None)"

text \<open>\<^verbatim>\<open>pickIdempotencyKey\<close>: the first non-empty header, trimmed, cut to 200 characters.\<close>

definition pickIdempotencyKey :: "headers \<Rightarrow> string option" where
  "pickIdempotencyKey h =
     (let k = (case hdr_idempotency_key h of
                 Some v \<Rightarrow> (if v \<noteq> [] then Some v else hdr_x_idempotency_key h)
               | None \<Rightarrow> hdr_x_idempotency_key h)
      in case k of
           None \<Rightarrow> None
         | Some v \<Rightarrow>
             (if v = [] then None
              else let s = trim v in if s \<noteq> [] then Some (take 200 s) else None))"

definition or_empty :: "string \<Rightarrow> string" where
  "or_empty s = (if s = [] then ''(empty)'' else s)"

text \<open>The errors \<^verbatim>\<open>validateCreatePayload\<close> pushes for the item at index \<open>idx\<close>.\<close>

definition item_errors :: "nat \<Rightarrow> item_json \<Rightarrow> string list" where
  "item_errors idx it =
     (let p = ''items['' @ show_nat idx @ '']'' in
      case it of
        ItemNotObject \<Rightarrow> [p @ '' must be an object'']
      | ItemObject i \<Rightarrow>
          (let et = trim (entity_type i);
               ei = trim (entity_id i);
               lg = trim (lang i);
               st = trim (source_title i);
               se = trim (source_excerpt i)
           in map (\<lambda>k. p @ '' unexpected field: '' @ k) (i_extra i)
              @ (if et \<notin> set [''product'', ''page'', ''post'']
                 then [p @ '' invalid entity_type: '' @ or_empty et] else [])
              @ (if ei = [] then [p @ '' entity_id_required''] else [])
              @ (if lg = [] \<or> length lg < 2 \<or> length lg > 10
                 then [p @ '' invalid lang: '' @ or_empty lg] else [])
              @ (if st = [] then [p @ '' source_title_required''] else [])
              @ (if se = [] then [p @ '' source_excerpt_required''] else [])))"

datatype validation = Invalid "string list" | Valid string "item_json list"

definition validateCreatePayload :: "request \<Rightarrow> validation" where
  "validateCreatePayload req =
     (case req of
        NotObject \<Rightarrow> Invalid [''body must be an object'']
      | Body b \<Rightarrow>
          (let mode = trim (mode_string (b_mode b));
               items = b_items b;
               errors =
                 map (\<lambda>k. ''unexpected top-level field: '' @ k) (b_extra b)
                 @ (if mode \<notin> set ALLOWED_MODES then [''invalid mode: '' @ or_empty mode] else [])
                 @ (case items of
                      None \<Rightarrow> [''items_required'']
                    | Some its \<Rightarrow> (if length its < 1 then [''items_required''] else []))
                 @ (case items of
                      None \<Rightarrow> []
                    | Some its \<Rightarrow> (if length its > 50 then [''items_max_50''] else []))
                 @ (case items of
                      None \<Rightarrow> []
                    | Some its \<Rightarrow> concat (map (\<lambda>(idx, it). item_errors idx it) (enumerate 0 its)))
           in if errors \<noteq> [] then Invalid errors
              else (case items of None \<Rightarrow> Invalid errors | Some its \<Rightarrow> Valid mode its)))"

section \<open>Store access\<close>

text \<open>
  \<^verbatim>\<open>logJobEvent\<close> (the same function in the API and in the worker): the insert is inside
  \<^verbatim>\<open>try { ... } catch (_) {}\<close>. \<open>ef\<close> tells for which event type the insert throws.
\<close>

definition logJobEvent :: "(string \<Rightarrow> bool) \<Rightarrow> nat \<Rightarrow> string \<Rightarrow> string \<Rightarrow> string \<Rightarrow> store \<Rightarrow> store" where
  "logJobEvent ef job_id client_id event_type message s =
     (if ef event_type then s
      else s\<lparr>job_events := job_events s @
             [\<lparr>e_job_id = job_id, e_client_id = client_id, e_event_type = event_type,
               e_message = Some message\<rparr>]\<rparr>)"

text \<open>The settings row of a client: \<^verbatim>\<open>quotaR.rows[0]\<close>.\<close>

definition settings_of :: "store \<Rightarrow> string \<Rightarrow> settings_row option" where
  "settings_of s clientId = find (\<lambda>r. q_client_id r = clientId) (site_settings s)"

text \<open>\<^verbatim>\<open>quotaR.rows[0]?.plan_code || "starter"\<close>\<close>

definition plan_of :: "store \<Rightarrow> string \<Rightarrow> string" where
  "plan_of s clientId =
     (case settings_of s clientId of
        None \<Rightarrow> ''starter''
      | Some r \<Rightarrow> (case q_plan_code r of
                     None \<Rightarrow> ''starter''
                   | Some p \<Rightarrow> (if p = [] then ''starter'' else p)))"

text \<open>\<^verbatim>\<open>Number(quotaR.rows[0]?.monthly_quota_aej || 500)\<close>: a missing row, a NULL and a 0 all give 500.\<close>

definition quota_of :: "store \<Rightarrow> string \<Rightarrow> int" where
  "quota_of s clientId =
     (case settings_of s clientId of
        None \<Rightarrow> 500
      | Some r \<Rightarrow> (case q_monthly_quota_aej r of
                     None \<Rightarrow> 500
                   | Some q \<Rightarrow> (if q = 0 then 500 else q)))"

text \<open>
  \<^verbatim>\<open>SELECT COALESCE(SUM(aej_used),0) FROM c360_aej_logs WHERE client_id=$1 AND created_at
  >= monthStart AND created_at < monthEnd\<close>
\<close>

definition month_total :: "string \<Rightarrow> nat \<Rightarrow> aej_log_row list \<Rightarrow> int" where
  "month_total clientId now logs =
     sum_list (map l_aej_used
       (filter (\<lambda>l. l_client_id l = clientId \<and> l_created_at l = now) logs))"

definition consumed_of :: "store \<Rightarrow> string \<Rightarrow> nat \<Rightarrow> int" where
  "consumed_of s clientId now = month_total clientId now (aej_logs s)"

text \<open>\<^verbatim>\<open>SELECT COALESCE(SUM(aej_estimated),0) FROM c360_aej_holds WHERE client_id=$1 AND status='held'\<close>\<close>

definition held_total :: "string \<Rightarrow> hold_row list \<Rightarrow> int" where
  "held_total clientId hs =
     sum_list (map h_aej_estimated
       (filter (\<lambda>h. h_client_id h = clientId \<and> h_status h = ''held'') hs))"

definition held_of :: "store \<Rightarrow> string \<Rightarrow> int" where
  "held_of s clientId = held_total clientId (holds s)"

text \<open>\<^verbatim>\<open>SELECT job_id FROM c360_idempotency WHERE client_id=$1 AND idem_key=$2\<close>, first row.\<close>

definition idem_lookup :: "store \<Rightarrow> string \<Rightarrow> string \<Rightarrow> nat option" where
  "idem_lookup s clientId key =
     map_option k_job_id
       (find (\<lambda>r. k_client_id r = clientId \<and> k_idem_key r = key) (idempotency s))"

section \<open>Admission: POST /v1/jobs/create\<close>

record quota_report =
  qr_plan :: string
  qr_monthly_quota_aej :: int
  qr_aej_consumed :: int
  qr_aej_held :: int
  qr_aej_needed :: int
  qr_aej_remaining :: int

text \<open>
  The responses of the endpoint: 400 \<^verbatim>\<open>schema_invalid\<close> with the details, 200 with
  \<^verbatim>\<open>idempotent: true\<close> (job id, status), 402 \<^verbatim>\<open>quota_exceeded\<close> with the quota snapshot,
  200 for a created job (job id, status, estimate), 500 \<^verbatim>\<open>job_create_error\<close>.
\<close>

datatype response =
    SchemaInvalid "string list"
  | IdempotentHit nat string
  | QuotaExceeded quota_report
  | Created nat string int
  | JobCreateError

text \<open>
  The three inserts of the transaction. The job id is the next value of the table's
  sequence. A job or a hold that already has this id violates a primary key: the handler
  catches the error, rolls back and answers 500 (the sequence keeps its increment).
\<close>

definition insert_admitted :: "store \<Rightarrow> string \<Rightarrow> string \<Rightarrow> body \<Rightarrow> string option \<Rightarrow> int \<Rightarrow> (nat \<times> store) option" where
  "insert_admitted s clientId mode b idemKey aejEstimated =
     (let jobId = job_seq s in
      if jobId \<in> j_id ` set (jobs s) \<or> jobId \<in> h_job_id ` set (holds s) then None
      else Some (jobId,
        s\<lparr>jobs := jobs s @
             [\<lparr>j_id = jobId, j_client_id = clientId, j_mode = mode, j_status = ''queued'',
               j_progress = 0, j_request_json = Some b, j_result_json = None,
               j_idempotency_key = idemKey, j_aej_estimated = aejEstimated,
               j_aej_final = None, j_error_text = None, j_finished_at = None\<rparr>],
           job_seq := Suc jobId,
           holds := holds s @
             [\<lparr>h_job_id = jobId, h_client_id = clientId, h_aej_estimated = aejEstimated,
               h_status = ''held'', h_released_at = None\<rparr>],
           idempotency :=
             (case idemKey of
                None \<Rightarrow> idempotency s
              | Some k \<Rightarrow> idempotency s @
                  [\<lparr>k_client_id = clientId, k_idem_key = k, k_job_id = jobId\<rparr>])\<rparr>))"

text \<open>
  The reservation: \<^verbatim>\<open>per = AEJ_ESTIMATE_PER_ITEM[mode] || 8\<close>,
  \<^verbatim>\<open>aejEstimated = Math.max(1, Number(per) * itemsCount)\<close>.
\<close>

definition aejEstimated :: "string \<Rightarrow> nat \<Rightarrow> int" where
  "aejEstimated mode itemsCount =
     (let per = (case AEJ_ESTIMATE_PER_ITEM mode of Some p \<Rightarrow> p | None \<Rightarrow> 8)
      in max 1 (per * int itemsCount))"

definition jobs_create :: "(string \<Rightarrow> bool) \<Rightarrow> store \<Rightarrow> headers \<Rightarrow> string \<Rightarrow> request \<Rightarrow> nat \<Rightarrow> response \<times> store" where
  "jobs_create ef s hdrs clientId req now =
     (case validateCreatePayload req of
        Invalid errs \<Rightarrow> (SchemaInvalid errs, s)
      | Valid mode items \<Rightarrow>
          (let itemsCount = length items;
               idemKey = pickIdempotencyKey hdrs;
               aejEstimated = aejEstimated mode itemsCount
           in case (case idemKey of None \<Rightarrow> None | Some k \<Rightarrow> idem_lookup s clientId k) of
                Some existingJobId \<Rightarrow>
                  (IdempotentHit existingJobId ''queued'',
                   logJobEvent ef existingJobId clientId ''idempotent_hit''
                     ''Idempotency hit: returning existing job'' s)
              | None \<Rightarrow>
                  (let plan = plan_of s clientId;
                       quota = quota_of s clientId;
                       consumed = consumed_of s clientId now;
                       held = held_of s clientId
                   in if consumed + held + aejEstimated > quota
                      then (QuotaExceeded
                              \<lparr>qr_plan = plan, qr_monthly_quota_aej = quota,
                               qr_aej_consumed = consumed, qr_aej_held = held,
                               qr_aej_needed = aejEstimated,
                               qr_aej_remaining = max 0 (quota - consumed - held)\<rparr>, s)
                      else (case insert_admitted s clientId mode
                                   (case req of Body b \<Rightarrow> b) idemKey aejEstimated of
                              None \<Rightarrow> (JobCreateError, s\<lparr>job_seq := Suc (job_seq s)\<rparr>)
                            | Some (jobId, s') \<Rightarrow>
                                (Created jobId ''queued'' aejEstimated,
                                 logJobEvent ef jobId clientId ''created''
                                   ''Job created & enqueued''
                                   (s'\<lparr>queue := queue s' @ [jobId]\<rparr>))))))"

section \<open>The worker\<close>

text \<open>
  What a run of the worker receives from outside the store: the value \<^verbatim>\<open>isForceDegraded()\<close>
  returns, the outcome of \<^verbatim>\<open>callOpenAI\<close> (the message of the error it throws, or the parsed
  output), the event types whose insert into \<^verbatim>\<open>c360_job_events\<close> throws, and the decision
  types whose insert into \<^verbatim>\<open>c360_decision_log\<close> throws, with the message of the error.
\<close>

record env =
  forced :: bool
  backend :: "string + json"
  event_fails :: "string \<Rightarrow> bool"
  decision_fails :: "string \<Rightarrow> string option"

definition getJob :: "store \<Rightarrow> nat \<Rightarrow> job_row option" where
  "getJob s jobId = find (\<lambda>j. j_id j = jobId) (jobs s)"

text \<open>\<^verbatim>\<open>UPDATE c360_jobs SET ... WHERE id=$n\<close>; the patch is the function \<open>f\<close>.\<close>

definition setJob :: "nat \<Rightarrow> (job_row \<Rightarrow> job_row) \<Rightarrow> store \<Rightarrow> store" where
  "setJob jobId f s = s\<lparr>jobs := map (\<lambda>j. if j_id j = jobId then f j else j) (jobs s)\<rparr>"

text \<open>
  \<^verbatim>\<open>UPDATE c360_aej_holds SET status='released', released_at=NOW()
  WHERE job_id=$1 AND client_id=$2 AND status='held'\<close>
\<close>

definition release :: "string \<Rightarrow> nat \<Rightarrow> nat \<Rightarrow> hold_row list \<Rightarrow> hold_row list" where
  "release client_id job_id now hs =
     map (\<lambda>h. if h_job_id h = job_id \<and> h_client_id h = client_id \<and> h_status h = ''held''
               then h\<lparr>h_status := ''released'', h_released_at := Some now\<rparr> else h) hs"

definition releaseHold :: "string \<Rightarrow> nat \<Rightarrow> nat \<Rightarrow> store \<Rightarrow> store" where
  "releaseHold client_id job_id now s = s\<lparr>holds := release client_id job_id now (holds s)\<rparr>"

definition job_total :: "string \<Rightarrow> nat \<Rightarrow> aej_log_row list \<Rightarrow> int" where
  "job_total client_id job_id logs =
     sum_list (map l_aej_used
       (filter (\<lambda>l. l_client_id l = client_id \<and> l_job_id l = job_id) logs))"

definition computeAEJTotal :: "string \<Rightarrow> nat \<Rightarrow> store \<Rightarrow> int" where
  "computeAEJTotal client_id job_id s = job_total client_id job_id (aej_logs s)"

text \<open>\<^verbatim>\<open>INSERT INTO c360_aej_logs ... ON CONFLICT (client_id, job_id, stage) DO NOTHING\<close>\<close>

definition ledger_insert :: "string \<Rightarrow> nat \<Rightarrow> string \<Rightarrow> int \<Rightarrow> nat \<Rightarrow> aej_log_row list \<Rightarrow> aej_log_row list" where
  "ledger_insert client_id job_id stage aej_used now logs =
     (if \<exists>l \<in> set logs. l_client_id l = client_id \<and> l_job_id l = job_id \<and> l_stage l = stage
      then logs
      else logs @
             [\<lparr>l_client_id = client_id, l_job_id = job_id, l_stage = stage,
               l_aej_used = aej_used, l_created_at = now\<rparr>])"

definition logAEJ :: "string \<Rightarrow> nat \<Rightarrow> string \<Rightarrow> int \<Rightarrow> nat \<Rightarrow> store \<Rightarrow> store" where
  "logAEJ client_id job_id stage aej_used now s =
     s\<lparr>aej_logs := ledger_insert client_id job_id stage aej_used now (aej_logs s)\<rparr>"

text \<open>
  \<^verbatim>\<open>INSERT INTO c360_decision_log ... ON CONFLICT (client_id, job_id, decision_type) DO NOTHING\<close>
\<close>

definition decisions_insert :: "string \<Rightarrow> nat \<Rightarrow> string \<Rightarrow> string \<Rightarrow> decision_row list \<Rightarrow> decision_row list" where
  "decisions_insert client_id job_id decision_type decision_reason ds =
     (if \<exists>d \<in> set ds.
           d_client_id d = client_id \<and> d_job_id d = job_id \<and> d_decision_type d = decision_type
      then ds
      else ds @
             [\<lparr>d_client_id = client_id, d_job_id = job_id, d_decision_type = decision_type,
               d_decision_reason = decision_reason\<rparr>])"

definition insert_decision :: "string \<Rightarrow> nat \<Rightarrow> string \<Rightarrow> string \<Rightarrow> store \<Rightarrow> store" where
  "insert_decision client_id job_id decision_type decision_reason s =
     s\<lparr>decision_log :=
         decisions_insert client_id job_id decision_type decision_reason (decision_log s)\<rparr>"

text \<open>
  \<^verbatim>\<open>logDecision\<close>: the insert is not inside a \<^verbatim>\<open>try\<close>; an error of the store propagates
  to the caller (\<open>Inl\<close> its message). The denormalised content identity of the row
  (\<^verbatim>\<open>inferContentMeta\<close>) is not part of the model.
\<close>

definition logDecision :: "(string \<Rightarrow> string option) \<Rightarrow> string \<Rightarrow> nat \<Rightarrow> string \<Rightarrow> string \<Rightarrow> store \<Rightarrow> string + store" where
  "logDecision df client_id job_id decision_type decision_reason s =
     (case df decision_type of
        Some msg \<Rightarrow> Inl msg
      | None \<Rightarrow> Inr (insert_decision client_id job_id decision_type decision_reason s))"

definition normalizeMode :: "mode_value \<Rightarrow> mode_value" where
  "normalizeMode mode =
     (if \<not> mode_truthy mode then ModeString ''quick_boost''
      else if mode = ModeString ''full'' then ModeString ''full_content''
      else mode)"

text \<open>
  The modes for which \<^verbatim>\<open>pickPromptAndSchema\<close> has a case; for any other it throws. The
  \<^verbatim>\<open>switch\<close> compares with \<^verbatim>\<open>===\<close>: a value that is not a string matches no case.
\<close>

definition supported_mode :: "mode_value \<Rightarrow> bool" where
  "supported_mode mode =
     (mode = ModeString ''quick_boost'' \<or> mode = ModeString ''full_content''
      \<or> mode = ModeString ''ecom_catalog'')"

text \<open>\<^verbatim>\<open>buildDeterministicFallback\<close>; \<open>CHR 0xE9\<close> is the letter e with an acute accent.\<close>

definition buildDeterministicFallback :: "mode_value \<Rightarrow> json" where
  "buildDeterministicFallback mode =
     (if mode = ModeString ''ecom_catalog'' then
        JObj [(''mode'', JStr ''ecom_catalog''),
              (''product'', JObj
                 [(''short_description'', JStr ''Description courte (fallback).''),
                  (''long_description_html'', JStr ''<p>Description longue (fallback).</p>''),
                  (''bullets'', JArr [JStr ''Point 1'', JStr ''Point 2'', JStr ''Point 3'']),
                  (''specs'', JArr [])]),
              (''seo'', JObj
                 [(''focus_keyword'', JStr []),
                  (''tags'', JArr []),
                  (''meta_title'', JStr ''Titre (fallback)''),
                  (''meta_description'', JStr ''Meta description (fallback)'')])]
      else if mode = ModeString ''full_content'' then
        JObj [(''mode'', JStr ''full_content''),
              (''title'', JStr ''Titre (fallback)''),
              (''meta_description'', JStr ''Meta description (fallback)''),
              (''outline'', JArr [JStr ''H2 1'', JStr ''H2 2'', JStr ''H2 3'']),
              (''intro'', JStr ''Intro (fallback).''),
              (''sections'', JArr [JObj [(''h2'', JStr ''H2 1''), (''content'', JStr ''Contenu (fallback).'')]]),
              (''faq'', JArr [JObj [(''q'', JStr ''Question ?''),
                                    (''a'', JStr (''R'' @ [CHR 0xE9] @ ''ponse (fallback).''))]]),
              (''tags'', JArr [JStr ''fallback''])]
      else
        JObj [(''mode'', JStr ''quick_boost''),
              (''title'', JStr ''Titre (fallback)''),
              (''meta_description'', JStr ''Meta description (fallback)''),
              (''intro'', JStr ''Intro (fallback).''),
              (''reassurance'', JArr [JStr ''Livraison'',
                                      JStr (''Paiement s'' @ [CHR 0xE9] @ ''curis'' @ [CHR 0xE9]),
                                      JStr ''Support'']),
              (''faq'', JArr [JObj [(''q'', JStr ''Question ?''),
                                    (''a'', JStr (''R'' @ [CHR 0xE9] @ ''ponse (fallback).''))]])])"

text \<open>
  The reasons the worker writes to the decision log; \<open>CHR 0xE9\<close>, \<open>CHR 0xEA\<close> and
  \<open>CHR 0xE0\<close> are the accented letters of the French text.
\<close>

definition decision_reason_analysed :: string where
  "decision_reason_analysed =
     ''Analyse effectu'' @ [CHR 0xE9] @ ''e et mode de g'' @ [CHR 0xE9] @ ''n'' @ [CHR 0xE9]
     @ ''ration s'' @ [CHR 0xE9] @ ''lectionn'' @ [CHR 0xE9] @ ''.''"

definition decision_reason_modified :: "string \<Rightarrow> string" where
  "decision_reason_modified src =
     (if src = ''openai''
      then ''Optimisation IA g'' @ [CHR 0xE9] @ ''n'' @ [CHR 0xE9] @ ''r'' @ [CHR 0xE9]
           @ ''e et pr'' @ [CHR 0xEA] @ ''te '' @ [CHR 0xE0] @ '' '' @ [CHR 0xEA]
           @ ''tre appliqu'' @ [CHR 0xE9] @ ''e.''
      else ''Fallback utilis'' @ [CHR 0xE9] @ '' : optimisation pr'' @ [CHR 0xEA] @ ''te ''
           @ [CHR 0xE0] @ '' '' @ [CHR 0xEA] @ ''tre appliqu'' @ [CHR 0xE9] @ ''e.'')"

text \<open>
  The result of a run: the processor threw (with the message), returned
  \<^verbatim>\<open>{ ok: true, skipped: true }\<close> (with \<^verbatim>\<open>canceled: true\<close> or not), or returned
  \<^verbatim>\<open>{ ok: true, job_id }\<close>.
\<close>

datatype run_result = Thrown string | Skipped bool | Completed nat

text \<open>What a run did: its result, whether \<^verbatim>\<open>callOpenAI\<close> was invoked, the store it leaves.\<close>

record run =
  result :: run_result
  called_backend :: bool
  after :: store

text \<open>
  The start of a run, from \<^verbatim>\<open>setJob(jobId, { status: "running", progress: 10 })\<close> to the
  ledger entry of the analyse stage (the check of \<^verbatim>\<open>request_json\<close> lies between the two
  and is made by the caller).
\<close>

definition mark_running :: "env \<Rightarrow> job_row \<Rightarrow> store \<Rightarrow> store" where
  "mark_running en dbJob s =
     logJobEvent (event_fails en) (j_id dbJob) (j_client_id dbJob) ''running'' ''Job started''
       (setJob (j_id dbJob) (\<lambda>j. j\<lparr>j_status := ''running'', j_progress := 10\<rparr>) s)"

definition log_analyse :: "job_row \<Rightarrow> nat \<Rightarrow> store \<Rightarrow> store" where
  "log_analyse dbJob now s = logAEJ (j_client_id dbJob) (j_id dbJob) ''analyse'' 1 now s"

text \<open>Whether a JSON value is truthy in JavaScript.\<close>

definition js_truthy :: "json \<Rightarrow> bool" where
  "js_truthy v =
     (case v of
        JNull \<Rightarrow> False
      | JBool b \<Rightarrow> b
      | JNum n \<Rightarrow> n \<noteq> 0
      | JStr s \<Rightarrow> s \<noteq> []
      | JArr xs \<Rightarrow> True
      | JObj kvs \<Rightarrow> True)"

text \<open>
  The generation stage, the \<^verbatim>\<open>try { ... } catch (e) { llm_error = ...; exec = null }\<close> of
  the processor: the output of the backend if any, the source, the captured error, whether
  the backend was called, and the store. \<open>backend en\<close> is what \<^verbatim>\<open>callOpenAI\<close> throws, or
  the document it parsed from the response; its last statement,
  \<^verbatim>\<open>if (!parsed) throw new Error("OPENAI_NO_JSON_OUTPUT")\<close>, is the test of \<open>js_truthy\<close>.
\<close>

definition run_generation :: "env \<Rightarrow> job_row \<Rightarrow> mode_value \<Rightarrow> store \<Rightarrow> json option \<times> string \<times> string option \<times> bool \<times> store" where
  "run_generation en dbJob mode s =
     (if forced en then (None, ''deterministic'', Some ''force_degraded'', False, s)
      else if \<not> supported_mode mode
      then (None, ''deterministic'', Some (''Unsupported mode: '' @ mode_string mode), False, s)
      else
        (let s1 = logJobEvent (event_fails en) (j_id dbJob) (j_client_id dbJob)
                    ''openai_call'' ''Calling OpenAI'' s
         in case backend en of
              Inl msg \<Rightarrow> (None, ''deterministic'', Some msg, True, s1)
            | Inr e \<Rightarrow>
                if \<not> js_truthy e
                then (None, ''deterministic'', Some ''OPENAI_NO_JSON_OUTPUT'', True, s1)
                else (Some e, ''openai'', None, True,
                      logJobEvent (event_fails en) (j_id dbJob) (j_client_id dbJob)
                        ''openai_ok'' ''OpenAI returned'' s1)))"

text \<open>
  The end of a run, from the ledger entry of the generation stage to the release of the
  hold.
\<close>

definition run_settle :: "env \<Rightarrow> job_row \<Rightarrow> mode_value \<Rightarrow> nat \<Rightarrow> json option \<times> string \<times> string option \<times> bool \<times> store \<Rightarrow> run" where
  "run_settle en dbJob mode now g =
     (case g of (exec0, src, err, called, s) \<Rightarrow>
       (let client = j_client_id dbJob;
            jobId = j_id dbJob;
            s1 = logAEJ client jobId ''generation'' (if src = ''openai'' then 5 else 1) now s;
            (ex, s2) =
               (case exec0 of
                  Some e \<Rightarrow> (e, s1)
                | None \<Rightarrow>
                    (buildDeterministicFallback mode,
                     logJobEvent (event_fails en) jobId client ''fallback''
                       ''Using deterministic fallback'' s1));
            resultPayload =
               \<lparr>r_ok = True,
                results = [\<lparr>exec = ex, source = src, llm_error = err, r_status = ''ready_to_review''\<rparr>]\<rparr>;
            s3 = setJob jobId
                   (\<lambda>j. j\<lparr>j_status := ''done'', j_progress := 100, j_result_json := Some resultPayload\<rparr>) s2;
            s4 = logJobEvent (event_fails en) jobId client ''done'' ''Job finished'' s3
        in case logDecision (decision_fails en) client jobId ''modified''
                  (decision_reason_modified src) s4 of
             Inl msg \<Rightarrow> \<lparr>result = Thrown msg, called_backend = called, after = s4\<rparr>
           | Inr s5 \<Rightarrow>
               (let s6 = logAEJ client jobId ''application'' 1 now s5;
                    aejFinal = computeAEJTotal client jobId s6;
                    s7 = setJob jobId (\<lambda>j. j\<lparr>j_aej_final := Some aejFinal\<rparr>) s6
                in \<lparr>result = Completed jobId, called_backend = called,
                    after = releaseHold client jobId now s7\<rparr>)))"

text \<open>
  The processor of the BullMQ worker, for the job id of the delivered queue entry. Its
  mode is \<^verbatim>\<open>normalizeMode(reqJson.mode || dbJob.mode)\<close>, where \<^verbatim>\<open>reqJson.mode\<close> is the value
  the request carried, a string or not, and \<^verbatim>\<open>dbJob.mode\<close> is the text column.
\<close>

definition processor :: "env \<Rightarrow> store \<Rightarrow> nat \<Rightarrow> nat \<Rightarrow> run" where
  "processor en s jobId now =
     (case getJob s jobId of
        None \<Rightarrow> \<lparr>result = Thrown (''job_not_found:'' @ show_nat jobId), called_backend = False, after = s\<rparr>
      | Some dbJob \<Rightarrow>
          if j_status dbJob = ''done'' then \<lparr>result = Skipped False, called_backend = False, after = s\<rparr>
          else if j_status dbJob = ''canceled''
          then \<lparr>result = Skipped True, called_backend = False,
                after = releaseHold (j_client_id dbJob) jobId now s\<rparr>
          else
            (let s1 = mark_running en dbJob s in
             case j_request_json dbJob of
               None \<Rightarrow> \<lparr>result = Thrown ''missing_request_json'', called_backend = False, after = s1\<rparr>
             | Some reqJson \<Rightarrow>
                 (let mode = normalizeMode (if mode_truthy (b_mode reqJson) then b_mode reqJson else ModeString (j_mode dbJob));
                      s2 = log_analyse dbJob now s1
                  in case logDecision (decision_fails en) (j_client_id dbJob) jobId ''analysed''
                            decision_reason_analysed s2 of
                       Inl msg \<Rightarrow> \<lparr>result = Thrown msg, called_backend = False, after = s2\<rparr>
                     | Inr s3 \<Rightarrow>
                         (let s4 = logAEJ (j_client_id dbJob) jobId ''decision'' 1 now s3;
                              s5 = setJob jobId (\<lambda>j. j\<lparr>j_progress := 30\<rparr>) s4
                          in run_settle en dbJob mode now (run_generation en dbJob mode s5)))))"

text \<open>
  The handler of the worker's \<^verbatim>\<open>failed\<close> event: the job is marked \<^verbatim>\<open>error\<close> with the
  message, an event is logged, the hold is released.
\<close>

definition on_failed :: "env \<Rightarrow> store \<Rightarrow> nat \<Rightarrow> string \<Rightarrow> nat \<Rightarrow> store" where
  "on_failed en s jobId msg now =
     (case getJob s jobId of
        None \<Rightarrow> s
      | Some dbJob \<Rightarrow>
          releaseHold (j_client_id dbJob) jobId now
            (logJobEvent (event_fails en) jobId (j_client_id dbJob) ''error'' ''Job failed''
               (setJob jobId
                  (\<lambda>j. j\<lparr>j_status := ''error'', j_progress := 100, j_error_text := Some msg\<rparr>) s)))"

text \<open>One delivery of a queue entry to the worker: the processor, then the handler if it threw.\<close>

definition deliver :: "env \<Rightarrow> store \<Rightarrow> nat \<Rightarrow> nat \<Rightarrow> run" where
  "deliver en s jobId now =
     (let r = processor en s jobId now in
      case result r of
        Thrown msg \<Rightarrow> r\<lparr>after := on_failed en (after r) jobId msg now\<rparr>
      | _ \<Rightarrow> r)"

section \<open>Administrative cancel and retry\<close>

datatype admin_response =
    JobNotFound
  | AlreadyFinal string
  | CanceledOk string
  | RetriedOk string

text \<open>
  \<^verbatim>\<open>POST /v1/admin/jobs/:id/cancel\<close>. A job that is \<^verbatim>\<open>done\<close> or \<^verbatim>\<open>error\<close> is left as it
  is. Otherwise the job is marked \<^verbatim>\<open>canceled\<close> (\<^verbatim>\<open>error_text=COALESCE(error_text,'')\<close>), its
  entry is removed from the queue, and every held hold of the job is released.
\<close>

definition admin_cancel :: "(string \<Rightarrow> bool) \<Rightarrow> store \<Rightarrow> nat \<Rightarrow> nat \<Rightarrow> admin_response \<times> store" where
  "admin_cancel ef s jobId now =
     (case getJob s jobId of
        None \<Rightarrow> (JobNotFound, s)
      | Some row \<Rightarrow>
          if j_status row = ''done'' \<or> j_status row = ''error'' then (AlreadyFinal (j_status row), s)
          else
            (let s1 = setJob jobId
                        (\<lambda>j. j\<lparr>j_status := ''canceled'',
                                j_error_text := Some (case j_error_text j of None \<Rightarrow> [] | Some e \<Rightarrow> e)\<rparr>) s;
                 s2 = s1\<lparr>queue := filter (\<lambda>q. q \<noteq> jobId) (queue s1)\<rparr>;
                 s3 = s2\<lparr>holds := map (\<lambda>h. if h_job_id h = jobId \<and> h_status h = ''held''
                                              then h\<lparr>h_status := ''released'', h_released_at := Some now\<rparr>
                                              else h) (holds s2)\<rparr>
             in (CanceledOk ''canceled'',
                 logJobEvent ef jobId (j_client_id row) ''canceled'' ''Canceled by admin'' s3)))"

text \<open>
  \<^verbatim>\<open>POST /v1/admin/jobs/:id/retry\<close>. The job is reset whatever its status; the update does
  not touch \<^verbatim>\<open>finished_at\<close>. The hold is inserted with \<^verbatim>\<open>ON CONFLICT DO NOTHING\<close>, and
  \<^verbatim>\<open>job_id\<close> is the primary key of \<^verbatim>\<open>c360_aej_holds\<close>: a job that has a hold row, held or
  released, gets none.
\<close>

definition admin_retry :: "(string \<Rightarrow> bool) \<Rightarrow> store \<Rightarrow> nat \<Rightarrow> admin_response \<times> store" where
  "admin_retry ef s jobId =
     (case getJob s jobId of
        None \<Rightarrow> (JobNotFound, s)
      | Some row \<Rightarrow>
          (let s1 = setJob jobId
                      (\<lambda>j. j\<lparr>j_status := ''queued'', j_progress := 0, j_error_text := None,
                              j_result_json := None\<rparr>) s;
               s2 = (if jobId \<in> h_job_id ` set (holds s1) then s1
                     else s1\<lparr>holds := holds s1 @
                            map (\<lambda>j. \<lparr>h_job_id = jobId, h_client_id = j_client_id j,
                                      h_aej_estimated = j_aej_estimated j, h_status = ''held'',
                                      h_released_at = None\<rparr>)
                                (case getJob s1 jobId of None \<Rightarrow> [] | Some j \<Rightarrow> [j])\<rparr>);
               s3 = s2\<lparr>queue := queue s2 @ [jobId]\<rparr>
           in (RetriedOk ''queued'',
               logJobEvent ef jobId (j_client_id row) ''retry'' ''Retried by admin'' s3)))"

text \<open>
  \<^verbatim>\<open>retryJob\<close>, the helper of the browser console
  (\<^verbatim>\<open>POST /v1/admin/ui/api/jobs/:id/retry\<close>): it clears \<^verbatim>\<open>finished_at\<close> as well, and does
  not touch the holds. \<open>None\<close> is the thrown \<^verbatim>\<open>job_not_found\<close>.
\<close>

definition retryJob :: "(string \<Rightarrow> bool) \<Rightarrow> store \<Rightarrow> nat \<Rightarrow> store option" where
  "retryJob ef s jobId =
     (case getJob s jobId of
        None \<Rightarrow> None
      | Some row \<Rightarrow>
          (let s1 = setJob jobId
                      (\<lambda>j. j\<lparr>j_status := ''queued'', j_progress := 0, j_error_text := None,
                              j_result_json := None, j_finished_at := None\<rparr>) s;
               s2 = s1\<lparr>queue := queue s1 @ [jobId]\<rparr>
           in Some (logJobEvent ef jobId (j_client_id row) ''retry'' ''Retried by admin'' s2)))"

section \<open>Billing summary\<close>

record billing_summary =
  bs_month :: nat
  bs_plan :: string
  bs_monthly_quota_aej :: int
  bs_aej_consumed :: int
  bs_aej_held :: int
  bs_aej_remaining :: int
  bs_analysis :: int
  bs_writing :: int
  bs_followup :: int
  bs_aej_balance :: int

text \<open>\<^verbatim>\<open>COALESCE(SUM(aej_used) FILTER (WHERE stage IN (...)),0)\<close> over the rows of the month.\<close>

definition stage_sum :: "store \<Rightarrow> string \<Rightarrow> nat \<Rightarrow> string list \<Rightarrow> int" where
  "stage_sum s clientId now stages =
     sum_list (map l_aej_used
       (filter (\<lambda>l. l_client_id l = clientId \<and> l_created_at l = now \<and> l_stage l \<in> set stages)
          (aej_logs s)))"

definition fetchBillingSummary :: "store \<Rightarrow> string \<Rightarrow> nat \<Rightarrow> billing_summary" where
  "fetchBillingSummary s clientId now =
     (let plan = plan_of s clientId;
          quota = quota_of s clientId;
          consumed = consumed_of s clientId now;
          held = held_of s clientId;
          aej_balance =
            (case find (\<lambda>c. c_id c = clientId) (clients s) of
               None \<Rightarrow> 0
             | Some c \<Rightarrow> (case c_aej_balance c of None \<Rightarrow> 0 | Some b \<Rightarrow> b))
      in \<lparr>bs_month = now, bs_plan = plan, bs_monthly_quota_aej = quota,
          bs_aej_consumed = consumed, bs_aej_held = held,
          bs_aej_remaining = max 0 (quota - consumed - held),
          bs_analysis = stage_sum s clientId now [''analyse'', ''decision''],
          bs_writing = stage_sum s clientId now [''generation'', ''application''],
          bs_followup = stage_sum s clientId now [''suivi''],
          bs_aej_balance = aej_balance\<rparr>)"

section \<open>The strict output schemas\<close>

text \<open>
  The part of JSON Schema that \<^verbatim>\<open>schemas.js\<close> uses. A string schema has an optional
  \<^verbatim>\<open>const\<close>, \<^verbatim>\<open>minLength\<close> (0 when absent), an optional \<^verbatim>\<open>maxLength\<close> and an optional
  \<^verbatim>\<open>pattern\<close>; an array schema has \<^verbatim>\<open>minItems\<close> (0 when absent), an optional
  \<^verbatim>\<open>maxItems\<close> and the schema of its items; an object schema has its \<^verbatim>\<open>properties\<close> and
  its \<^verbatim>\<open>required\<close> keys, and \<^verbatim>\<open>additionalProperties: false\<close> throughout.
\<close>

datatype schema =
    SString "string option" nat "nat option" "(string \<Rightarrow> bool) option"
  | SEnum "string list"
  | SArray nat "nat option" schema
  | SObject "(string \<times> schema) list" "string list"

fun conforms :: "schema \<Rightarrow> json \<Rightarrow> bool" where
  "conforms (SString c mn mx pat) (JStr s) =
     ((case c of None \<Rightarrow> True | Some v \<Rightarrow> s = v) \<and> mn \<le> length s
      \<and> (case mx of None \<Rightarrow> True | Some m \<Rightarrow> length s \<le> m)
      \<and> (case pat of None \<Rightarrow> True | Some p \<Rightarrow> p s))"
| "conforms (SEnum vs) (JStr s) = (s \<in> set vs)"
| "conforms (SArray mn mx it) (JArr xs) =
     (mn \<le> length xs \<and> (case mx of None \<Rightarrow> True | Some m \<Rightarrow> length xs \<le> m)
      \<and> list_all (conforms it) xs)"
| "conforms (SObject props req) (JObj kvs) =
     (list_all (\<lambda>k. k \<in> fst ` set kvs) req
      \<and> list_all (\<lambda>kv. case map_of props (fst kv) of
                          None \<Rightarrow> False
                        | Some sc \<Rightarrow> conforms sc (snd kv)) kvs)"
| "conforms _ _ = False"

text \<open>The pattern \<^verbatim>\<open>^[a-z0-9]+(?:-[a-z0-9]+)*$\<close> of the slug.\<close>

definition slug_char :: "char \<Rightarrow> bool" where
  "slug_char c =
     (let n = (of_char c :: nat) in (97 \<le> n \<and> n \<le> 122) \<or> (48 \<le> n \<and> n \<le> 57))"

fun slug_from :: "bool \<Rightarrow> string \<Rightarrow> bool" where
  "slug_from prev [] = prev"
| "slug_from prev (c # cs) =
     (if slug_char c then slug_from True cs
      else if c = CHR ''-'' \<and> prev then slug_from False cs
      else False)"

definition is_slug :: "string \<Rightarrow> bool" where
  "is_slug s = slug_from False s"

definition str_between :: "nat \<Rightarrow> nat \<Rightarrow> schema" where
  "str_between mn mx = SString None mn (Some mx) None"

definition faq_schema :: "nat \<Rightarrow> nat option \<Rightarrow> nat \<Rightarrow> nat \<Rightarrow> schema" where
  "faq_schema mn mx amin amax =
     SArray mn mx (SObject [(''q'', str_between 8 120), (''a'', str_between amin amax)] [''q'', ''a''])"

definition QUICK_BOOST_SCHEMA :: schema where
  "QUICK_BOOST_SCHEMA =
     SObject
       [(''mode'', SString (Some ''quick_boost'') 0 None None),
        (''title'', str_between 15 70),
        (''meta_description'', str_between 120 170),
        (''intro'', str_between 120 600),
        (''h2'', SArray 3 (Some 6) (str_between 6 80)),
        (''faq'', faq_schema 0 (Some 4) 20 300),
        (''seo'', SObject
           [(''focus_keyword'', str_between 3 40),
            (''tags'', SArray 0 (Some 8) (str_between 2 30))]
           [''focus_keyword'', ''tags''])]
       [''mode'', ''title'', ''meta_description'', ''intro'', ''h2'', ''faq'', ''seo'']"

definition FULL_CONTENT_SCHEMA :: schema where
  "FULL_CONTENT_SCHEMA =
     SObject
       [(''mode'', SString (Some ''full_content'') 0 None None),
        (''title'', str_between 15 80),
        (''meta_description'', str_between 120 170),
        (''outline'', SArray 3 (Some 8)
           (SObject
              [(''h2'', str_between 6 80),
               (''bullets'', SArray 2 (Some 5) (str_between 6 120)),
               (''notes'', str_between 0 160)]
              [''h2'', ''bullets'', ''notes''])),
        (''content_html'', str_between 600 12000),
        (''faq'', faq_schema 2 (Some 6) 30 450),
        (''seo'', SObject
           [(''focus_keyword'', str_between 3 40),
            (''tags'', SArray 3 (Some 12) (str_between 2 30)),
            (''slug'', SString None 0 None (Some is_slug)),
            (''meta_title'', str_between 35 75),
            (''internal_links'', SArray 0 (Some 8)
               (SObject [(''anchor'', str_between 2 60), (''url'', str_between 1 400)]
                  [''anchor'', ''url''])),
            (''image_alts'', SArray 2 (Some 8) (str_between 6 120))]
           [''focus_keyword'', ''tags'', ''slug'', ''meta_title'', ''internal_links'', ''image_alts'']),
        (''checks'', SObject
           [(''tone'', str_between 2 40),
            (''plagiarism_risk'', SEnum [''low'', ''medium'', ''high'']),
            (''readability'', SEnum [''easy'', ''medium'', ''hard''])]
           [''tone'', ''plagiarism_risk'', ''readability''])]
       [''mode'', ''title'', ''meta_description'', ''outline'', ''content_html'', ''faq'', ''seo'',
        ''checks'']"

definition ECOM_CATALOG_SCHEMA :: schema where
  "ECOM_CATALOG_SCHEMA =
     SObject
       [(''mode'', SString (Some ''ecom_catalog'') 0 None None),
        (''product'', SObject
           [(''title'', str_between 10 90),
            (''short_description'', str_between 40 240),
            (''long_description_html'', str_between 400 9000),
            (''benefits'', SArray 3 (Some 8) (str_between 6 120)),
            (''specs'', SArray 0 (Some 12)
               (SObject [(''k'', str_between 2 40), (''v'', str_between 1 80)] [''k'', ''v''])),
            (''usage'', SArray 2 (Some 8) (str_between 6 140)),
            (''faq'', faq_schema 0 (Some 6) 30 450),
            (''cross_sell_copy'', SArray 2 (Some 6) (str_between 8 120))]
           [''title'', ''short_description'', ''long_description_html'', ''benefits'', ''specs'',
            ''usage'', ''faq'', ''cross_sell_copy'']),
        (''seo'', SObject
           [(''focus_keyword'', str_between 3 40),
            (''tags'', SArray 3 (Some 12) (str_between 2 30)),
            (''meta_title'', str_between 35 75),
            (''meta_description'', str_between 120 170)]
           [''focus_keyword'', ''tags'', ''meta_title'', ''meta_description''])]
       [''mode'', ''product'', ''seo'']"

text \<open>The schema \<^verbatim>\<open>pickPromptAndSchema\<close> hands to the backend for a supported mode.\<close>

definition schema_of_mode :: "mode_value \<Rightarrow> schema option" where
  "schema_of_mode mode =
     (if mode = ModeString ''quick_boost'' then Some QUICK_BOOST_SCHEMA
      else if mode = ModeString ''full_content'' then Some FULL_CONTENT_SCHEMA
      else if mode = ModeString ''ecom_catalog'' then Some ECOM_CATALOG_SCHEMA
      else None)"

section \<open>Observations\<close>

text \<open>
  Two stores that differ at most in the event log; the field of a JSON object; and the
  documents and sources a client reads in the result of a job (\<^verbatim>\<open>result.results[i].exec\<close>,
  \<^verbatim>\<open>result.results[i].source\<close> of \<^verbatim>\<open>GET /v1/jobs/:id/result\<close>).
\<close>

definition ev_eq :: "store \<Rightarrow> store \<Rightarrow> bool" where
  "ev_eq s s' =
     (jobs s = jobs s' \<and> job_seq s = job_seq s' \<and> holds s = holds s' \<and> aej_logs s = aej_logs s'
      \<and> idempotency s = idempotency s' \<and> site_settings s = site_settings s'
      \<and> decision_log s = decision_log s' \<and> clients s = clients s' \<and> queue s = queue s')"

definition json_field :: "json \<Rightarrow> string \<Rightarrow> json option" where
  "json_field v k = (case v of JObj kvs \<Rightarrow> map_of kvs k | _ \<Rightarrow> None)"

definition result_execs :: "store \<Rightarrow> nat \<Rightarrow> json list" where
  "result_execs s jobId =
     (case getJob s jobId of
        None \<Rightarrow> []
      | Some row \<Rightarrow> (case j_result_json row of None \<Rightarrow> [] | Some p \<Rightarrow> map exec (results p)))"

definition result_sources :: "store \<Rightarrow> nat \<Rightarrow> string list" where
  "result_sources s jobId =
     (case getJob s jobId of
        None \<Rightarrow> []
      | Some row \<Rightarrow> (case j_result_json row of None \<Rightarrow> [] | Some p \<Rightarrow> map source (results p)))"

section \<open>Sequences of admissions and deliveries\<close>

text \<open>
  An operation on the store: an admission (\<^verbatim>\<open>POST /v1/jobs/create\<close>, with the failures of
  the event log, the headers, the tenant and the body), or the delivery of a queue entry
  to the worker (with the environment of the run and the job id of the entry).
\<close>

datatype op = Admit "string \<Rightarrow> bool" headers string request | Deliver env nat

definition apply_op :: "store \<Rightarrow> nat \<Rightarrow> op \<Rightarrow> store" where
  "apply_op s now x =
     (case x of
        Admit ef hdrs clientId req \<Rightarrow> snd (jobs_create ef s hdrs clientId req now)
      | Deliver en jobId \<Rightarrow> after (deliver en s jobId now))"

text \<open>Operations that run one after the other, each in the month given with it.\<close>

fun run_ops :: "store \<Rightarrow> (nat \<times> op) list \<Rightarrow> store" where
  "run_ops s [] = s"
| "run_ops s (x # xs) = run_ops (apply_op s (fst x) (snd x)) xs"

text \<open>The decision log accepts the two inserts of a run.\<close>

definition decision_log_up :: "op \<Rightarrow> bool" where
  "decision_log_up x =
     (case x of
        Admit ef hdrs clientId req \<Rightarrow> True
      | Deliver en jobId \<Rightarrow>
          decision_fails en ''analysed'' = None \<and> decision_fails en ''modified'' = None)"

text \<open>The month at the end of a sequence of operations: the month of the last one.\<close>

definition time_after :: "nat \<Rightarrow> (nat \<times> op) list \<Rightarrow> nat" where
  "time_after t0 xs = (if xs = [] then t0 else fst (last xs))"

text \<open>
  The invariant behind the quota bound. No ledger entry lies in a later month or is
  negative, no hold is negative, every job is \<^verbatim>\<open>done\<close> or \<^verbatim>\<open>queued\<close>, a queued job has its
  request and a held hold of at least 8 (the ledger entries of one run sum up to at most 8,
  and the lowest estimate is 8), and the bound holds for every tenant whose quota is not
  negative.
\<close>

definition job_covered :: "hold_row list \<Rightarrow> job_row \<Rightarrow> bool" where
  "job_covered hs row =
     ((j_status row = ''done'' \<or> j_status row = ''queued'')
      \<and> (j_status row = ''queued'' \<longrightarrow>
           j_request_json row \<noteq> None
           \<and> (\<exists>h \<in> set hs. h_job_id h = j_id row \<and> h_client_id h = j_client_id row
                  \<and> h_status h = ''held'' \<and> 8 \<le> h_aej_estimated h)))"

definition quota_inv :: "store \<Rightarrow> nat \<Rightarrow> bool" where
  "quota_inv s m =
     ((\<forall>l \<in> set (aej_logs s). l_created_at l \<le> m \<and> 0 \<le> l_aej_used l)
      \<and> (\<forall>h \<in> set (holds s). 0 \<le> h_aej_estimated h)
      \<and> (\<forall>row \<in> set (jobs s). job_covered (holds s) row)
      \<and> (\<forall>c. 0 \<le> quota_of s c \<longrightarrow> consumed_of s c m + held_of s c \<le> quota_of s c))"

section \<open>Example data\<close>

text \<open>A well-formed item, requests of \<open>n\<close> such items, a store with one tenant and no job,
  headers, and environments of a worker run in which every write to the store succeeds.\<close>

definition ex_item :: item_json where
  "ex_item = ItemObject \<lparr>entity_type = ''page'', entity_id = ''42'', lang = ''fr'',
                          source_title = ''Titre'', source_excerpt = ''Extrait'', i_extra = []\<rparr>"

definition ex_request :: "string \<Rightarrow> nat \<Rightarrow> request" where
  "ex_request mode n = Body \<lparr>b_mode = ModeString mode, b_items = Some (replicate n ex_item), b_extra = []\<rparr>"

definition ex_store :: "int \<Rightarrow> store" where
  "ex_store quota =
     \<lparr>jobs = [], job_seq = 0, holds = [], aej_logs = [], idempotency = [],
      site_settings = [\<lparr>q_client_id = ''t1'', q_plan_code = Some ''pro'',
                        q_monthly_quota_aej = Some quota\<rparr>],
      job_events = [], decision_log = [], clients = [], queue = []\<rparr>"

definition ex_headers :: "string option \<Rightarrow> headers" where
  "ex_headers k = \<lparr>hdr_idempotency_key = k, hdr_x_idempotency_key = None\<rparr>"

definition no_fail :: "string \<Rightarrow> bool" where
  "no_fail t = False"

definition ex_env :: "bool \<Rightarrow> string + json \<Rightarrow> env" where
  "ex_env f b = \<lparr>forced = f, backend = b, event_fails = no_fail, decision_fails = (\<lambda>t. None)\<rparr>"

text \<open>
  The store after the tenant \<^verbatim>\<open>t1\<close> (quota 20) created a \<^verbatim>\<open>quick_boost\<close> job of one item
  under the idempotency key \<^verbatim>\<open>tok\<close>, and the store after the worker ran that job while the
  backend had no API key.
\<close>

definition ex_job :: job_row where
  "ex_job =
     \<lparr>j_id = 0, j_client_id = ''t1'', j_mode = ''quick_boost'', j_status = ''queued'',
      j_progress = 0,
      j_request_json = Some \<lparr>b_mode = ModeString ''quick_boost'', b_items = Some [ex_item], b_extra = []\<rparr>,
      j_result_json = None, j_idempotency_key = Some ''tok'', j_aej_estimated = 8,
      j_aej_final = None, j_error_text = None, j_finished_at = None\<rparr>"

definition ex_queued_store :: store where
  "ex_queued_store =
     (ex_store 20)
       \<lparr>jobs := [ex_job],
        job_seq := 1,
        holds := [\<lparr>h_job_id = 0, h_client_id = ''t1'', h_aej_estimated = 8, h_status = ''held'',
                   h_released_at = None\<rparr>],
        idempotency := [\<lparr>k_client_id = ''t1'', k_idem_key = ''tok'', k_job_id = 0\<rparr>],
        job_events := [\<lparr>e_job_id = 0, e_client_id = ''t1'', e_event_type = ''created'',
                        e_message = Some ''Job created & enqueued''\<rparr>],
        queue := [0]\<rparr>"

definition ex_ledger :: "int \<Rightarrow> aej_log_row list" where
  "ex_ledger g =
     [\<lparr>l_client_id = ''t1'', l_job_id = 0, l_stage = ''analyse'', l_aej_used = 1, l_created_at = 0\<rparr>,
      \<lparr>l_client_id = ''t1'', l_job_id = 0, l_stage = ''decision'', l_aej_used = 1, l_created_at = 0\<rparr>,
      \<lparr>l_client_id = ''t1'', l_job_id = 0, l_stage = ''generation'', l_aej_used = g, l_created_at = 0\<rparr>,
      \<lparr>l_client_id = ''t1'', l_job_id = 0, l_stage = ''application'', l_aej_used = 1, l_created_at = 0\<rparr>]"

text \<open>An environment in which the insert of the \<^verbatim>\<open>analysed\<close> decision fails.\<close>

definition ex_decision_down :: "string \<Rightarrow> string option" where
  "ex_decision_down t = (if t = ''analysed'' then Some ''connection terminated'' else None)"

definition ex_env_decision_down :: env where
  "ex_env_decision_down =
     \<lparr>forced = False, backend = Inr (JObj []), event_fails = no_fail,
      decision_fails = ex_decision_down\<rparr>"

definition ex_done_store :: store where
  "ex_done_store =
     ex_queued_store
       \<lparr>jobs :=
          [ex_job\<lparr>j_status := ''done'', j_progress := 100,
                  j_result_json := Some
                    \<lparr>r_ok = True,
                     results = [\<lparr>exec = buildDeterministicFallback (ModeString ''quick_boost''),
                                 source = ''deterministic'',
                                 llm_error = Some ''OPENAI_API_KEY_MISSING'',
                                 r_status = ''ready_to_review''\<rparr>]\<rparr>,
                  j_aej_final := Some 4\<rparr>],
        holds := [\<lparr>h_job_id = 0, h_client_id = ''t1'', h_aej_estimated = 8, h_status = ''released'',
                   h_released_at = Some 0\<rparr>],
        aej_logs := ex_ledger 1,
        job_events :=
          job_events ex_queued_store @
          [\<lparr>e_job_id = 0, e_client_id = ''t1'', e_event_type = ''running'',
            e_message = Some ''Job started''\<rparr>,
           \<lparr>e_job_id = 0, e_client_id = ''t1'', e_event_type = ''openai_call'',
            e_message = Some ''Calling OpenAI''\<rparr>,
           \<lparr>e_job_id = 0, e_client_id = ''t1'', e_event_type = ''fallback'',
            e_message = Some ''Using deterministic fallback''\<rparr>,
           \<lparr>e_job_id = 0, e_client_id = ''t1'', e_event_type = ''done'',
            e_message = Some ''Job finished''\<rparr>],
        decision_log :=
          [\<lparr>d_client_id = ''t1'', d_job_id = 0, d_decision_type = ''analysed'',
            d_decision_reason = decision_reason_analysed\<rparr>,
           \<lparr>d_client_id = ''t1'', d_job_id = 0, d_decision_type = ''modified'',
            d_decision_reason = decision_reason_modified ''deterministic''\<rparr>]\<rparr>"

text \<open>
  A request whose \<^verbatim>\<open>mode\<close> is the array \<^verbatim>\<open>["ecom_catalog"]\<close>, and the store after the
  tenant \<^verbatim>\<open>t1\<close> (quota 20) created a job with it, under no idempotency key.
\<close>

definition ex_array_request :: request where
  "ex_array_request =
     Body \<lparr>b_mode = ModeOther ''ecom_catalog'', b_items = Some [ex_item], b_extra = []\<rparr>"

definition ex_array_job :: job_row where
  "ex_array_job =
     \<lparr>j_id = 0, j_client_id = ''t1'', j_mode = ''ecom_catalog'', j_status = ''queued'',
      j_progress = 0,
      j_request_json = Some \<lparr>b_mode = ModeOther ''ecom_catalog'', b_items = Some [ex_item], b_extra = []\<rparr>,
      j_result_json = None, j_idempotency_key = None, j_aej_estimated = 12,
      j_aej_final = None, j_error_text = None, j_finished_at = None\<rparr>"

definition ex_array_store :: store where
  "ex_array_store =
     (ex_store 20)
       \<lparr>jobs := [ex_array_job],
        job_seq := 1,
        holds := [\<lparr>h_job_id = 0, h_client_id = ''t1'', h_aej_estimated = 12, h_status = ''held'',
                   h_released_at = None\<rparr>],
        job_events := [\<lparr>e_job_id = 0, e_client_id = ''t1'', e_event_type = ''created'',
                        e_message = Some ''Job created & enqueued''\<rparr>],
        queue := [0]\<rparr>"

text \<open>
  The store after the worker ran the job of \<open>ex_queued_store\<close> while the backend answered
  with the empty object, and the store after the worker ran the job of \<open>ex_array_store\<close>.
\<close>

definition ex_openai_store :: store where
  "ex_openai_store =
     ex_queued_store
       \<lparr>jobs :=
          [ex_job\<lparr>j_status := ''done'', j_progress := 100,
                  j_result_json := Some
                    \<lparr>r_ok = True,
                     results = [\<lparr>exec = JObj [], source = ''openai'', llm_error = None,
                                 r_status = ''ready_to_review''\<rparr>]\<rparr>,
                  j_aej_final := Some 8\<rparr>],
        holds := [\<lparr>h_job_id = 0, h_client_id = ''t1'', h_aej_estimated = 8, h_status = ''released'',
                   h_released_at = Some 0\<rparr>],
        aej_logs := ex_ledger 5,
        job_events :=
          job_events ex_queued_store @
          [\<lparr>e_job_id = 0, e_client_id = ''t1'', e_event_type = ''running'',
            e_message = Some ''Job started''\<rparr>,
           \<lparr>e_job_id = 0, e_client_id = ''t1'', e_event_type = ''openai_call'',
            e_message = Some ''Calling OpenAI''\<rparr>,
           \<lparr>e_job_id = 0, e_client_id = ''t1'', e_event_type = ''openai_ok'',
            e_message = Some ''OpenAI returned''\<rparr>,
           \<lparr>e_job_id = 0, e_client_id = ''t1'', e_event_type = ''done'',
            e_message = Some ''Job finished''\<rparr>],
        decision_log :=
          [\<lparr>d_client_id = ''t1'', d_job_id = 0, d_decision_type = ''analysed'',
            d_decision_reason = decision_reason_analysed\<rparr>,
           \<lparr>d_client_id = ''t1'', d_job_id = 0, d_decision_type = ''modified'',
            d_decision_reason = decision_reason_modified ''openai''\<rparr>]\<rparr>"

definition ex_array_done_store :: store where
  "ex_array_done_store =
     ex_array_store
       \<lparr>jobs :=
          [ex_array_job\<lparr>j_status := ''done'', j_progress := 100,
                  j_result_json := Some
                    \<lparr>r_ok = True,
                     results = [\<lparr>exec = buildDeterministicFallback (ModeString ''quick_boost''),
                                 source = ''deterministic'',
                                 llm_error = Some ''Unsupported mode: ecom_catalog'',
                                 r_status = ''ready_to_review''\<rparr>]\<rparr>,
                  j_aej_final := Some 4\<rparr>],
        holds := [\<lparr>h_job_id = 0, h_client_id = ''t1'', h_aej_estimated = 12, h_status = ''released'',
                   h_released_at = Some 0\<rparr>],
        aej_logs := ex_ledger 1,
        job_events :=
          job_events ex_array_store @
          [\<lparr>e_job_id = 0, e_client_id = ''t1'', e_event_type = ''running'',
            e_message = Some ''Job started''\<rparr>,
           \<lparr>e_job_id = 0, e_client_id = ''t1'', e_event_type = ''fallback'',
            e_message = Some ''Using deterministic fallback''\<rparr>,
           \<lparr>e_job_id = 0, e_client_id = ''t1'', e_event_type = ''done'',
            e_message = Some ''Job finished''\<rparr>],
        decision_log :=
          [\<lparr>d_client_id = ''t1'', d_job_id = 0, d_decision_type = ''analysed'',
            d_decision_reason = decision_reason_analysed\<rparr>,
           \<lparr>d_client_id = ''t1'', d_job_id = 0, d_decision_type = ''modified'',
            d_decision_reason = decision_reason_modified ''deterministic''\<rparr>]\<rparr>"

definition ex_nosettings_store :: store where
  "ex_nosettings_store = (ex_store 20)\<lparr>site_settings := []\<rparr>"

definition all_fail :: "string \<Rightarrow> bool" where
  "all_fail t = True"

text \<open>
  The admission and the run that lead from \<open>ex_store 20\<close> to \<open>ex_done_store\<close>; the store
  after the admission of the same job under a quota of 8; and, for a quota of 9, the
  admission of a job, its run while the decision log is down, the admission of a second
  job, and the redelivery of the first.
\<close>

definition ex_ops :: "(nat \<times> op) list" where
  "ex_ops =
     [(0, Admit no_fail (ex_headers (Some ''tok'')) ''t1'' (ex_request ''quick_boost'' 1)),
      (0, Deliver (ex_env False (Inl ''OPENAI_API_KEY_MISSING'')) 0)]"

definition ex_tight_store :: store where
  "ex_tight_store = ex_queued_store\<lparr>site_settings := site_settings (ex_store 8)\<rparr>"

definition ex_ops_retry :: "(nat \<times> op) list" where
  "ex_ops_retry =
     [(0, Admit no_fail (ex_headers None) ''t1'' (ex_request ''quick_boost'' 1)),
      (0, Deliver ex_env_decision_down 0),
      (0, Admit no_fail (ex_headers None) ''t1'' (ex_request ''quick_boost'' 1)),
      (0, Deliver (ex_env False (Inr (JObj []))) 0)]"

section \<open>Properties of admission\<close>

lemma mode_string_simps [simp]:
  "mode_string ModeFalsy = []" "mode_string (ModeString m) = m" "mode_string (ModeOther m) = m"
  by (simp_all add: mode_string_def)

lemma mode_truthy_simps [simp]:
  "mode_truthy ModeFalsy = False" "mode_truthy (ModeString m) = (m \<noteq> [])"
  "mode_truthy (ModeOther m) = True"
  by (simp_all add: mode_truthy_def)

lemma ex_queued_store_created:
  "jobs_create no_fail (ex_store 20) (ex_headers (Some ''tok'')) ''t1'' (ex_request ''quick_boost'' 1) 0
     = (Created 0 ''queued'' 8, ex_queued_store)"
  by code_simp

lemma ex_array_store_created:
  "jobs_create no_fail (ex_store 20) (ex_headers None) ''t1'' ex_array_request 0
     = (Created 0 ''queued'' 12, ex_array_store)"
  by code_simp

lemma ex_openai_store_run:
  "deliver (ex_env False (Inr (JObj []))) ex_queued_store 0 0
     = \<lparr>result = Completed 0, called_backend = True, after = ex_openai_store\<rparr>"
  by code_simp

lemma ex_array_done_store_run:
  "deliver (ex_env False (Inr (JObj []))) ex_array_store 0 0
     = \<lparr>result = Completed 0, called_backend = False, after = ex_array_done_store\<rparr>"
  by code_simp

lemma ex_done_store_run:
  "deliver (ex_env False (Inl ''OPENAI_API_KEY_MISSING'')) ex_queued_store 0 0
     = \<lparr>result = Completed 0, called_backend = True, after = ex_done_store\<rparr>"
  by code_simp

lemma valid_shape:
  assumes "validateCreatePayload req = Valid mode items"
  shows "\<exists>b. req = Body b \<and> mode = trim (mode_string (b_mode b)) \<and> b_items b = Some items
           \<and> mode \<in> set ALLOWED_MODES \<and> 1 \<le> length items \<and> length items \<le> 50"
  using assms
  by (auto simp: validateCreatePayload_def Let_def Suc_le_eq
           split: request.splits option.splits if_splits)

lemma invalid_mode_or_count:
  assumes "trim (mode_string (b_mode b)) \<notin> set ALLOWED_MODES \<or> (\<exists>its. b_items b = Some its \<and> length its > 50)"
  shows "\<exists>errs. validateCreatePayload (Body b) = Invalid errs"
  using assms
  by (auto simp: validateCreatePayload_def Let_def split: option.splits)

lemma aejEstimated_allowed:
  assumes "mode \<in> set ALLOWED_MODES" and "1 \<le> n"
  shows "\<exists>u. AEJ_ESTIMATE_PER_ITEM mode = Some u \<and> aejEstimated mode n = u * int n \<and> 8 \<le> u"
  using assms by (auto simp: ALLOWED_MODES_def AEJ_ESTIMATE_PER_ITEM_def aejEstimated_def)

lemma jobs_create_Created:
  assumes "jobs_create ef s hdrs clientId req now = (Created jid st est, s')"
  shows "\<exists>mode items. validateCreatePayload req = Valid mode items \<and> est = aejEstimated mode (length items)
           \<and> st = ''queued''
           \<and> consumed_of s clientId now + held_of s clientId + est \<le> quota_of s clientId"
  using assms
  by (auto simp: jobs_create_def Let_def split: validation.splits option.splits if_splits prod.splits)

lemma ex_item_ok: "item_errors idx ex_item = []"
  by (simp add: item_errors_def ex_item_def trim_def is_ws_def Let_def)

lemma ex_request_valid:
  assumes "mode \<in> set ALLOWED_MODES" and "1 \<le> n" and "n \<le> 50"
  shows "validateCreatePayload (ex_request mode n) = Valid mode (replicate n ex_item)"
proof -
  have t: "trim mode = mode"
    using assms(1) by (auto simp: ALLOWED_MODES_def trim_def is_ws_def)
  have "concat (map (\<lambda>(idx, it). item_errors idx it) (enumerate 0 (replicate n ex_item))) = []"
    by (auto simp: in_set_enumerate_eq ex_item_ok)
  with t assms show ?thesis
    by (simp add: validateCreatePayload_def ex_request_def Let_def)
qed

lemma logJobEvent_fields [simp]:
  "jobs (logJobEvent ef j c t m s) = jobs s"
  "job_seq (logJobEvent ef j c t m s) = job_seq s"
  "holds (logJobEvent ef j c t m s) = holds s"
  "aej_logs (logJobEvent ef j c t m s) = aej_logs s"
  "idempotency (logJobEvent ef j c t m s) = idempotency s"
  "site_settings (logJobEvent ef j c t m s) = site_settings s"
  "decision_log (logJobEvent ef j c t m s) = decision_log s"
  "clients (logJobEvent ef j c t m s) = clients s"
  "queue (logJobEvent ef j c t m s) = queue s"
  by (simp_all add: logJobEvent_def)

lemma logJobEvent_events:
  "logJobEvent ef j c t m s = s\<lparr>job_events := job_events (logJobEvent ef j c t m s)\<rparr>"
  by (simp add: logJobEvent_def)

lemma jobs_create_Created_store:
  assumes "jobs_create ef s hdrs c req now = (Created jid st est, s')"
  shows "jid = job_seq s \<and> jid \<notin> j_id ` set (jobs s) \<and> jid \<notin> h_job_id ` set (holds s)
         \<and> holds s' = holds s @ [\<lparr>h_job_id = jid, h_client_id = c, h_aej_estimated = est,
                                    h_status = ''held'', h_released_at = None\<rparr>]
         \<and> aej_logs s' = aej_logs s \<and> site_settings s' = site_settings s \<and> job_seq s' = Suc jid
         \<and> (\<exists>j. jobs s' = jobs s @ [j] \<and> j_id j = jid \<and> j_status j = ''queued''
                 \<and> j_client_id j = c \<and> j_request_json j \<noteq> None \<and> j_aej_estimated j = est)
         \<and> idempotency s' =
             (case pickIdempotencyKey hdrs of
                None \<Rightarrow> idempotency s
              | Some k \<Rightarrow> idempotency s @ [\<lparr>k_client_id = c, k_idem_key = k, k_job_id = jid\<rparr>])
         \<and> (\<forall>k. pickIdempotencyKey hdrs = Some k \<longrightarrow> idem_lookup s c k = None)"
  using assms
  by (auto simp: jobs_create_def Let_def insert_admitted_def
           split: validation.splits option.splits if_splits prod.splits)

lemma jobs_create_other_store:
  assumes "jobs_create ef s hdrs c req now = (r, s')"
    and "\<forall>jid st est. r \<noteq> Created jid st est"
  shows "jobs s' = jobs s \<and> holds s' = holds s \<and> aej_logs s' = aej_logs s
         \<and> idempotency s' = idempotency s \<and> site_settings s' = site_settings s
         \<and> queue s' = queue s \<and> decision_log s' = decision_log s \<and> clients s' = clients s"
  using assms
  by (auto simp: jobs_create_def Let_def
           split: validation.splits option.splits if_splits prod.splits)

lemma jobs_create_hit:
  assumes "validateCreatePayload req = Valid mode items"
    and "pickIdempotencyKey hdrs = Some k"
    and "idem_lookup s c k = Some jid"
  shows "jobs_create ef s hdrs c req now =
           (IdempotentHit jid ''queued'',
            logJobEvent ef jid c ''idempotent_hit'' ''Idempotency hit: returning existing job'' s)"
  using assms by (simp add: jobs_create_def Let_def)

lemma jobs_create_quota:
  assumes "validateCreatePayload req = Valid mode items"
    and "\<forall>k. pickIdempotencyKey hdrs = Some k \<longrightarrow> idem_lookup s clientId k = None"
    and "consumed_of s clientId now + held_of s clientId + aejEstimated mode (length items) > quota_of s clientId"
  shows "jobs_create ef s hdrs clientId req now =
          (QuotaExceeded
             \<lparr>qr_plan = plan_of s clientId, qr_monthly_quota_aej = quota_of s clientId,
              qr_aej_consumed = consumed_of s clientId now, qr_aej_held = held_of s clientId,
              qr_aej_needed = aejEstimated mode (length items),
              qr_aej_remaining = max 0 (quota_of s clientId - consumed_of s clientId now - held_of s clientId)\<rparr>, s)"
  using assms by (cases "pickIdempotencyKey hdrs") (simp_all add: jobs_create_def Let_def)

lemma jobs_create_admitted:
  assumes "validateCreatePayload req = Valid mode items"
    and "\<forall>k. pickIdempotencyKey hdrs = Some k \<longrightarrow> idem_lookup s clientId k = None"
    and "consumed_of s clientId now + held_of s clientId + aejEstimated mode (length items) \<le> quota_of s clientId"
    and "job_seq s \<notin> j_id ` set (jobs s)" and "job_seq s \<notin> h_job_id ` set (holds s)"
  shows "fst (jobs_create ef s hdrs clientId req now) =
           Created (job_seq s) ''queued'' (aejEstimated mode (length items))"
  using assms
  by (cases "pickIdempotencyKey hdrs") (simp_all add: jobs_create_def Let_def insert_admitted_def)

lemma find_app:
  "find P (xs @ ys) = (case find P xs of None \<Rightarrow> find P ys | Some x \<Rightarrow> Some x)"
  by (induction xs) auto

lemma idem_lookup_append:
  "idem_lookup (s\<lparr>idempotency := idempotency s @ [\<lparr>k_client_id = c, k_idem_key = k, k_job_id = jid\<rparr>]\<rparr>) c k
     = (case idem_lookup s c k of None \<Rightarrow> Some jid | Some j \<Rightarrow> Some j)"
  by (simp add: idem_lookup_def find_app split: option.splits)

text \<open>
  Claim C2. A request is admitted only with the estimated cost \<open>u * n\<close>, where \<open>u\<close> is the
  unit cost of its mode (\<^verbatim>\<open>String(body.mode || "").trim()\<close>) in \<^verbatim>\<open>AEJ_ESTIMATE_PER_ITEM\<close>
  and \<open>n\<close> the number of its items; the unit costs are 8 for \<^verbatim>\<open>quick_boost\<close> and 12 for \<^verbatim>\<open>full_content\<close> and
  \<^verbatim>\<open>ecom_catalog\<close>. A request with a mode outside \<^verbatim>\<open>ALLOWED_MODES\<close> or with more than 50
  items is answered \<^verbatim>\<open>schema_invalid\<close>, the store untouched, before any cost is computed.
  In the scenario of the specification, a tenant with quota 20 and no usage creates a
  \<^verbatim>\<open>quick_boost\<close> job of one item: it is admitted with a hold of 8 and no ledger entry; a
  second \<^verbatim>\<open>quick_boost\<close> request of two items (cost 16) is answered \<^verbatim>\<open>quota_exceeded\<close> with
  8 held, 16 needed and 12 remaining, and leaves the store as it was.
\<close>


theorem estimated_cost_and_rejection:
  "(jobs_create ef s hdrs clientId req now = (Created jid st est, s') \<longrightarrow>
      (\<exists>b items u. req = Body b \<and> b_items b = Some items
         \<and> AEJ_ESTIMATE_PER_ITEM (trim (mode_string (b_mode b))) = Some u \<and> est = u * int (length items)))
   \<and> AEJ_ESTIMATE_PER_ITEM ''quick_boost'' = Some 8
   \<and> AEJ_ESTIMATE_PER_ITEM ''full_content'' = Some 12
   \<and> AEJ_ESTIMATE_PER_ITEM ''ecom_catalog'' = Some 12
   \<and> (trim (mode_string (b_mode b')) \<notin> set ALLOWED_MODES \<or> (\<exists>its. b_items b' = Some its \<and> length its > 50) \<longrightarrow>
        (\<exists>errs. jobs_create ef s hdrs clientId (Body b') now = (SchemaInvalid errs, s)))
   \<and> (let r1 = jobs_create no_fail (ex_store 20) (ex_headers None) ''t1'' (ex_request ''quick_boost'' 1) 0;
           r2 = jobs_create no_fail (snd r1) (ex_headers None) ''t1'' (ex_request ''quick_boost'' 2) 0
       in fst r1 = Created 0 ''queued'' 8
          \<and> aej_logs (snd r1) = []
          \<and> holds (snd r1) = [\<lparr>h_job_id = 0, h_client_id = ''t1'', h_aej_estimated = 8,
                                 h_status = ''held'', h_released_at = None\<rparr>]
          \<and> fst r2 = QuotaExceeded \<lparr>qr_plan = ''pro'', qr_monthly_quota_aej = 20, qr_aej_consumed = 0,
                                     qr_aej_held = 8, qr_aej_needed = 16, qr_aej_remaining = 12\<rparr>
          \<and> snd r2 = snd r1)"
proof (intro conjI impI)
  assume a: "jobs_create ef s hdrs clientId req now = (Created jid st est, s')"
  from jobs_create_Created [OF a] obtain mode items where
    v: "validateCreatePayload req = Valid mode items" and e: "est = aejEstimated mode (length items)"
    by blast
  from valid_shape [OF v] obtain b where
    b: "req = Body b" "mode = trim (mode_string (b_mode b))" "b_items b = Some items"
       "mode \<in> set ALLOWED_MODES" "1 \<le> length items"
    by blast
  from aejEstimated_allowed [OF b(4) b(5)] e b
  show "\<exists>b items u. req = Body b \<and> b_items b = Some items
         \<and> AEJ_ESTIMATE_PER_ITEM (trim (mode_string (b_mode b))) = Some u \<and> est = u * int (length items)"
    by auto
next
  show "AEJ_ESTIMATE_PER_ITEM ''quick_boost'' = Some 8" by (simp add: AEJ_ESTIMATE_PER_ITEM_def)
next
  show "AEJ_ESTIMATE_PER_ITEM ''full_content'' = Some 12" by (simp add: AEJ_ESTIMATE_PER_ITEM_def)
next
  show "AEJ_ESTIMATE_PER_ITEM ''ecom_catalog'' = Some 12" by (simp add: AEJ_ESTIMATE_PER_ITEM_def)
next
  assume "trim (mode_string (b_mode b')) \<notin> set ALLOWED_MODES \<or> (\<exists>its. b_items b' = Some its \<and> length its > 50)"
  from invalid_mode_or_count [OF this]
  show "\<exists>errs. jobs_create ef s hdrs clientId (Body b') now = (SchemaInvalid errs, s)"
    by (auto simp: jobs_create_def)
next
  have v1: "validateCreatePayload (ex_request ''quick_boost'' 1) = Valid ''quick_boost'' (replicate 1 ex_item)"
    by (rule ex_request_valid) (simp_all add: ALLOWED_MODES_def)
  have v2: "validateCreatePayload (ex_request ''quick_boost'' 2) = Valid ''quick_boost'' (replicate 2 ex_item)"
    by (rule ex_request_valid) (simp_all add: ALLOWED_MODES_def)
  show "let r1 = jobs_create no_fail (ex_store 20) (ex_headers None) ''t1'' (ex_request ''quick_boost'' 1) 0;
           r2 = jobs_create no_fail (snd r1) (ex_headers None) ''t1'' (ex_request ''quick_boost'' 2) 0
       in fst r1 = Created 0 ''queued'' 8
          \<and> aej_logs (snd r1) = []
          \<and> holds (snd r1) = [\<lparr>h_job_id = 0, h_client_id = ''t1'', h_aej_estimated = 8,
                                 h_status = ''held'', h_released_at = None\<rparr>]
          \<and> fst r2 = QuotaExceeded \<lparr>qr_plan = ''pro'', qr_monthly_quota_aej = 20, qr_aej_consumed = 0,
                                     qr_aej_held = 8, qr_aej_needed = 16, qr_aej_remaining = 12\<rparr>
          \<and> snd r2 = snd r1"
    by code_simp
qed

theorem estimated_cost_and_rejection_witness:
  "jobs_create no_fail (ex_store 100) (ex_headers None) ''t1'' (ex_request ''full_content'' 3) 0
     = (Created 0 ''queued'' 36,
        snd (jobs_create no_fail (ex_store 100) (ex_headers None) ''t1'' (ex_request ''full_content'' 3) 0))
   \<and> (\<exists>b items u. ex_request ''full_content'' 3 = Body b \<and> b_items b = Some items
         \<and> AEJ_ESTIMATE_PER_ITEM (trim (mode_string (b_mode b))) = Some u \<and> (36::int) = u * int (length items))
   \<and> length (replicate 51 ex_item) > 50
   \<and> (\<exists>errs. jobs_create no_fail (ex_store 100) (ex_headers None) ''t1''
                 (Body \<lparr>b_mode = ModeString ''quick_boost'', b_items = Some (replicate 51 ex_item), b_extra = []\<rparr>) 0
               = (SchemaInvalid errs, ex_store 100))"
proof -
  have f: "fst (jobs_create no_fail (ex_store 100) (ex_headers None) ''t1'' (ex_request ''full_content'' 3) 0)
             = Created 0 ''queued'' 36"
    by code_simp
  have h1: "jobs_create no_fail (ex_store 100) (ex_headers None) ''t1'' (ex_request ''full_content'' 3) 0
     = (Created 0 ''queued'' 36,
        snd (jobs_create no_fail (ex_store 100) (ex_headers None) ''t1'' (ex_request ''full_content'' 3) 0))"
    by (simp add: f [symmetric])
  have h2: "length (replicate 51 ex_item) > 50"
    by simp
  from h1 h2 show ?thesis
    using estimated_cost_and_rejection
      [of no_fail "ex_store 100" "ex_headers None" "''t1''" "ex_request ''full_content'' 3" 0
          0 "''queued''" 36
          "snd (jobs_create no_fail (ex_store 100) (ex_headers None) ''t1'' (ex_request ''full_content'' 3) 0)"
          "\<lparr>b_mode = ModeString ''quick_boost'', b_items = Some (replicate 51 ex_item), b_extra = []\<rparr>"]
    by simp
qed

text \<open>
  Claim C3. A validated request that meets no idempotency record and whose estimate does
  not fit (\<open>consumed + held + estimate > quota\<close>) is answered \<^verbatim>\<open>quota_exceeded\<close> with the
  plan, the quota, the consumed, held and needed amounts and the remaining quota
  \<open>max 0 (quota - consumed - held)\<close>; the store it leaves is the store it found: no job, no
  hold, no idempotency record, no event, no queue entry.
\<close>

theorem quota_exceeded_leaves_store:
  assumes "validateCreatePayload req = Valid mode items"
    and "\<forall>k. pickIdempotencyKey hdrs = Some k \<longrightarrow> idem_lookup s clientId k = None"
    and "consumed_of s clientId now + held_of s clientId + aejEstimated mode (length items)
           > quota_of s clientId"
  shows "jobs_create ef s hdrs clientId req now =
          (QuotaExceeded
             \<lparr>qr_plan = plan_of s clientId, qr_monthly_quota_aej = quota_of s clientId,
              qr_aej_consumed = consumed_of s clientId now, qr_aej_held = held_of s clientId,
              qr_aej_needed = aejEstimated mode (length items),
              qr_aej_remaining =
                max 0 (quota_of s clientId - consumed_of s clientId now - held_of s clientId)\<rparr>, s)"
  using assms by (rule jobs_create_quota)

theorem quota_exceeded_leaves_store_witness:
  "validateCreatePayload (ex_request ''ecom_catalog'' 2) = Valid ''ecom_catalog'' (replicate 2 ex_item)
   \<and> pickIdempotencyKey (ex_headers (Some ''tok'')) = Some ''tok''
   \<and> idem_lookup (ex_store 20) ''t1'' ''tok'' = None
   \<and> consumed_of (ex_store 20) ''t1'' 0 + held_of (ex_store 20) ''t1''
        + aejEstimated ''ecom_catalog'' (length (replicate 2 ex_item)) > quota_of (ex_store 20) ''t1''
   \<and> jobs_create no_fail (ex_store 20) (ex_headers (Some ''tok'')) ''t1'' (ex_request ''ecom_catalog'' 2) 0
        = (QuotaExceeded
             \<lparr>qr_plan = ''pro'', qr_monthly_quota_aej = 20, qr_aej_consumed = 0, qr_aej_held = 0,
              qr_aej_needed = 24, qr_aej_remaining = 20\<rparr>, ex_store 20)"
proof -
  have h1: "validateCreatePayload (ex_request ''ecom_catalog'' 2) = Valid ''ecom_catalog'' (replicate 2 ex_item)"
    by (rule ex_request_valid) (simp_all add: ALLOWED_MODES_def)
  have h2: "\<forall>k. pickIdempotencyKey (ex_headers (Some ''tok'')) = Some k \<longrightarrow> idem_lookup (ex_store 20) ''t1'' k = None"
    by (simp add: idem_lookup_def ex_store_def)
  have h3: "consumed_of (ex_store 20) ''t1'' 0 + held_of (ex_store 20) ''t1''
        + aejEstimated ''ecom_catalog'' (length (replicate 2 ex_item)) > quota_of (ex_store 20) ''t1''"
    by code_simp
  have e: "plan_of (ex_store 20) ''t1'' = ''pro''" "quota_of (ex_store 20) ''t1'' = 20"
    "consumed_of (ex_store 20) ''t1'' 0 = 0" "held_of (ex_store 20) ''t1'' = 0"
    "aejEstimated ''ecom_catalog'' (length (replicate 2 ex_item)) = 24"
    by code_simp+
  have k: "pickIdempotencyKey (ex_headers (Some ''tok'')) = Some ''tok''"
    "idem_lookup (ex_store 20) ''t1'' ''tok'' = None"
    by code_simp+
  from quota_exceeded_leaves_store [OF h1 h2 h3, of no_fail] h1 k h3 e show ?thesis
    by simp
qed

text \<open>
  Claim C9. An admission call that meets an idempotency record for its tenant and key
  answers with the recorded job id and the status \<^verbatim>\<open>queued\<close>, whatever the status of that
  job in the store: the theorem asks nothing of the job row, and its witness is a job that
  is \<^verbatim>\<open>done\<close>.
\<close>

theorem idempotent_hit_reports_queued:
  assumes "validateCreatePayload req = Valid mode items"
    and "pickIdempotencyKey hdrs = Some k"
    and "idem_lookup s clientId k = Some jid"
  shows "fst (jobs_create ef s hdrs clientId req now) = IdempotentHit jid ''queued''"
  using assms by (simp add: jobs_create_hit)

theorem idempotent_hit_reports_queued_witness:
  "validateCreatePayload (ex_request ''quick_boost'' 1) = Valid ''quick_boost'' (replicate 1 ex_item)
   \<and> pickIdempotencyKey (ex_headers (Some ''tok'')) = Some ''tok''
   \<and> idem_lookup ex_done_store ''t1'' ''tok'' = Some 0
   \<and> map_option j_status (getJob ex_done_store 0) = Some ''done''
   \<and> fst (jobs_create no_fail ex_done_store (ex_headers (Some ''tok'')) ''t1'' (ex_request ''quick_boost'' 1) 5)
        = IdempotentHit 0 ''queued''"
proof -
  have h1: "validateCreatePayload (ex_request ''quick_boost'' 1) = Valid ''quick_boost'' (replicate 1 ex_item)"
    by (rule ex_request_valid) (simp_all add: ALLOWED_MODES_def)
  have h2: "pickIdempotencyKey (ex_headers (Some ''tok'')) = Some ''tok''"
    by code_simp
  have h3: "idem_lookup ex_done_store ''t1'' ''tok'' = Some 0"
    by code_simp
  have h4: "map_option j_status (getJob ex_done_store 0) = Some ''done''"
    by code_simp
  from idempotent_hit_reports_queued [OF h1 h2 h3, of no_fail 5] h1 h2 h3 h4 show ?thesis
    by simp
qed

text \<open>
  Claim C10. For a tenant with no row in \<^verbatim>\<open>c360_site_settings\<close>, the billing summary
  reports the plan \<^verbatim>\<open>starter\<close> and a monthly quota of 500, and admission checks the request
  against 500: a validated request without idempotency record is answered
  \<^verbatim>\<open>quota_exceeded\<close> (plan \<^verbatim>\<open>starter\<close>, quota 500) exactly when
  \<open>consumed + held + estimate > 500\<close>, and is admitted otherwise (the next job id being
  unused).
\<close>

theorem missing_settings_default_starter_500:
  assumes "settings_of s clientId = None"
  shows "bs_plan (fetchBillingSummary s clientId now) = ''starter''
       \<and> bs_monthly_quota_aej (fetchBillingSummary s clientId now) = 500
       \<and> bs_aej_remaining (fetchBillingSummary s clientId now)
            = max 0 (500 - consumed_of s clientId now - held_of s clientId)
       \<and> (validateCreatePayload req = Valid mode items
            \<and> (\<forall>k. pickIdempotencyKey hdrs = Some k \<longrightarrow> idem_lookup s clientId k = None)
          \<longrightarrow>
            (if consumed_of s clientId now + held_of s clientId + aejEstimated mode (length items) > 500
             then \<exists>rep. jobs_create ef s hdrs clientId req now = (QuotaExceeded rep, s)
                    \<and> qr_plan rep = ''starter'' \<and> qr_monthly_quota_aej rep = 500
             else job_seq s \<notin> j_id ` set (jobs s) \<and> job_seq s \<notin> h_job_id ` set (holds s)
                  \<longrightarrow> fst (jobs_create ef s hdrs clientId req now)
                        = Created (job_seq s) ''queued'' (aejEstimated mode (length items))))"
proof -
  have p: "plan_of s clientId = ''starter''" and q: "quota_of s clientId = 500"
    using assms by (simp_all add: plan_of_def quota_of_def)
  show ?thesis
  proof (intro conjI impI)
    show "bs_plan (fetchBillingSummary s clientId now) = ''starter''"
      by (simp add: fetchBillingSummary_def Let_def p)
    show "bs_monthly_quota_aej (fetchBillingSummary s clientId now) = 500"
      by (simp add: fetchBillingSummary_def Let_def q)
    show "bs_aej_remaining (fetchBillingSummary s clientId now)
            = max 0 (500 - consumed_of s clientId now - held_of s clientId)"
      by (simp add: fetchBillingSummary_def Let_def q)
  next
    assume a: "validateCreatePayload req = Valid mode items
            \<and> (\<forall>k. pickIdempotencyKey hdrs = Some k \<longrightarrow> idem_lookup s clientId k = None)"
    show "if consumed_of s clientId now + held_of s clientId + aejEstimated mode (length items) > 500
             then \<exists>rep. jobs_create ef s hdrs clientId req now = (QuotaExceeded rep, s)
                    \<and> qr_plan rep = ''starter'' \<and> qr_monthly_quota_aej rep = 500
             else job_seq s \<notin> j_id ` set (jobs s) \<and> job_seq s \<notin> h_job_id ` set (holds s)
                  \<longrightarrow> fst (jobs_create ef s hdrs clientId req now)
                        = Created (job_seq s) ''queued'' (aejEstimated mode (length items))"
    proof (cases "consumed_of s clientId now + held_of s clientId + aejEstimated mode (length items) > 500")
      case True
      with a have "jobs_create ef s hdrs clientId req now =
          (QuotaExceeded
             \<lparr>qr_plan = plan_of s clientId, qr_monthly_quota_aej = quota_of s clientId,
              qr_aej_consumed = consumed_of s clientId now, qr_aej_held = held_of s clientId,
              qr_aej_needed = aejEstimated mode (length items),
              qr_aej_remaining = max 0 (quota_of s clientId - consumed_of s clientId now - held_of s clientId)\<rparr>, s)"
        by (intro jobs_create_quota) (simp_all add: q)
      with True show ?thesis by (simp add: p q)
    next
      case False
      with a show ?thesis
        by (auto intro!: jobs_create_admitted simp: q)
    qed
  qed
qed

theorem missing_settings_default_starter_500_witness:
  "settings_of ex_nosettings_store ''t1'' = None
   \<and> bs_plan (fetchBillingSummary ex_nosettings_store ''t1'' 0) = ''starter''
   \<and> bs_monthly_quota_aej (fetchBillingSummary ex_nosettings_store ''t1'' 0) = 500
   \<and> validateCreatePayload (ex_request ''full_content'' 41) = Valid ''full_content'' (replicate 41 ex_item)
   \<and> fst (jobs_create no_fail ex_nosettings_store (ex_headers None) ''t1'' (ex_request ''full_content'' 41) 0)
        = Created 0 ''queued'' 492
   \<and> validateCreatePayload (ex_request ''full_content'' 42) = Valid ''full_content'' (replicate 42 ex_item)
   \<and> (\<exists>rep. jobs_create no_fail ex_nosettings_store (ex_headers None) ''t1'' (ex_request ''full_content'' 42) 0
               = (QuotaExceeded rep, ex_nosettings_store)
             \<and> qr_plan rep = ''starter'' \<and> qr_monthly_quota_aej rep = 500)"
proof -
  have h: "settings_of ex_nosettings_store ''t1'' = None"
    by code_simp
  have v1: "validateCreatePayload (ex_request ''full_content'' 41) = Valid ''full_content'' (replicate 41 ex_item)"
    by (rule ex_request_valid) (simp_all add: ALLOWED_MODES_def)
  have v2: "validateCreatePayload (ex_request ''full_content'' 42) = Valid ''full_content'' (replicate 42 ex_item)"
    by (rule ex_request_valid) (simp_all add: ALLOWED_MODES_def)
  have k: "\<forall>k. pickIdempotencyKey (ex_headers None) = Some k \<longrightarrow> idem_lookup ex_nosettings_store ''t1'' k = None"
    by (simp add: pickIdempotencyKey_def ex_headers_def)
  have e: "consumed_of ex_nosettings_store ''t1'' 0 = 0" "held_of ex_nosettings_store ''t1'' = 0"
    "aejEstimated ''full_content'' 41 = 492" "aejEstimated ''full_content'' 42 = 504"
    "job_seq ex_nosettings_store = 0" "jobs ex_nosettings_store = []" "holds ex_nosettings_store = []"
    by code_simp+
  from missing_settings_default_starter_500
         [OF h, of 0 "ex_request ''full_content'' 41" "''full_content''" "replicate 41 ex_item"
            "ex_headers None" no_fail]
       missing_settings_default_starter_500
         [OF h, of 0 "ex_request ''full_content'' 42" "''full_content''" "replicate 42 ex_item"
            "ex_headers None" no_fail]
       h v1 v2 k e
  show ?thesis by simp
qed

text \<open>
  Claim C4. Two admission calls of the same tenant carry the same idempotency key. The
  first call returned the job id \<open>jid\<close> (it created the job, or was itself a replay). The
  second call, with a valid body, runs on any later store \<open>s2\<close> whose idempotency table is
  the one the first call left; the other tables are arbitrary, so the job may have any
  status. It answers with \<open>jid\<close> and changes nothing but the event log: no job and no hold
  is created.
\<close>

theorem same_token_returns_first_job:
  assumes "pickIdempotencyKey hdrs1 = Some k" and "pickIdempotencyKey hdrs2 = Some k"
    and "jobs_create ef1 s hdrs1 clientId req1 now1 = (r1, s1)"
    and "r1 = Created jid st est \<or> r1 = IdempotentHit jid st"
    and "idempotency s2 = idempotency s1"
    and "validateCreatePayload req2 = Valid mode2 items2"
  shows "fst (jobs_create ef2 s2 hdrs2 clientId req2 now2) = IdempotentHit jid ''queued''
       \<and> snd (jobs_create ef2 s2 hdrs2 clientId req2 now2)
           = s2\<lparr>job_events := job_events (snd (jobs_create ef2 s2 hdrs2 clientId req2 now2))\<rparr>"
proof -
  have l1: "idem_lookup s1 clientId k = Some jid"
  proof (cases "r1 = Created jid st est")
    case True
    with assms(3) have c: "jobs_create ef1 s hdrs1 clientId req1 now1 = (Created jid st est, s1)"
      by simp
    from jobs_create_Created_store [OF c] assms(1)
    have "idempotency s1 = idempotency s @ [\<lparr>k_client_id = clientId, k_idem_key = k, k_job_id = jid\<rparr>]"
      and "idem_lookup s clientId k = None"
      by simp_all
    then show ?thesis
      by (simp add: idem_lookup_def find_app split: option.splits)
  next
    case False
    with assms(4) have r: "r1 = IdempotentHit jid st" by simp
    with assms(3) have "idem_lookup s clientId k = Some jid \<and> idempotency s1 = idempotency s"
      using assms(1)
      by (auto simp: jobs_create_def Let_def
               split: validation.splits option.splits if_splits prod.splits)
    then show ?thesis by (simp add: idem_lookup_def)
  qed
  with assms(5) have l2: "idem_lookup s2 clientId k = Some jid"
    by (simp add: idem_lookup_def)
  have "jobs_create ef2 s2 hdrs2 clientId req2 now2 =
           (IdempotentHit jid ''queued'',
            logJobEvent ef2 jid clientId ''idempotent_hit'' ''Idempotency hit: returning existing job'' s2)"
    by (rule jobs_create_hit [OF assms(6) assms(2) l2])
  then show ?thesis
    using logJobEvent_events by simp
qed

theorem same_token_returns_first_job_witness:
  "pickIdempotencyKey (ex_headers (Some ''tok'')) = Some ''tok''
   \<and> jobs_create no_fail (ex_store 20) (ex_headers (Some ''tok'')) ''t1'' (ex_request ''quick_boost'' 1) 0
        = (Created 0 ''queued'' 8, ex_queued_store)
   \<and> idempotency ex_done_store = idempotency ex_queued_store
   \<and> map_option j_status (getJob ex_done_store 0) = Some ''done''
   \<and> validateCreatePayload (ex_request ''full_content'' 2) = Valid ''full_content'' (replicate 2 ex_item)
   \<and> fst (jobs_create no_fail ex_done_store (ex_headers (Some ''tok'')) ''t1'' (ex_request ''full_content'' 2) 1)
        = IdempotentHit 0 ''queued''
   \<and> jobs (snd (jobs_create no_fail ex_done_store (ex_headers (Some ''tok'')) ''t1''
                   (ex_request ''full_content'' 2) 1)) = jobs ex_done_store
   \<and> holds (snd (jobs_create no_fail ex_done_store (ex_headers (Some ''tok'')) ''t1''
                    (ex_request ''full_content'' 2) 1)) = holds ex_done_store"
proof -
  let ?c2 = "jobs_create no_fail ex_done_store (ex_headers (Some ''tok'')) ''t1'' (ex_request ''full_content'' 2) 1"
  have h1: "pickIdempotencyKey (ex_headers (Some ''tok'')) = Some ''tok''"
    by code_simp
  note h3 = ex_queued_store_created
  have h4: "Created 0 ''queued'' 8 = Created 0 ''queued'' 8 \<or> Created 0 ''queued'' 8 = IdempotentHit 0 ''queued''"
    by simp
  have h5: "idempotency ex_done_store = idempotency ex_queued_store"
    by code_simp
  have h6: "validateCreatePayload (ex_request ''full_content'' 2) = Valid ''full_content'' (replicate 2 ex_item)"
    by (rule ex_request_valid) (simp_all add: ALLOWED_MODES_def)
  have d: "map_option j_status (getJob ex_done_store 0) = Some ''done''"
    by code_simp
  have r: "fst ?c2 = IdempotentHit 0 ''queued''
       \<and> snd ?c2 = ex_done_store\<lparr>job_events := job_events (snd ?c2)\<rparr>"
    by (rule same_token_returns_first_job [OF h1 h1 h3 h4 h5 h6])
  then have "jobs (snd ?c2) = jobs (ex_done_store\<lparr>job_events := job_events (snd ?c2)\<rparr>)"
    and "holds (snd ?c2) = holds (ex_done_store\<lparr>job_events := job_events (snd ?c2)\<rparr>)"
    by simp_all
  then have "jobs (snd ?c2) = jobs ex_done_store" and "holds (snd ?c2) = holds ex_done_store"
    by simp_all
  with h1 h3 h5 d h6 r show ?thesis
    by simp
qed

section \<open>Properties of the worker\<close>

lemma setJob_fields [simp]:
  "job_seq (setJob j f s) = job_seq s"
  "holds (setJob j f s) = holds s"
  "aej_logs (setJob j f s) = aej_logs s"
  "idempotency (setJob j f s) = idempotency s"
  "site_settings (setJob j f s) = site_settings s"
  "job_events (setJob j f s) = job_events s"
  "decision_log (setJob j f s) = decision_log s"
  "clients (setJob j f s) = clients s"
  "queue (setJob j f s) = queue s"
  by (simp_all add: setJob_def)

lemma releaseHold_fields [simp]:
  "jobs (releaseHold c j now s) = jobs s"
  "job_seq (releaseHold c j now s) = job_seq s"
  "aej_logs (releaseHold c j now s) = aej_logs s"
  "idempotency (releaseHold c j now s) = idempotency s"
  "site_settings (releaseHold c j now s) = site_settings s"
  "job_events (releaseHold c j now s) = job_events s"
  "decision_log (releaseHold c j now s) = decision_log s"
  "clients (releaseHold c j now s) = clients s"
  "queue (releaseHold c j now s) = queue s"
  "holds (releaseHold c j now s) = release c j now (holds s)"
  by (simp_all add: releaseHold_def)

lemma logAEJ_fields [simp]:
  "jobs (logAEJ c j st u now s) = jobs s"
  "job_seq (logAEJ c j st u now s) = job_seq s"
  "holds (logAEJ c j st u now s) = holds s"
  "idempotency (logAEJ c j st u now s) = idempotency s"
  "site_settings (logAEJ c j st u now s) = site_settings s"
  "job_events (logAEJ c j st u now s) = job_events s"
  "decision_log (logAEJ c j st u now s) = decision_log s"
  "clients (logAEJ c j st u now s) = clients s"
  "queue (logAEJ c j st u now s) = queue s"
  "aej_logs (logAEJ c j st u now s) = ledger_insert c j st u now (aej_logs s)"
  by (simp_all add: logAEJ_def)

lemma insert_decision_fields [simp]:
  "jobs (insert_decision c j t r s) = jobs s"
  "job_seq (insert_decision c j t r s) = job_seq s"
  "holds (insert_decision c j t r s) = holds s"
  "aej_logs (insert_decision c j t r s) = aej_logs s"
  "idempotency (insert_decision c j t r s) = idempotency s"
  "site_settings (insert_decision c j t r s) = site_settings s"
  "job_events (insert_decision c j t r s) = job_events s"
  "clients (insert_decision c j t r s) = clients s"
  "queue (insert_decision c j t r s) = queue s"
  "decision_log (insert_decision c j t r s) = decisions_insert c j t r (decision_log s)"
  by (simp_all add: insert_decision_def)

lemma held_neq_released: "''released'' \<noteq> ''held''"
  by simp

lemma releaseHold_not_held:
  assumes "h \<in> set (holds (releaseHold c j now s))" and "h_job_id h = j" and "h_client_id h = c"
  shows "h_status h \<noteq> ''held''"
proof -
  from assms(1) obtain x where x: "x \<in> set (holds s)"
    and h: "h = (if h_job_id x = j \<and> h_client_id x = c \<and> h_status x = ''held''
                 then x\<lparr>h_status := ''released'', h_released_at := Some now\<rparr> else x)"
    unfolding releaseHold_def release_def by auto
  show ?thesis
  proof (cases "h_job_id x = j \<and> h_client_id x = c \<and> h_status x = ''held''")
    case True
    with h have "h_status h = ''released''" by simp
    then show ?thesis using held_neq_released by simp
  next
    case False
    with h have "h = x" by simp
    with False assms(2,3) show ?thesis by auto
  qed
qed

lemma releaseHold_noop:
  "\<forall>h \<in> set (holds s). h_job_id h = j \<longrightarrow> h_status h \<noteq> ''held'' \<Longrightarrow> releaseHold c j now s = s"
proof -
  assume a: "\<forall>h \<in> set (holds s). h_job_id h = j \<longrightarrow> h_status h \<noteq> ''held''"
  have "map (\<lambda>h. if h_job_id h = j \<and> h_client_id h = c \<and> h_status h = ''held''
                  then h\<lparr>h_status := ''released'', h_released_at := Some now\<rparr> else h) (holds s)
          = holds s"
    by (rule map_idI) (use a in auto)
  then show ?thesis
    by (simp add: releaseHold_def release_def)
qed

lemma find_map_upd:
  assumes "\<And>x. j_id (f x) = j_id x"
  shows "find (\<lambda>x. j_id x = j') (map (\<lambda>x. if j_id x = j then f x else x) xs)
          = (if j' = j then map_option f (find (\<lambda>x. j_id x = j) xs) else find (\<lambda>x. j_id x = j') xs)"
  by (induction xs) (auto simp: assms)

lemma getJob_setJob:
  assumes "\<And>x. j_id (f x) = j_id x"
  shows "getJob (setJob j f s) j' = (if j' = j then map_option f (getJob s j) else getJob s j')"
  by (simp add: getJob_def setJob_def find_map_upd [OF assms])

lemma getJob_id: "getJob s j = Some row \<Longrightarrow> j_id row = j"
  by (auto simp: getJob_def find_Some_iff)

lemma processor_canceled:
  assumes "getJob s jobId = Some row" and "j_status row = ''canceled''"
  shows "processor en s jobId now =
           \<lparr>result = Skipped True, called_backend = False,
            after = releaseHold (j_client_id row) jobId now s\<rparr>"
  using assms by (simp add: processor_def)

lemma processor_done:
  assumes "getJob s jobId = Some row" and "j_status row = ''done''"
  shows "processor en s jobId now = \<lparr>result = Skipped False, called_backend = False, after = s\<rparr>"
  using assms by (simp add: processor_def)

lemma admin_cancel_queued:
  assumes "getJob s jobId = Some row" and "j_status row \<noteq> ''done''" and "j_status row \<noteq> ''error''"
  shows "fst (admin_cancel ef s jobId now) = CanceledOk ''canceled''"
    and "\<exists>row'. getJob (snd (admin_cancel ef s jobId now)) jobId = Some row'
           \<and> j_status row' = ''canceled'' \<and> j_client_id row' = j_client_id row"
    and "\<forall>h \<in> set (holds (snd (admin_cancel ef s jobId now))). h_job_id h = jobId \<longrightarrow> h_status h \<noteq> ''held''"
    and "jobId \<notin> set (queue (snd (admin_cancel ef s jobId now)))"
    and "aej_logs (snd (admin_cancel ef s jobId now)) = aej_logs s"
proof -
  let ?f = "\<lambda>j. j\<lparr>j_status := ''canceled'',
                     j_error_text := Some (case j_error_text j of None \<Rightarrow> [] | Some e \<Rightarrow> e)\<rparr>"
  let ?g = "\<lambda>h. if h_job_id h = jobId \<and> h_status h = ''held''
                  then h\<lparr>h_status := ''released'', h_released_at := Some now\<rparr> else h"
  have e: "snd (admin_cancel ef s jobId now) =
             logJobEvent ef jobId (j_client_id row) ''canceled'' ''Canceled by admin''
               ((setJob jobId ?f s)\<lparr>queue := filter (\<lambda>q. q \<noteq> jobId) (queue (setJob jobId ?f s)),
                                     holds := map ?g (holds (setJob jobId ?f s))\<rparr>)"
    using assms by (simp add: admin_cancel_def Let_def)
  show "fst (admin_cancel ef s jobId now) = CanceledOk ''canceled''"
    using assms by (simp add: admin_cancel_def Let_def)
  have "getJob (snd (admin_cancel ef s jobId now)) jobId = getJob (setJob jobId ?f s) jobId"
    by (simp add: e getJob_def)
  also have "\<dots> = Some (?f row)"
    using assms(1) by (simp add: getJob_setJob)
  finally show "\<exists>row'. getJob (snd (admin_cancel ef s jobId now)) jobId = Some row'
           \<and> j_status row' = ''canceled'' \<and> j_client_id row' = j_client_id row"
    by simp
  show "\<forall>h \<in> set (holds (snd (admin_cancel ef s jobId now))). h_job_id h = jobId \<longrightarrow> h_status h \<noteq> ''held''"
  proof
    fix h assume "h \<in> set (holds (snd (admin_cancel ef s jobId now)))"
    then have "h \<in> ?g ` set (holds s)"
      by (simp add: e)
    then obtain x where h: "h = ?g x"
      by blast
    show "h_job_id h = jobId \<longrightarrow> h_status h \<noteq> ''held''"
    proof (cases "h_job_id x = jobId \<and> h_status x = ''held''")
      case True
      with h have "h_status h = ''released''" by simp
      then show ?thesis using held_neq_released by simp
    next
      case False
      with h have "h = x" by simp
      with False show ?thesis by auto
    qed
  qed
  show "jobId \<notin> set (queue (snd (admin_cancel ef s jobId now)))"
    by (simp add: e)
  show "aej_logs (snd (admin_cancel ef s jobId now)) = aej_logs s"
    by (simp add: e)
qed

text \<open>
  Claim C7. Canceling a job that is \<^verbatim>\<open>queued\<close> (\<^verbatim>\<open>POST /v1/admin/jobs/:id/cancel\<close>) marks it
  \<^verbatim>\<open>canceled\<close> and leaves none of its holds held; a delivery of the job to the worker then
  returns \<^verbatim>\<open>skipped, canceled\<close> without calling the backend and leaves the store exactly
  as the cancel left it. More generally, on any store in which the job is \<^verbatim>\<open>canceled\<close>,
  a delivery calls no backend, changes no job row and no ledger entry, and only releases
  the hold of the job: afterwards no hold of the job and its tenant is held. A delivery of
  a job that is \<^verbatim>\<open>done\<close> returns \<^verbatim>\<open>skipped\<close> and leaves the store unchanged.
\<close>

theorem canceled_or_done_job_is_skipped:
  "(getJob s jobId = Some row \<and> j_status row = ''queued'' \<longrightarrow>
      fst (admin_cancel ef s jobId now) = CanceledOk ''canceled''
      \<and> map_option j_status (getJob (snd (admin_cancel ef s jobId now)) jobId) = Some ''canceled''
      \<and> (\<forall>h \<in> set (holds (snd (admin_cancel ef s jobId now))). h_job_id h = jobId \<longrightarrow> h_status h \<noteq> ''held'')
      \<and> deliver en (snd (admin_cancel ef s jobId now)) jobId now'
           = \<lparr>result = Skipped True, called_backend = False, after = snd (admin_cancel ef s jobId now)\<rparr>)
   \<and> (getJob s1 jobId = Some row1 \<and> j_status row1 = ''canceled'' \<longrightarrow>
        result (deliver en s1 jobId now') = Skipped True
        \<and> called_backend (deliver en s1 jobId now') = False
        \<and> after (deliver en s1 jobId now') = releaseHold (j_client_id row1) jobId now' s1
        \<and> jobs (after (deliver en s1 jobId now')) = jobs s1
        \<and> aej_logs (after (deliver en s1 jobId now')) = aej_logs s1
        \<and> (\<forall>h \<in> set (holds (after (deliver en s1 jobId now'))).
              h_job_id h = jobId \<and> h_client_id h = j_client_id row1 \<longrightarrow> h_status h \<noteq> ''held''))
   \<and> (getJob s2 jobId = Some row2 \<and> j_status row2 = ''done'' \<longrightarrow>
        deliver en s2 jobId now' = \<lparr>result = Skipped False, called_backend = False, after = s2\<rparr>)"
proof (intro conjI impI)
  assume a: "getJob s jobId = Some row \<and> j_status row = ''queued''"
  then have g: "getJob s jobId = Some row" and n: "j_status row \<noteq> ''done''" "j_status row \<noteq> ''error''"
    by simp_all
  let ?s = "snd (admin_cancel ef s jobId now)"
  show "fst (admin_cancel ef s jobId now) = CanceledOk ''canceled''"
    by (rule admin_cancel_queued(1) [OF g n])
  from admin_cancel_queued(2) [OF g n, of ef now] obtain row' where
    r: "getJob ?s jobId = Some row'" "j_status row' = ''canceled''"
    by blast
  then show "map_option j_status (getJob ?s jobId) = Some ''canceled''"
    by simp
  have h: "\<forall>h \<in> set (holds ?s). h_job_id h = jobId \<longrightarrow> h_status h \<noteq> ''held''"
    by (rule admin_cancel_queued(3) [OF g n])
  then show "\<forall>h \<in> set (holds ?s). h_job_id h = jobId \<longrightarrow> h_status h \<noteq> ''held''" .
  show "deliver en ?s jobId now' = \<lparr>result = Skipped True, called_backend = False, after = ?s\<rparr>"
    by (simp add: deliver_def processor_canceled [OF r] releaseHold_noop [OF h])
next
  assume a: "getJob s1 jobId = Some row1 \<and> j_status row1 = ''canceled''"
  then have d: "deliver en s1 jobId now' =
      \<lparr>result = Skipped True, called_backend = False, after = releaseHold (j_client_id row1) jobId now' s1\<rparr>"
    by (simp add: deliver_def processor_canceled)
  show "result (deliver en s1 jobId now') = Skipped True" by (simp add: d)
  show "called_backend (deliver en s1 jobId now') = False" by (simp add: d)
  show "after (deliver en s1 jobId now') = releaseHold (j_client_id row1) jobId now' s1" by (simp add: d)
  show "jobs (after (deliver en s1 jobId now')) = jobs s1" by (simp add: d)
  show "aej_logs (after (deliver en s1 jobId now')) = aej_logs s1" by (simp add: d)
  show "\<forall>h \<in> set (holds (after (deliver en s1 jobId now'))).
              h_job_id h = jobId \<and> h_client_id h = j_client_id row1 \<longrightarrow> h_status h \<noteq> ''held''"
    using releaseHold_not_held by (simp add: d)
next
  assume "getJob s2 jobId = Some row2 \<and> j_status row2 = ''done''"
  then show "deliver en s2 jobId now' = \<lparr>result = Skipped False, called_backend = False, after = s2\<rparr>"
    by (simp add: deliver_def processor_done)
qed

theorem canceled_or_done_job_is_skipped_witness:
  "map_option j_status (getJob ex_queued_store 0) = Some ''queued''
   \<and> map h_status (holds ex_queued_store) = [''held'']
   \<and> fst (admin_cancel no_fail ex_queued_store 0 1) = CanceledOk ''canceled''
   \<and> map h_status (holds (snd (admin_cancel no_fail ex_queued_store 0 1))) = [''released'']
   \<and> deliver (ex_env False (Inr JNull)) (snd (admin_cancel no_fail ex_queued_store 0 1)) 0 2
        = \<lparr>result = Skipped True, called_backend = False,
           after = snd (admin_cancel no_fail ex_queued_store 0 1)\<rparr>
   \<and> map_option j_status (getJob ex_done_store 0) = Some ''done''
   \<and> deliver (ex_env False (Inr JNull)) ex_done_store 0 2
        = \<lparr>result = Skipped False, called_backend = False, after = ex_done_store\<rparr>"
proof -
  have q: "getJob ex_queued_store 0 \<noteq> None" "map_option j_status (getJob ex_queued_store 0) = Some ''queued''"
    "map h_status (holds ex_queued_store) = [''held'']"
    "map h_status (holds (snd (admin_cancel no_fail ex_queued_store 0 1))) = [''released'']"
    by code_simp+
  then obtain row where r: "getJob ex_queued_store 0 = Some row" "j_status row = ''queued''"
    by auto
  have d: "getJob ex_done_store 0 \<noteq> None" "map_option j_status (getJob ex_done_store 0) = Some ''done''"
    by code_simp+
  then obtain row2 where r2: "getJob ex_done_store 0 = Some row2" "j_status row2 = ''done''"
    by auto
  from canceled_or_done_job_is_skipped
         [of ex_queued_store 0 row no_fail 1 "ex_env False (Inr JNull)" 2 ex_done_store row2 ex_done_store row2]
       r r2 q d
  show ?thesis by simp
qed

section \<open>Administrative retry\<close>

text \<open>
  Claim C8, evaluated on a job that was admitted, run to \<^verbatim>\<open>done\<close> and settled (its hold
  row is \<^verbatim>\<open>released\<close>). \<^verbatim>\<open>POST /v1/admin/jobs/:id/retry\<close> resets the job to \<^verbatim>\<open>queued\<close>,
  progress 0, no result and no error text, and enqueues it; but the insert of the hold
  conflicts with the released row on the primary key and does nothing, so the job is
  queued with no held hold and the tenant's held amount is 0. The helper \<^verbatim>\<open>retryJob\<close> of
  the browser console leaves the holds alone as well. A finish time on the row survives
  the endpoint, while \<^verbatim>\<open>retryJob\<close> clears it.
\<close>

theorem admin_retry_leaves_hold_released:
  "map_option j_status (getJob ex_done_store 0) = Some ''done''
   \<and> map h_status (holds ex_done_store) = [''released'']
   \<and> fst (admin_retry no_fail ex_done_store 0) = RetriedOk ''queued''
   \<and> map_option j_status (getJob (snd (admin_retry no_fail ex_done_store 0)) 0) = Some ''queued''
   \<and> map_option j_progress (getJob (snd (admin_retry no_fail ex_done_store 0)) 0) = Some 0
   \<and> map_option j_result_json (getJob (snd (admin_retry no_fail ex_done_store 0)) 0) = Some None
   \<and> map_option j_error_text (getJob (snd (admin_retry no_fail ex_done_store 0)) 0) = Some None
   \<and> queue (snd (admin_retry no_fail ex_done_store 0)) = queue ex_done_store @ [0]
   \<and> holds (snd (admin_retry no_fail ex_done_store 0)) = holds ex_done_store
   \<and> map h_status (holds (snd (admin_retry no_fail ex_done_store 0))) = [''released'']
   \<and> held_of (snd (admin_retry no_fail ex_done_store 0)) ''t1'' = 0
   \<and> map_option holds (retryJob no_fail ex_done_store 0) = Some (holds ex_done_store)
   \<and> map j_finished_at
        (jobs (snd (admin_retry no_fail (setJob 0 (\<lambda>j. j\<lparr>j_finished_at := Some 1\<rparr>) ex_done_store) 0)))
       = [Some 1]
   \<and> map_option (\<lambda>s. map j_finished_at (jobs s))
        (retryJob no_fail (setJob 0 (\<lambda>j. j\<lparr>j_finished_at := Some 1\<rparr>) ex_done_store) 0)
       = Some [None]"
  by code_simp

lemma getJob_jobs: "jobs s = jobs s' \<Longrightarrow> getJob s j = getJob s' j"
  by (simp add: getJob_def)

lemma getJob_ops [simp]:
  "getJob (logJobEvent ef j c t m s) x = getJob s x"
  "getJob (logAEJ c j st u now s) x = getJob s x"
  "getJob (insert_decision c j t r s) x = getJob s x"
  "getJob (releaseHold c j now s) x = getJob s x"
  by (simp_all add: getJob_def)

lemma getJob_setJob_simp [simp]:
  "(\<And>x. j_id (f x) = j_id x) \<Longrightarrow>
     getJob (setJob j f s) j' = (if j' = j then map_option f (getJob s j) else getJob s j')"
  by (rule getJob_setJob)

lemma ev_eq_refl [simp]: "ev_eq s s"
  by (simp add: ev_eq_def)

lemma ev_eq_sym: "ev_eq s s' \<Longrightarrow> ev_eq s' s"
  by (simp add: ev_eq_def)

lemma ev_eq_trans: "ev_eq s s' \<Longrightarrow> ev_eq s' s'' \<Longrightarrow> ev_eq s s''"
  by (simp add: ev_eq_def)

lemma ev_eq_logJobEvent_left [simp]: "ev_eq (logJobEvent ef j c t m s) s' = ev_eq s s'"
  by (simp add: ev_eq_def)

lemma ev_eq_logJobEvent_right [simp]: "ev_eq s (logJobEvent ef j c t m s') = ev_eq s s'"
  by (simp add: ev_eq_def)

lemma ev_eq_setJob: "ev_eq s s' \<Longrightarrow> ev_eq (setJob j f s) (setJob j f s')"
  by (simp add: ev_eq_def setJob_def)

lemma ev_eq_releaseHold: "ev_eq s s' \<Longrightarrow> ev_eq (releaseHold c j now s) (releaseHold c j now s')"
  by (simp add: ev_eq_def)

lemma ev_eq_logAEJ: "ev_eq s s' \<Longrightarrow> ev_eq (logAEJ c j st u now s) (logAEJ c j st u now s')"
  by (simp add: ev_eq_def)

lemma ev_eq_insert_decision:
  "ev_eq s s' \<Longrightarrow> ev_eq (insert_decision c j t r s) (insert_decision c j t r s')"
  by (simp add: ev_eq_def)

lemma ev_eq_getJob: "ev_eq s s' \<Longrightarrow> getJob s j = getJob s' j"
  by (simp add: ev_eq_def getJob_def)

lemma ev_eq_computeAEJTotal: "ev_eq s s' \<Longrightarrow> computeAEJTotal c j s = computeAEJTotal c j s'"
  by (simp add: ev_eq_def computeAEJTotal_def)

text \<open>The generation stage touches only the event log, and ends in one of two ways.\<close>

lemma run_generation_cases:
  obtains (fallback) err u where
      "run_generation en dbJob mode s
         = (None, ''deterministic'', Some err, \<not> forced en \<and> supported_mode mode, u)"
      "ev_eq s u"
      "forced en \<or> \<not> supported_mode mode \<or> (\<exists>msg. backend en = Inl msg)
       \<or> (\<exists>e. backend en = Inr e \<and> \<not> js_truthy e)"
    | (openai) e u where
      "run_generation en dbJob mode s = (Some e, ''openai'', None, True, u)" "ev_eq s u"
      "\<not> forced en" "supported_mode mode" "backend en = Inr e" "js_truthy e"
proof (cases "forced en \<or> \<not> supported_mode mode")
  case True
  then have "\<exists>err. run_generation en dbJob mode s
               = (None, ''deterministic'', Some err, \<not> forced en \<and> supported_mode mode, s)"
    by (cases "forced en") (simp_all add: run_generation_def)
  then obtain err where "run_generation en dbJob mode s
               = (None, ''deterministic'', Some err, \<not> forced en \<and> supported_mode mode, s)"
    by blast
  then show ?thesis
    using True by (intro fallback [of err s]) auto
next
  case False
  show ?thesis
  proof (cases "backend en")
    case (Inl msg)
    with False have "\<exists>u. run_generation en dbJob mode s
               = (None, ''deterministic'', Some msg, \<not> forced en \<and> supported_mode mode, u)
               \<and> ev_eq s u"
      by (simp add: run_generation_def Let_def)
    then obtain u where "run_generation en dbJob mode s
               = (None, ''deterministic'', Some msg, \<not> forced en \<and> supported_mode mode, u)"
      and "ev_eq s u"
      by blast
    then show ?thesis
      using Inl by (intro fallback [of msg u]) auto
  next
    case (Inr e)
    show ?thesis
    proof (cases "js_truthy e")
      case True
      with False Inr have "\<exists>u. run_generation en dbJob mode s = (Some e, ''openai'', None, True, u)
               \<and> ev_eq s u"
        by (simp add: run_generation_def Let_def)
      then obtain u where "run_generation en dbJob mode s = (Some e, ''openai'', None, True, u)"
        and "ev_eq s u"
        by blast
      then show ?thesis
        using False Inr True by (intro openai [of e u]) auto
    next
      case nt: False
      with False Inr have "\<exists>u. run_generation en dbJob mode s
               = (None, ''deterministic'', Some ''OPENAI_NO_JSON_OUTPUT'',
                  \<not> forced en \<and> supported_mode mode, u)
               \<and> ev_eq s u"
        by (simp add: run_generation_def Let_def)
      then obtain u where "run_generation en dbJob mode s
               = (None, ''deterministic'', Some ''OPENAI_NO_JSON_OUTPUT'',
                  \<not> forced en \<and> supported_mode mode, u)"
        and "ev_eq s u"
        by blast
      then show ?thesis
        using Inr nt by (intro fallback [of "''OPENAI_NO_JSON_OUTPUT''" u]) auto
    qed
  qed
qed

lemma run_settle_unfold:
  assumes "decision_fails en ''modified'' = None"
  shows "run_settle en dbJob mode now (e, src, err, cb, u) =
     \<lparr>result = Completed (j_id dbJob), called_backend = cb,
      after =
        releaseHold (j_client_id dbJob) (j_id dbJob) now
          (setJob (j_id dbJob)
             (\<lambda>j. j\<lparr>j_aej_final := Some (computeAEJTotal (j_client_id dbJob) (j_id dbJob)
                 (logAEJ (j_client_id dbJob) (j_id dbJob) ''application'' 1 now
                 (insert_decision (j_client_id dbJob) (j_id dbJob) ''modified'' (decision_reason_modified src)
                 (logJobEvent (event_fails en) (j_id dbJob) (j_client_id dbJob) ''done'' ''Job finished''
                 (setJob (j_id dbJob)
                    (\<lambda>j. j\<lparr>j_status := ''done'', j_progress := 100,
                            j_result_json := Some
                              \<lparr>r_ok = True,
                               results = [\<lparr>exec = (case e of Some x \<Rightarrow> x
                                                    | None \<Rightarrow> buildDeterministicFallback mode),
                                           source = src, llm_error = err,
                                           r_status = ''ready_to_review''\<rparr>]\<rparr>\<rparr>)
                 (case e of
                    Some x \<Rightarrow> logAEJ (j_client_id dbJob) (j_id dbJob) ''generation''
                                (if src = ''openai'' then 5 else 1) now u
                  | None \<Rightarrow> logJobEvent (event_fails en) (j_id dbJob) (j_client_id dbJob) ''fallback''
                              ''Using deterministic fallback''
                              (logAEJ (j_client_id dbJob) (j_id dbJob) ''generation''
                                 (if src = ''openai'' then 5 else 1) now u)))))))\<rparr>)
             (logAEJ (j_client_id dbJob) (j_id dbJob) ''application'' 1 now
                 (insert_decision (j_client_id dbJob) (j_id dbJob) ''modified'' (decision_reason_modified src)
                 (logJobEvent (event_fails en) (j_id dbJob) (j_client_id dbJob) ''done'' ''Job finished''
                 (setJob (j_id dbJob)
                    (\<lambda>j. j\<lparr>j_status := ''done'', j_progress := 100,
                            j_result_json := Some
                              \<lparr>r_ok = True,
                               results = [\<lparr>exec = (case e of Some x \<Rightarrow> x
                                                    | None \<Rightarrow> buildDeterministicFallback mode),
                                           source = src, llm_error = err,
                                           r_status = ''ready_to_review''\<rparr>]\<rparr>\<rparr>)
                 (case e of
                    Some x \<Rightarrow> logAEJ (j_client_id dbJob) (j_id dbJob) ''generation''
                                (if src = ''openai'' then 5 else 1) now u
                  | None \<Rightarrow> logJobEvent (event_fails en) (j_id dbJob) (j_client_id dbJob) ''fallback''
                              ''Using deterministic fallback''
                              (logAEJ (j_client_id dbJob) (j_id dbJob) ''generation''
                                 (if src = ''openai'' then 5 else 1) now u)))))))\<rparr>"
  using assms by (cases e) (simp_all add: run_settle_def Let_def logDecision_def)

lemma run_settle_ok:
  assumes "decision_fails en ''modified'' = None" and "getJob u (j_id dbJob) = Some row"
  shows "result (run_settle en dbJob mode now (e, src, err, cb, u)) = Completed (j_id dbJob)"
    and "called_backend (run_settle en dbJob mode now (e, src, err, cb, u)) = cb"
    and "getJob (after (run_settle en dbJob mode now (e, src, err, cb, u))) (j_id dbJob)
           = Some (row\<lparr>j_status := ''done'', j_progress := 100,
                        j_result_json := Some
                          \<lparr>r_ok = True,
                           results = [\<lparr>exec = (case e of Some x \<Rightarrow> x
                                                | None \<Rightarrow> buildDeterministicFallback mode),
                                       source = src, llm_error = err,
                                       r_status = ''ready_to_review''\<rparr>]\<rparr>,
                        j_aej_final := Some
                          (job_total (j_client_id dbJob) (j_id dbJob)
                             (ledger_insert (j_client_id dbJob) (j_id dbJob) ''application'' 1 now
                                (ledger_insert (j_client_id dbJob) (j_id dbJob) ''generation''
                                   (if src = ''openai'' then 5 else 1) now (aej_logs u))))\<rparr>)"
    and "holds (after (run_settle en dbJob mode now (e, src, err, cb, u)))
           = release (j_client_id dbJob) (j_id dbJob) now (holds u)"
    and "aej_logs (after (run_settle en dbJob mode now (e, src, err, cb, u)))
           = ledger_insert (j_client_id dbJob) (j_id dbJob) ''application'' 1 now
               (ledger_insert (j_client_id dbJob) (j_id dbJob) ''generation''
                  (if src = ''openai'' then 5 else 1) now (aej_logs u))"
    and "site_settings (after (run_settle en dbJob mode now (e, src, err, cb, u))) = site_settings u"
    and "idempotency (after (run_settle en dbJob mode now (e, src, err, cb, u))) = idempotency u"
    and "job_seq (after (run_settle en dbJob mode now (e, src, err, cb, u))) = job_seq u"
proof -
  note u = run_settle_unfold [OF assms(1)]
  show "result (run_settle en dbJob mode now (e, src, err, cb, u)) = Completed (j_id dbJob)"
    by (simp add: u)
  show "called_backend (run_settle en dbJob mode now (e, src, err, cb, u)) = cb"
    by (simp add: u)
  show "holds (after (run_settle en dbJob mode now (e, src, err, cb, u)))
           = release (j_client_id dbJob) (j_id dbJob) now (holds u)"
    by (cases e) (simp_all add: u)
  show "aej_logs (after (run_settle en dbJob mode now (e, src, err, cb, u)))
           = ledger_insert (j_client_id dbJob) (j_id dbJob) ''application'' 1 now
               (ledger_insert (j_client_id dbJob) (j_id dbJob) ''generation''
                  (if src = ''openai'' then 5 else 1) now (aej_logs u))"
    by (cases e) (simp_all add: u)
  show "site_settings (after (run_settle en dbJob mode now (e, src, err, cb, u))) = site_settings u"
    by (cases e) (simp_all add: u)
  show "idempotency (after (run_settle en dbJob mode now (e, src, err, cb, u))) = idempotency u"
    by (cases e) (simp_all add: u)
  show "job_seq (after (run_settle en dbJob mode now (e, src, err, cb, u))) = job_seq u"
    by (cases e) (simp_all add: u)
  show "getJob (after (run_settle en dbJob mode now (e, src, err, cb, u))) (j_id dbJob)
           = Some (row\<lparr>j_status := ''done'', j_progress := 100,
                        j_result_json := Some
                          \<lparr>r_ok = True,
                           results = [\<lparr>exec = (case e of Some x \<Rightarrow> x
                                                | None \<Rightarrow> buildDeterministicFallback mode),
                                       source = src, llm_error = err,
                                       r_status = ''ready_to_review''\<rparr>]\<rparr>,
                        j_aej_final := Some
                          (job_total (j_client_id dbJob) (j_id dbJob)
                             (ledger_insert (j_client_id dbJob) (j_id dbJob) ''application'' 1 now
                                (ledger_insert (j_client_id dbJob) (j_id dbJob) ''generation''
                                   (if src = ''openai'' then 5 else 1) now (aej_logs u))))\<rparr>)"
    using assms(2) by (cases e) (simp_all add: u computeAEJTotal_def)
qed

lemma processor_runs:
  assumes "getJob s jobId = Some dbJob" and "j_status dbJob \<noteq> ''done''"
    and "j_status dbJob \<noteq> ''canceled''" and "j_request_json dbJob = Some reqJson"
    and "decision_fails en ''analysed'' = None"
  shows "processor en s jobId now =
           run_settle en dbJob
             (normalizeMode (if mode_truthy (b_mode reqJson) then b_mode reqJson else ModeString (j_mode dbJob))) now
             (run_generation en dbJob
                (normalizeMode (if mode_truthy (b_mode reqJson) then b_mode reqJson else ModeString (j_mode dbJob)))
                (setJob jobId (\<lambda>j. j\<lparr>j_progress := 30\<rparr>)
                   (logAEJ (j_client_id dbJob) jobId ''decision'' 1 now
                      (insert_decision (j_client_id dbJob) jobId ''analysed'' decision_reason_analysed
                         (log_analyse dbJob now (mark_running en dbJob s))))))"
  using assms by (simp add: processor_def Let_def logDecision_def)

lemma processor_decision_fails:
  assumes "getJob s jobId = Some dbJob" and "j_status dbJob \<noteq> ''done''"
    and "j_status dbJob \<noteq> ''canceled''" and "j_request_json dbJob = Some reqJson"
    and "decision_fails en ''analysed'' = Some msg"
  shows "processor en s jobId now =
           \<lparr>result = Thrown msg, called_backend = False,
            after = log_analyse dbJob now (mark_running en dbJob s)\<rparr>"
  using assms by (simp add: processor_def Let_def logDecision_def)

lemma getJob_pre_generation:
  assumes "getJob s jobId = Some dbJob"
  shows "getJob (setJob jobId (\<lambda>j. j\<lparr>j_progress := 30\<rparr>)
                   (logAEJ (j_client_id dbJob) jobId ''decision'' 1 now
                      (insert_decision (j_client_id dbJob) jobId ''analysed'' decision_reason_analysed
                         (log_analyse dbJob now (mark_running en dbJob s))))) jobId
           = Some (dbJob\<lparr>j_status := ''running'', j_progress := 30\<rparr>)"
  using assms by (simp add: log_analyse_def mark_running_def getJob_id)

section \<open>The fallback of the worker\<close>

text \<open>
  Claim C5, as the code has it. The worker picks up a job that is neither \<^verbatim>\<open>done\<close> nor
  \<^verbatim>\<open>canceled\<close> and the decision log accepts its two inserts. Then the delivery completes,
  and the backend is called exactly when the degraded flag is not forced and the mode has a
  prompt. If generation gives no document (the degraded flag is forced, the mode has no
  prompt, which is the case of every mode that is not a string, \<^verbatim>\<open>callOpenAI\<close> throws on a
  missing key or a network or HTTP error, or its output parses to no JSON document), the
  job is \<^verbatim>\<open>done\<close> at progress 100 and its result holds one entry whose document is the fixed
  placeholder \<^verbatim>\<open>buildDeterministicFallback(mode)\<close> for the normalised mode of the request,
  with source \<^verbatim>\<open>deterministic\<close>, the captured error and the status \<^verbatim>\<open>ready_to_review\<close>. If
  the backend returns a document, conforming to the schema or not, the job is \<^verbatim>\<open>done\<close> at
  progress 100 and its result holds that document, with source \<^verbatim>\<open>openai\<close> and no error.
  For each of the three supported modes the placeholder carries that mode in its \<^verbatim>\<open>mode\<close>
  field, and it does not conform to the strict output schema of the mode; for every other
  mode the placeholder is the one of \<^verbatim>\<open>quick_boost\<close>.
\<close>

theorem backend_failure_yields_placeholder:
  assumes "getJob s jobId = Some dbJob" and "j_status dbJob \<noteq> ''done''"
    and "j_status dbJob \<noteq> ''canceled''" and "j_request_json dbJob = Some reqJson"
    and "decision_fails en ''analysed'' = None" and "decision_fails en ''modified'' = None"
    and "mode = normalizeMode (if mode_truthy (b_mode reqJson) then b_mode reqJson else ModeString (j_mode dbJob))"
  shows "result (deliver en s jobId now) = Completed jobId
       \<and> called_backend (deliver en s jobId now) = (\<not> forced en \<and> supported_mode mode)
       \<and> (forced en \<or> \<not> supported_mode mode \<or> (\<exists>msg. backend en = Inl msg)
            \<or> (\<exists>e'. backend en = Inr e' \<and> \<not> js_truthy e') \<longrightarrow>
           (\<exists>row err. getJob (after (deliver en s jobId now)) jobId = Some row
             \<and> j_status row = ''done'' \<and> j_progress row = 100
             \<and> j_result_json row = Some
                  \<lparr>r_ok = True,
                   results = [\<lparr>exec = buildDeterministicFallback mode, source = ''deterministic'',
                               llm_error = Some err, r_status = ''ready_to_review''\<rparr>]\<rparr>))
       \<and> (\<not> forced en \<and> supported_mode mode \<and> backend en = Inr e \<and> js_truthy e \<longrightarrow>
           (\<exists>row. getJob (after (deliver en s jobId now)) jobId = Some row
             \<and> j_status row = ''done'' \<and> j_progress row = 100
             \<and> j_result_json row = Some
                  \<lparr>r_ok = True,
                   results = [\<lparr>exec = e, source = ''openai'', llm_error = None,
                               r_status = ''ready_to_review''\<rparr>]\<rparr>))
       \<and> (supported_mode mode \<longrightarrow>
            json_field (buildDeterministicFallback mode) ''mode'' = Some (JStr (mode_string mode))
            \<and> (\<exists>sc. schema_of_mode mode = Some sc \<and> \<not> conforms sc (buildDeterministicFallback mode)))
       \<and> (\<not> supported_mode mode \<longrightarrow>
            buildDeterministicFallback mode = buildDeterministicFallback (ModeString ''quick_boost''))"
proof -
  let ?pre = "setJob jobId (\<lambda>j. j\<lparr>j_progress := 30\<rparr>)
                   (logAEJ (j_client_id dbJob) jobId ''decision'' 1 now
                      (insert_decision (j_client_id dbJob) jobId ''analysed'' decision_reason_analysed
                         (log_analyse dbJob now (mark_running en dbJob s))))"
  let ?F = "forced en \<or> \<not> supported_mode mode \<or> (\<exists>msg. backend en = Inl msg)
            \<or> (\<exists>e'. backend en = Inr e' \<and> \<not> js_truthy e')"
  let ?G = "\<not> forced en \<and> supported_mode mode \<and> backend en = Inr e \<and> js_truthy e"
  have id: "j_id dbJob = jobId"
    using assms(1) by (rule getJob_id)
  have p: "processor en s jobId now = run_settle en dbJob mode now (run_generation en dbJob mode ?pre)"
    unfolding assms(7) by (rule processor_runs [OF assms(1-5)])
  have g: "getJob ?pre jobId = Some (dbJob\<lparr>j_status := ''running'', j_progress := 30\<rparr>)"
    by (rule getJob_pre_generation [OF assms(1)])
  have sch: "supported_mode mode \<longrightarrow>
            json_field (buildDeterministicFallback mode) ''mode'' = Some (JStr (mode_string mode))
            \<and> (\<exists>sc. schema_of_mode mode = Some sc \<and> \<not> conforms sc (buildDeterministicFallback mode))"
  proof
    assume "supported_mode mode"
    then consider "mode = ModeString ''quick_boost''" | "mode = ModeString ''full_content''"
      | "mode = ModeString ''ecom_catalog''"
      by (auto simp: supported_mode_def)
    then show "json_field (buildDeterministicFallback mode) ''mode'' = Some (JStr (mode_string mode))
            \<and> (\<exists>sc. schema_of_mode mode = Some sc \<and> \<not> conforms sc (buildDeterministicFallback mode))"
    proof cases
      case 1
      have "json_field (buildDeterministicFallback (ModeString ''quick_boost'')) ''mode''
              = Some (JStr (mode_string (ModeString ''quick_boost'')))"
        "\<not> conforms QUICK_BOOST_SCHEMA (buildDeterministicFallback (ModeString ''quick_boost''))"
        by code_simp+
      moreover have "schema_of_mode (ModeString ''quick_boost'') = Some QUICK_BOOST_SCHEMA"
        by (simp add: schema_of_mode_def)
      ultimately
      show ?thesis unfolding 1 by simp
    next
      case 2
      have "json_field (buildDeterministicFallback (ModeString ''full_content'')) ''mode''
              = Some (JStr (mode_string (ModeString ''full_content'')))"
        "\<not> conforms FULL_CONTENT_SCHEMA (buildDeterministicFallback (ModeString ''full_content''))"
        by code_simp+
      moreover have "schema_of_mode (ModeString ''full_content'') = Some FULL_CONTENT_SCHEMA"
        by (simp add: schema_of_mode_def)
      ultimately
      show ?thesis unfolding 2 by simp
    next
      case 3
      have "json_field (buildDeterministicFallback (ModeString ''ecom_catalog'')) ''mode''
              = Some (JStr (mode_string (ModeString ''ecom_catalog'')))"
        "\<not> conforms ECOM_CATALOG_SCHEMA (buildDeterministicFallback (ModeString ''ecom_catalog''))"
        by code_simp+
      moreover have "schema_of_mode (ModeString ''ecom_catalog'') = Some ECOM_CATALOG_SCHEMA"
        by (simp add: schema_of_mode_def)
      ultimately
      show ?thesis unfolding 3 by simp
    qed
  qed
  have uns: "\<not> supported_mode mode \<longrightarrow>
            buildDeterministicFallback mode = buildDeterministicFallback (ModeString ''quick_boost'')"
    by (simp add: supported_mode_def buildDeterministicFallback_def)
  show ?thesis
  proof (cases rule: run_generation_cases [of en dbJob mode ?pre])
    case (fallback err u)
    from g fallback(2)
    have gu: "getJob u (j_id dbJob) = Some (dbJob\<lparr>j_status := ''running'', j_progress := 30\<rparr>)"
      by (simp add: id ev_eq_getJob [OF fallback(2), symmetric])
    note ok = run_settle_ok [OF assms(6) gu, of mode now None "''deterministic''" "Some err"
                               "\<not> forced en \<and> supported_mode mode"]
    have res: "result (processor en s jobId now) = Completed jobId"
      using ok(1) by (simp add: p fallback(1) id)
    then have d: "deliver en s jobId now = processor en s jobId now"
      by (simp add: deliver_def Let_def)
    have A: "result (deliver en s jobId now) = Completed jobId"
      using res by (simp add: d)
    have B: "called_backend (deliver en s jobId now) = (\<not> forced en \<and> supported_mode mode)"
      using ok(2) by (simp add: d p fallback(1))
    have "getJob (after (processor en s jobId now)) jobId
            = Some (dbJob\<lparr>j_status := ''done'', j_progress := 100,
                          j_result_json := Some
                            \<lparr>r_ok = True,
                             results = [\<lparr>exec = buildDeterministicFallback mode,
                                         source = ''deterministic'', llm_error = Some err,
                                         r_status = ''ready_to_review''\<rparr>]\<rparr>,
                          j_aej_final := Some
                            (job_total (j_client_id dbJob) jobId
                               (ledger_insert (j_client_id dbJob) jobId ''application'' 1 now
                                  (ledger_insert (j_client_id dbJob) jobId ''generation'' 1 now
                                     (aej_logs u))))\<rparr>)"
      using ok(3) by (simp add: p fallback(1) id)
    then have "\<exists>row err. getJob (after (deliver en s jobId now)) jobId = Some row
               \<and> j_status row = ''done'' \<and> j_progress row = 100
               \<and> j_result_json row = Some
                    \<lparr>r_ok = True,
                     results = [\<lparr>exec = buildDeterministicFallback mode, source = ''deterministic'',
                                 llm_error = Some err, r_status = ''ready_to_review''\<rparr>]\<rparr>"
      by (simp add: d)
    then have C: "?F \<longrightarrow> (\<exists>row err. getJob (after (deliver en s jobId now)) jobId = Some row
               \<and> j_status row = ''done'' \<and> j_progress row = 100
               \<and> j_result_json row = Some
                    \<lparr>r_ok = True,
                     results = [\<lparr>exec = buildDeterministicFallback mode, source = ''deterministic'',
                                 llm_error = Some err, r_status = ''ready_to_review''\<rparr>]\<rparr>)"
      by (rule impI)
    from fallback(3) have "\<not> ?G"
      by auto
    then have D: "?G \<longrightarrow> (\<exists>row. getJob (after (deliver en s jobId now)) jobId = Some row
             \<and> j_status row = ''done'' \<and> j_progress row = 100
             \<and> j_result_json row = Some
                  \<lparr>r_ok = True,
                   results = [\<lparr>exec = e, source = ''openai'', llm_error = None,
                               r_status = ''ready_to_review''\<rparr>]\<rparr>)"
      by (rule contrapos_np [THEN impI]) assumption
    from A B C D sch uns show ?thesis
      by - (intro conjI; assumption)
  next
    case (openai e' u)
    from g openai(2)
    have gu: "getJob u (j_id dbJob) = Some (dbJob\<lparr>j_status := ''running'', j_progress := 30\<rparr>)"
      by (simp add: id ev_eq_getJob [OF openai(2), symmetric])
    note ok = run_settle_ok [OF assms(6) gu, of mode now "Some e'" "''openai''" None True]
    have res: "result (processor en s jobId now) = Completed jobId"
      using ok(1) by (simp add: p openai(1) id)
    then have d: "deliver en s jobId now = processor en s jobId now"
      by (simp add: deliver_def Let_def)
    have A: "result (deliver en s jobId now) = Completed jobId"
      using res by (simp add: d)
    have B: "called_backend (deliver en s jobId now) = (\<not> forced en \<and> supported_mode mode)"
      using ok(2) openai(3,4) by (simp add: d p openai(1))
    have "getJob (after (processor en s jobId now)) jobId
            = Some (dbJob\<lparr>j_status := ''done'', j_progress := 100,
                          j_result_json := Some
                            \<lparr>r_ok = True,
                             results = [\<lparr>exec = e', source = ''openai'', llm_error = None,
                                         r_status = ''ready_to_review''\<rparr>]\<rparr>,
                          j_aej_final := Some
                            (job_total (j_client_id dbJob) jobId
                               (ledger_insert (j_client_id dbJob) jobId ''application'' 1 now
                                  (ledger_insert (j_client_id dbJob) jobId ''generation'' 5 now
                                     (aej_logs u))))\<rparr>)"
      using ok(3) by (simp add: p openai(1) id)
    then have row: "\<exists>row. getJob (after (deliver en s jobId now)) jobId = Some row
             \<and> j_status row = ''done'' \<and> j_progress row = 100
             \<and> j_result_json row = Some
                  \<lparr>r_ok = True,
                   results = [\<lparr>exec = e', source = ''openai'', llm_error = None,
                               r_status = ''ready_to_review''\<rparr>]\<rparr>"
      by (simp add: d)
    have D: "?G \<longrightarrow> (\<exists>row. getJob (after (deliver en s jobId now)) jobId = Some row
             \<and> j_status row = ''done'' \<and> j_progress row = 100
             \<and> j_result_json row = Some
                  \<lparr>r_ok = True,
                   results = [\<lparr>exec = e, source = ''openai'', llm_error = None,
                               r_status = ''ready_to_review''\<rparr>]\<rparr>)"
    proof
      assume ?G
      with openai(5) have "e = e'"
        by simp
      with row show "\<exists>row. getJob (after (deliver en s jobId now)) jobId = Some row
             \<and> j_status row = ''done'' \<and> j_progress row = 100
             \<and> j_result_json row = Some
                  \<lparr>r_ok = True,
                   results = [\<lparr>exec = e, source = ''openai'', llm_error = None,
                               r_status = ''ready_to_review''\<rparr>]\<rparr>"
        by simp
    qed
    from openai(3-6) have "\<not> ?F"
      by auto
    then have C: "?F \<longrightarrow> (\<exists>row err. getJob (after (deliver en s jobId now)) jobId = Some row
               \<and> j_status row = ''done'' \<and> j_progress row = 100
               \<and> j_result_json row = Some
                    \<lparr>r_ok = True,
                     results = [\<lparr>exec = buildDeterministicFallback mode, source = ''deterministic'',
                                 llm_error = Some err, r_status = ''ready_to_review''\<rparr>]\<rparr>)"
      by (rule contrapos_np [THEN impI]) assumption
    from A B C D sch uns show ?thesis
      by - (intro conjI; assumption)
  qed
qed

theorem backend_failure_yields_placeholder_witness:
  "getJob ex_queued_store 0 = Some ex_job
   \<and> j_status ex_job = ''queued''
   \<and> j_request_json ex_job = Some \<lparr>b_mode = ModeString ''quick_boost'', b_items = Some [ex_item], b_extra = []\<rparr>
   \<and> backend (ex_env False (Inl ''OPENAI_API_KEY_MISSING'')) = Inl ''OPENAI_API_KEY_MISSING''
   \<and> supported_mode (ModeString ''quick_boost'')
   \<and> result (deliver (ex_env False (Inl ''OPENAI_API_KEY_MISSING'')) ex_queued_store 0 0) = Completed 0
   \<and> called_backend (deliver (ex_env False (Inl ''OPENAI_API_KEY_MISSING'')) ex_queued_store 0 0)
   \<and> (\<exists>row err.
         getJob (after (deliver (ex_env False (Inl ''OPENAI_API_KEY_MISSING'')) ex_queued_store 0 0)) 0
           = Some row
         \<and> j_status row = ''done'' \<and> j_progress row = 100
         \<and> j_result_json row = Some
              \<lparr>r_ok = True,
               results = [\<lparr>exec = buildDeterministicFallback (ModeString ''quick_boost''),
                           source = ''deterministic'', llm_error = Some err,
                           r_status = ''ready_to_review''\<rparr>]\<rparr>)
   \<and> json_field (buildDeterministicFallback (ModeString ''quick_boost'')) ''mode'' = Some (JStr ''quick_boost'')
   \<and> (\<exists>sc. schema_of_mode (ModeString ''quick_boost'') = Some sc
           \<and> \<not> conforms sc (buildDeterministicFallback (ModeString ''quick_boost'')))
   \<and> backend (ex_env False (Inr (JObj []))) = Inr (JObj []) \<and> js_truthy (JObj [])
   \<and> (\<exists>row.
         getJob (after (deliver (ex_env False (Inr (JObj []))) ex_queued_store 0 0)) 0 = Some row
         \<and> j_status row = ''done'' \<and> j_progress row = 100
         \<and> j_result_json row = Some
              \<lparr>r_ok = True,
               results = [\<lparr>exec = JObj [], source = ''openai'', llm_error = None,
                           r_status = ''ready_to_review''\<rparr>]\<rparr>)
   \<and> getJob ex_array_store 0 = Some ex_array_job
   \<and> j_status ex_array_job = ''queued''
   \<and> j_request_json ex_array_job
        = Some \<lparr>b_mode = ModeOther ''ecom_catalog'', b_items = Some [ex_item], b_extra = []\<rparr>
   \<and> \<not> supported_mode (ModeOther ''ecom_catalog'')
   \<and> \<not> called_backend (deliver (ex_env False (Inr (JObj []))) ex_array_store 0 0)
   \<and> (\<exists>row err.
         getJob (after (deliver (ex_env False (Inr (JObj []))) ex_array_store 0 0)) 0 = Some row
         \<and> j_status row = ''done'' \<and> j_progress row = 100
         \<and> j_result_json row = Some
              \<lparr>r_ok = True,
               results = [\<lparr>exec = buildDeterministicFallback (ModeString ''quick_boost''),
                           source = ''deterministic'', llm_error = Some err,
                           r_status = ''ready_to_review''\<rparr>]\<rparr>)"
proof -
  let ?en = "ex_env False (Inl ''OPENAI_API_KEY_MISSING'')"
  let ?eo = "ex_env False (Inr (JObj []))"
  let ?b = "\<lparr>b_mode = ModeString ''quick_boost'', b_items = Some [ex_item], b_extra = []\<rparr>"
  let ?a = "\<lparr>b_mode = ModeOther ''ecom_catalog'', b_items = Some [ex_item], b_extra = []\<rparr>"
  have h1: "getJob ex_queued_store 0 = Some ex_job"
    by code_simp
  have h2: "j_status ex_job \<noteq> ''done''" and h3: "j_status ex_job \<noteq> ''canceled''"
    and h2': "j_status ex_job = ''queued''"
    by (simp_all add: ex_job_def)
  have h4: "j_request_json ex_job = Some ?b"
    by (simp add: ex_job_def)
  have h5: "decision_fails ?en ''analysed'' = None" and h6: "decision_fails ?en ''modified'' = None"
    and o5: "decision_fails ?eo ''analysed'' = None" and o6: "decision_fails ?eo ''modified'' = None"
    by (simp_all add: ex_env_def)
  have h7: "ModeString ''quick_boost'' = normalizeMode
      (if mode_truthy (b_mode ?b) then b_mode ?b else ModeString (j_mode ex_job))"
    by (simp add: normalizeMode_def mode_truthy_def)
  have b: "backend ?en = Inl ''OPENAI_API_KEY_MISSING''" "\<not> forced ?en"
    and bo: "backend ?eo = Inr (JObj [])" "\<not> forced ?eo" "js_truthy (JObj [])"
    by (simp_all add: ex_env_def js_truthy_def)
  have sm: "supported_mode (ModeString ''quick_boost'')"
    and um: "\<not> supported_mode (ModeOther ''ecom_catalog'')"
    by (simp_all add: supported_mode_def)
  have a1: "getJob ex_array_store 0 = Some ex_array_job"
    by code_simp
  have a2: "j_status ex_array_job \<noteq> ''done''" and a3: "j_status ex_array_job \<noteq> ''canceled''"
    and a2': "j_status ex_array_job = ''queued''"
    by (simp_all add: ex_array_job_def)
  have a4: "j_request_json ex_array_job = Some ?a"
    by (simp add: ex_array_job_def)
  have a7: "ModeOther ''ecom_catalog'' = normalizeMode
      (if mode_truthy (b_mode ?a) then b_mode ?a else ModeString (j_mode ex_array_job))"
    by (simp add: normalizeMode_def mode_truthy_def)
  have ms: "mode_string (ModeString ''quick_boost'') = ''quick_boost''"
    by (simp add: mode_string_def)
  note w1 = backend_failure_yields_placeholder [OF h1 h2 h3 h4 h5 h6 h7, of 0 JNull]
  note w2 = backend_failure_yields_placeholder [OF h1 h2 h3 h4 o5 o6 h7, of 0 "JObj []"]
  note w3 = backend_failure_yields_placeholder [OF a1 a2 a3 a4 o5 o6 a7, of 0 JNull]
  from w1 b sm have c1: "result (deliver ?en ex_queued_store 0 0) = Completed 0"
    "called_backend (deliver ?en ex_queued_store 0 0)"
    "\<exists>row err. getJob (after (deliver ?en ex_queued_store 0 0)) 0 = Some row
         \<and> j_status row = ''done'' \<and> j_progress row = 100
         \<and> j_result_json row = Some
              \<lparr>r_ok = True,
               results = [\<lparr>exec = buildDeterministicFallback (ModeString ''quick_boost''),
                           source = ''deterministic'', llm_error = Some err,
                           r_status = ''ready_to_review''\<rparr>]\<rparr>"
    "json_field (buildDeterministicFallback (ModeString ''quick_boost'')) ''mode'' = Some (JStr ''quick_boost'')"
    "\<exists>sc. schema_of_mode (ModeString ''quick_boost'') = Some sc
           \<and> \<not> conforms sc (buildDeterministicFallback (ModeString ''quick_boost''))"
    by (simp_all add: ms)
  from w2 bo sm have c2: "\<exists>row.
         getJob (after (deliver ?eo ex_queued_store 0 0)) 0 = Some row
         \<and> j_status row = ''done'' \<and> j_progress row = 100
         \<and> j_result_json row = Some
              \<lparr>r_ok = True,
               results = [\<lparr>exec = JObj [], source = ''openai'', llm_error = None,
                           r_status = ''ready_to_review''\<rparr>]\<rparr>"
    by simp
  from w3 um have c3: "\<not> called_backend (deliver ?eo ex_array_store 0 0)"
    "\<exists>row err. getJob (after (deliver ?eo ex_array_store 0 0)) 0 = Some row
         \<and> j_status row = ''done'' \<and> j_progress row = 100
         \<and> j_result_json row = Some
              \<lparr>r_ok = True,
               results = [\<lparr>exec = buildDeterministicFallback (ModeString ''quick_boost''),
                           source = ''deterministic'', llm_error = Some err,
                           r_status = ''ready_to_review''\<rparr>]\<rparr>"
    by auto
  from h1 h2' h4 b(1) sm c1 bo(1,3) c2 a1 a2' a4 um c3
  show ?thesis
    by - (intro conjI; assumption)
qed

text \<open>
  Claim C5 as stated fails in three ways. On the run of the example the backend has no API
  key: the job of mode \<^verbatim>\<open>quick_boost\<close> ends \<^verbatim>\<open>done\<close> with the placeholder as its only result
  document, and the placeholder does not conform to \<^verbatim>\<open>QUICK_BOOST_SCHEMA\<close> (it lacks \<^verbatim>\<open>h2\<close>
  and \<^verbatim>\<open>seo\<close>, has the key \<^verbatim>\<open>reassurance\<close>, and its texts are shorter than the minimum
  lengths). When the backend answers the same job with the empty object, which does not
  conform to the schema, the worker stores it as the result, with source \<^verbatim>\<open>openai\<close>. And the
  job admitted with the array \<^verbatim>\<open>["ecom_catalog"]\<close> as its mode, of mode \<^verbatim>\<open>ecom_catalog\<close> in
  its row, ends \<^verbatim>\<open>done\<close> without a call of the backend, with the placeholder of
  \<^verbatim>\<open>quick_boost\<close>.
\<close>

theorem fallback_result_violates_strict_schema:
  "deliver (ex_env False (Inl ''OPENAI_API_KEY_MISSING'')) ex_queued_store 0 0
     = \<lparr>result = Completed 0, called_backend = True, after = ex_done_store\<rparr>
   \<and> map_option j_status (getJob ex_done_store 0) = Some ''done''
   \<and> map_option j_mode (getJob ex_done_store 0) = Some ''quick_boost''
   \<and> result_sources ex_done_store 0 = [''deterministic'']
   \<and> result_execs ex_done_store 0 = [buildDeterministicFallback (ModeString ''quick_boost'')]
   \<and> schema_of_mode (ModeString ''quick_boost'') = Some QUICK_BOOST_SCHEMA
   \<and> \<not> conforms QUICK_BOOST_SCHEMA (buildDeterministicFallback (ModeString ''quick_boost''))
   \<and> deliver (ex_env False (Inr (JObj []))) ex_queued_store 0 0
       = \<lparr>result = Completed 0, called_backend = True, after = ex_openai_store\<rparr>
   \<and> map_option j_status (getJob ex_openai_store 0) = Some ''done''
   \<and> result_sources ex_openai_store 0 = [''openai'']
   \<and> result_execs ex_openai_store 0 = [JObj []]
   \<and> \<not> conforms QUICK_BOOST_SCHEMA (JObj [])
   \<and> jobs_create no_fail (ex_store 20) (ex_headers None) ''t1'' ex_array_request 0
       = (Created 0 ''queued'' 12, ex_array_store)
   \<and> map_option j_mode (getJob ex_array_store 0) = Some ''ecom_catalog''
   \<and> deliver (ex_env False (Inr (JObj []))) ex_array_store 0 0
       = \<lparr>result = Completed 0, called_backend = False, after = ex_array_done_store\<rparr>
   \<and> map_option j_status (getJob ex_array_done_store 0) = Some ''done''
   \<and> result_sources ex_array_done_store 0 = [''deterministic'']
   \<and> result_execs ex_array_done_store 0 = [buildDeterministicFallback (ModeString ''quick_boost'')]
   \<and> schema_of_mode (ModeString ''ecom_catalog'') = Some ECOM_CATALOG_SCHEMA
   \<and> \<not> conforms ECOM_CATALOG_SCHEMA (buildDeterministicFallback (ModeString ''quick_boost''))"
proof -
  have "map_option j_status (getJob ex_done_store 0) = Some ''done''"
    "map_option j_mode (getJob ex_done_store 0) = Some ''quick_boost''"
    "result_sources ex_done_store 0 = [''deterministic'']"
    "result_execs ex_done_store 0 = [buildDeterministicFallback (ModeString ''quick_boost'')]"
    "\<not> conforms QUICK_BOOST_SCHEMA (buildDeterministicFallback (ModeString ''quick_boost''))"
    by code_simp+
  moreover have "schema_of_mode (ModeString ''quick_boost'') = Some QUICK_BOOST_SCHEMA"
    "schema_of_mode (ModeString ''ecom_catalog'') = Some ECOM_CATALOG_SCHEMA"
    by (simp_all add: schema_of_mode_def)
  moreover have "map_option j_status (getJob ex_openai_store 0) = Some ''done''"
    "result_sources ex_openai_store 0 = [''openai'']"
    "result_execs ex_openai_store 0 = [JObj []]"
    "\<not> conforms QUICK_BOOST_SCHEMA (JObj [])"
    by code_simp+
  moreover have "map_option j_mode (getJob ex_array_store 0) = Some ''ecom_catalog''"
    "map_option j_status (getJob ex_array_done_store 0) = Some ''done''"
    "result_sources ex_array_done_store 0 = [''deterministic'']"
    "result_execs ex_array_done_store 0 = [buildDeterministicFallback (ModeString ''quick_boost'')]"
    "\<not> conforms ECOM_CATALOG_SCHEMA (buildDeterministicFallback (ModeString ''quick_boost''))"
    by code_simp+
  ultimately show ?thesis
    using ex_done_store_run ex_openai_store_run ex_array_done_store_run ex_array_store_created
    by simp
qed

lemma run_settle_fails:
  assumes "decision_fails en ''modified'' = Some msg"
  shows "run_settle en dbJob mode now (e, src, err, cb, u) =
     \<lparr>result = Thrown msg, called_backend = cb,
      after =
        logJobEvent (event_fails en) (j_id dbJob) (j_client_id dbJob) ''done'' ''Job finished''
          (setJob (j_id dbJob)
             (\<lambda>j. j\<lparr>j_status := ''done'', j_progress := 100,
                     j_result_json := Some
                       \<lparr>r_ok = True,
                        results = [\<lparr>exec = (case e of Some x \<Rightarrow> x
                                             | None \<Rightarrow> buildDeterministicFallback mode),
                                    source = src, llm_error = err,
                                    r_status = ''ready_to_review''\<rparr>]\<rparr>\<rparr>)
             (case e of
                Some x \<Rightarrow> logAEJ (j_client_id dbJob) (j_id dbJob) ''generation''
                            (if src = ''openai'' then 5 else 1) now u
              | None \<Rightarrow> logJobEvent (event_fails en) (j_id dbJob) (j_client_id dbJob) ''fallback''
                          ''Using deterministic fallback''
                          (logAEJ (j_client_id dbJob) (j_id dbJob) ''generation''
                             (if src = ''openai'' then 5 else 1) now u)))\<rparr>"
  using assms by (cases e) (simp_all add: run_settle_def Let_def logDecision_def)

lemma ev_eq_run_settle:
  assumes "ev_eq u u'" and "decision_fails en = decision_fails en'"
  shows "result (run_settle en dbJob mode now (e, src, err, cb, u))
           = result (run_settle en' dbJob mode now (e, src, err, cb, u'))"
    and "called_backend (run_settle en dbJob mode now (e, src, err, cb, u))
           = called_backend (run_settle en' dbJob mode now (e, src, err, cb, u'))"
    and "ev_eq (after (run_settle en dbJob mode now (e, src, err, cb, u)))
               (after (run_settle en' dbJob mode now (e, src, err, cb, u')))"
proof -
  have "result (run_settle en dbJob mode now (e, src, err, cb, u))
           = result (run_settle en' dbJob mode now (e, src, err, cb, u'))
      \<and> called_backend (run_settle en dbJob mode now (e, src, err, cb, u))
           = called_backend (run_settle en' dbJob mode now (e, src, err, cb, u'))
      \<and> ev_eq (after (run_settle en dbJob mode now (e, src, err, cb, u)))
               (after (run_settle en' dbJob mode now (e, src, err, cb, u')))"
  proof (cases "decision_fails en ''modified''")
    case None
    then have n': "decision_fails en' ''modified'' = None"
      using assms(2) by simp
    show ?thesis
      using assms(1)
      by (cases e)
         (simp_all add: run_settle_unfold [OF None] run_settle_unfold [OF n'] ev_eq_def setJob_def
            computeAEJTotal_def)
  next
    case (Some msg)
    then have s': "decision_fails en' ''modified'' = Some msg"
      using assms(2) by simp
    show ?thesis
      using assms(1)
      by (cases e)
         (simp_all add: run_settle_fails [OF Some] run_settle_fails [OF s'] ev_eq_def setJob_def)
  qed
  then show "result (run_settle en dbJob mode now (e, src, err, cb, u))
           = result (run_settle en' dbJob mode now (e, src, err, cb, u'))"
    and "called_backend (run_settle en dbJob mode now (e, src, err, cb, u))
           = called_backend (run_settle en' dbJob mode now (e, src, err, cb, u'))"
    and "ev_eq (after (run_settle en dbJob mode now (e, src, err, cb, u)))
               (after (run_settle en' dbJob mode now (e, src, err, cb, u')))"
    by simp_all
qed

lemma ev_eq_run_generation:
  assumes "ev_eq s s'" and "forced en = forced en'" and "backend en = backend en'"
  shows "\<exists>e src err cb u u'.
           run_generation en dbJob mode s = (e, src, err, cb, u)
           \<and> run_generation en' dbJob mode s' = (e, src, err, cb, u') \<and> ev_eq u u'"
  using assms by (auto simp: run_generation_def Let_def split: sum.splits)

lemma ev_eq_on_failed:
  assumes "ev_eq s s'"
  shows "ev_eq (on_failed en s jobId msg now) (on_failed en' s' jobId msg now)"
proof (cases "getJob s jobId")
  case None
  with assms show ?thesis
    by (simp add: on_failed_def ev_eq_getJob [OF assms, symmetric])
next
  case (Some dbJob)
  with assms show ?thesis
    by (simp add: on_failed_def ev_eq_getJob [OF assms, symmetric] ev_eq_def setJob_def)
qed

lemma ev_eq_pre_generation:
  assumes "ev_eq s s'"
  shows "ev_eq (setJob jobId (\<lambda>j. j\<lparr>j_progress := 30\<rparr>)
                 (logAEJ c jobId ''decision'' 1 now
                    (insert_decision c jobId ''analysed'' decision_reason_analysed
                       (log_analyse dbJob now (mark_running en dbJob s)))))
               (setJob jobId (\<lambda>j. j\<lparr>j_progress := 30\<rparr>)
                 (logAEJ c jobId ''decision'' 1 now
                    (insert_decision c jobId ''analysed'' decision_reason_analysed
                       (log_analyse dbJob now (mark_running en' dbJob s')))))"
    and "ev_eq (log_analyse dbJob now (mark_running en dbJob s))
               (log_analyse dbJob now (mark_running en' dbJob s'))"
    and "ev_eq (mark_running en dbJob s) (mark_running en' dbJob s')"
  using assms by (simp_all add: ev_eq_def setJob_def log_analyse_def mark_running_def)

lemma ev_eq_processor:
  assumes "ev_eq s s'" and "forced en = forced en'" and "backend en = backend en'"
    and "decision_fails en = decision_fails en'"
  shows "result (processor en s jobId now) = result (processor en' s' jobId now)
       \<and> called_backend (processor en s jobId now) = called_backend (processor en' s' jobId now)
       \<and> ev_eq (after (processor en s jobId now)) (after (processor en' s' jobId now))"
proof (cases "getJob s jobId")
  case None
  then have "getJob s' jobId = None"
    by (simp add: ev_eq_getJob [OF assms(1), symmetric])
  with None assms(1) show ?thesis
    by (simp add: processor_def)
next
  case (Some dbJob)
  then have g': "getJob s' jobId = Some dbJob"
    by (simp add: ev_eq_getJob [OF assms(1), symmetric])
  show ?thesis
  proof (cases "j_status dbJob = ''done'' \<or> j_status dbJob = ''canceled''")
    case True
    with Some g' assms(1) show ?thesis
      by (auto simp: processor_def ev_eq_releaseHold)
  next
    case False
    then have nd: "j_status dbJob \<noteq> ''done''" and nc: "j_status dbJob \<noteq> ''canceled''"
      by simp_all
    show ?thesis
    proof (cases "j_request_json dbJob")
      case None
      with Some g' nd nc ev_eq_pre_generation(3) [OF assms(1)] show ?thesis
        by (simp add: processor_def Let_def)
    next
      case rq: (Some reqJson)
      show ?thesis
      proof (cases "decision_fails en ''analysed''")
        case (Some msg)
        then have f': "decision_fails en' ''analysed'' = Some msg"
          using assms(4) by simp
        show ?thesis
          using ev_eq_pre_generation(2) [OF assms(1)]
          by (simp add: processor_decision_fails [OF \<open>getJob s jobId = Some dbJob\<close> nd nc rq Some]
                processor_decision_fails [OF g' nd nc rq f'])
      next
        case None
        then have n': "decision_fails en' ''analysed'' = None"
          using assms(4) by simp
        let ?mode = "normalizeMode (if mode_truthy (b_mode reqJson) then b_mode reqJson else ModeString (j_mode dbJob))"
        let ?pre = "\<lambda>en s. setJob jobId (\<lambda>j. j\<lparr>j_progress := 30\<rparr>)
                 (logAEJ (j_client_id dbJob) jobId ''decision'' 1 now
                    (insert_decision (j_client_id dbJob) jobId ''analysed'' decision_reason_analysed
                       (log_analyse dbJob now (mark_running en dbJob s))))"
        have p: "processor en s jobId now
                   = run_settle en dbJob ?mode now (run_generation en dbJob ?mode (?pre en s))"
          by (rule processor_runs [OF \<open>getJob s jobId = Some dbJob\<close> nd nc rq None])
        have p': "processor en' s' jobId now
                   = run_settle en' dbJob ?mode now (run_generation en' dbJob ?mode (?pre en' s'))"
          by (rule processor_runs [OF g' nd nc rq n'])
        have e: "ev_eq (?pre en s) (?pre en' s')"
          by (rule ev_eq_pre_generation(1) [OF assms(1)])
        from ev_eq_run_generation [OF e assms(2,3), of dbJob ?mode]
        obtain ex src err cb u u' where
          g: "run_generation en dbJob ?mode (?pre en s) = (ex, src, err, cb, u)"
             "run_generation en' dbJob ?mode (?pre en' s') = (ex, src, err, cb, u')"
             "ev_eq u u'"
          by blast
        from ev_eq_run_settle [OF g(3) assms(4), of dbJob ?mode now ex src err cb]
        show ?thesis
          by (simp add: p p' g(1,2))
      qed
    qed
  qed
qed

lemma ev_eq_deliver:
  assumes "ev_eq s s'" and "forced en = forced en'" and "backend en = backend en'"
    and "decision_fails en = decision_fails en'"
  shows "result (deliver en s jobId now) = result (deliver en' s' jobId now)
       \<and> called_backend (deliver en s jobId now) = called_backend (deliver en' s' jobId now)
       \<and> ev_eq (after (deliver en s jobId now)) (after (deliver en' s' jobId now))"
proof -
  note p = ev_eq_processor [OF assms, of jobId now]
  show ?thesis
  proof (cases "result (processor en s jobId now)")
    case (Thrown msg)
    with p have t': "result (processor en' s' jobId now) = Thrown msg"
      by simp
    from p have "ev_eq (on_failed en (after (processor en s jobId now)) jobId msg now)
                       (on_failed en' (after (processor en' s' jobId now)) jobId msg now)"
      by (intro ev_eq_on_failed) simp
    with Thrown t' p show ?thesis
      by (simp add: deliver_def Let_def)
  next
    case (Skipped c)
    with p have "result (processor en' s' jobId now) = Skipped c"
      by simp
    with Skipped p show ?thesis
      by (simp add: deliver_def Let_def)
  next
    case (Completed j)
    with p have "result (processor en' s' jobId now) = Completed j"
      by simp
    with Completed p show ?thesis
      by (simp add: deliver_def Let_def)
  qed
qed

lemma on_failed_job:
  assumes "getJob s jobId = Some row" and "j_client_id row = c"
  shows "map_option j_status (getJob (on_failed en s jobId msg now) jobId) = Some ''error''"
    and "map_option j_error_text (getJob (on_failed en s jobId msg now) jobId) = Some (Some msg)"
    and "map_option j_result_json (getJob (on_failed en s jobId msg now) jobId) = Some (j_result_json row)"
    and "\<forall>h \<in> set (holds (on_failed en s jobId msg now)).
           h_job_id h = jobId \<and> h_client_id h = c \<longrightarrow> h_status h \<noteq> ''held''"
proof -
  have o: "on_failed en s jobId msg now =
             releaseHold c jobId now
               (logJobEvent (event_fails en) jobId c ''error'' ''Job failed''
                  (setJob jobId
                     (\<lambda>j. j\<lparr>j_status := ''error'', j_progress := 100, j_error_text := Some msg\<rparr>) s))"
    using assms by (simp add: on_failed_def)
  show "map_option j_status (getJob (on_failed en s jobId msg now) jobId) = Some ''error''"
    and "map_option j_error_text (getJob (on_failed en s jobId msg now) jobId) = Some (Some msg)"
    and "map_option j_result_json (getJob (on_failed en s jobId msg now) jobId) = Some (j_result_json row)"
    using assms(1) by (simp_all add: o)
  show "\<forall>h \<in> set (holds (on_failed en s jobId msg now)).
           h_job_id h = jobId \<and> h_client_id h = c \<longrightarrow> h_status h \<noteq> ''held''"
    unfolding o using releaseHold_not_held by blast
qed

section \<open>Failures of the observability writes\<close>

text \<open>
  Claim C6, as the code has it. Which inserts into the event log fail changes nothing but
  the event log: two deliveries that differ only in the failing event types return the
  same result, call the backend or not alike, and leave stores that agree on the jobs
  (status, result, final cost), the holds, the ledger, the decision log and every other
  table. A failing insert into the decision log is not swallowed: \<^verbatim>\<open>logDecision\<close> has no
  \<^verbatim>\<open>try\<close>, so when the insert of the \<^verbatim>\<open>analysed\<close> decision fails, or that of the
  \<^verbatim>\<open>modified\<close> decision, on a job that the worker runs, the processor throws the error of
  the store, and the \<^verbatim>\<open>failed\<close> handler marks the job \<^verbatim>\<open>error\<close> with that message and
  releases its hold.
\<close>

theorem event_failure_swallowed_decision_failure_fatal:
  "result (deliver (en\<lparr>event_fails := ef\<rparr>) s jobId now)
     = result (deliver (en\<lparr>event_fails := ef'\<rparr>) s jobId now)
   \<and> called_backend (deliver (en\<lparr>event_fails := ef\<rparr>) s jobId now)
     = called_backend (deliver (en\<lparr>event_fails := ef'\<rparr>) s jobId now)
   \<and> ev_eq (after (deliver (en\<lparr>event_fails := ef\<rparr>) s jobId now))
            (after (deliver (en\<lparr>event_fails := ef'\<rparr>) s jobId now))
   \<and> (getJob s jobId = Some dbJob \<and> j_status dbJob \<noteq> ''done'' \<and> j_status dbJob \<noteq> ''canceled''
        \<and> j_request_json dbJob = Some reqJson
        \<and> (decision_fails en ''analysed'' = Some msg
            \<or> decision_fails en ''analysed'' = None \<and> decision_fails en ''modified'' = Some msg)
      \<longrightarrow> result (deliver en s jobId now) = Thrown msg
          \<and> map_option j_status (getJob (after (deliver en s jobId now)) jobId) = Some ''error''
          \<and> map_option j_error_text (getJob (after (deliver en s jobId now)) jobId) = Some (Some msg)
          \<and> (\<forall>h \<in> set (holds (after (deliver en s jobId now))).
                h_job_id h = jobId \<and> h_client_id h = j_client_id dbJob \<longrightarrow> h_status h \<noteq> ''held''))"
proof (intro conjI impI)
  have "result (deliver (en\<lparr>event_fails := ef\<rparr>) s jobId now)
     = result (deliver (en\<lparr>event_fails := ef'\<rparr>) s jobId now)
   \<and> called_backend (deliver (en\<lparr>event_fails := ef\<rparr>) s jobId now)
     = called_backend (deliver (en\<lparr>event_fails := ef'\<rparr>) s jobId now)
   \<and> ev_eq (after (deliver (en\<lparr>event_fails := ef\<rparr>) s jobId now))
            (after (deliver (en\<lparr>event_fails := ef'\<rparr>) s jobId now))"
    by (rule ev_eq_deliver) simp_all
  then show "result (deliver (en\<lparr>event_fails := ef\<rparr>) s jobId now)
     = result (deliver (en\<lparr>event_fails := ef'\<rparr>) s jobId now)"
    and "called_backend (deliver (en\<lparr>event_fails := ef\<rparr>) s jobId now)
     = called_backend (deliver (en\<lparr>event_fails := ef'\<rparr>) s jobId now)"
    and "ev_eq (after (deliver (en\<lparr>event_fails := ef\<rparr>) s jobId now))
            (after (deliver (en\<lparr>event_fails := ef'\<rparr>) s jobId now))"
    by simp_all
next
  assume a: "getJob s jobId = Some dbJob \<and> j_status dbJob \<noteq> ''done'' \<and> j_status dbJob \<noteq> ''canceled''
        \<and> j_request_json dbJob = Some reqJson
        \<and> (decision_fails en ''analysed'' = Some msg
            \<or> decision_fails en ''analysed'' = None \<and> decision_fails en ''modified'' = Some msg)"
  then have g: "getJob s jobId = Some dbJob" and nd: "j_status dbJob \<noteq> ''done''"
    and nc: "j_status dbJob \<noteq> ''canceled''" and rq: "j_request_json dbJob = Some reqJson"
    by simp_all
  have id: "j_id dbJob = jobId"
    using g by (rule getJob_id)
  have "\<exists>t row. processor en s jobId now = \<lparr>result = Thrown msg, called_backend = called_backend (processor en s jobId now), after = t\<rparr>
          \<and> getJob t jobId = Some row \<and> j_client_id row = j_client_id dbJob"
  proof (cases "decision_fails en ''analysed''")
    case (Some m)
    with a have m: "decision_fails en ''analysed'' = Some msg"
      by auto
    have "getJob (log_analyse dbJob now (mark_running en dbJob s)) jobId
            = Some (dbJob\<lparr>j_status := ''running'', j_progress := 10\<rparr>)"
      using g by (simp add: log_analyse_def mark_running_def id)
    then show ?thesis
      by (simp add: processor_decision_fails [OF g nd nc rq m])
  next
    case None
    with a have m: "decision_fails en ''modified'' = Some msg"
      by auto
    let ?mode = "normalizeMode (if mode_truthy (b_mode reqJson) then b_mode reqJson else ModeString (j_mode dbJob))"
    let ?pre = "setJob jobId (\<lambda>j. j\<lparr>j_progress := 30\<rparr>)
                 (logAEJ (j_client_id dbJob) jobId ''decision'' 1 now
                    (insert_decision (j_client_id dbJob) jobId ''analysed'' decision_reason_analysed
                       (log_analyse dbJob now (mark_running en dbJob s))))"
    have p: "processor en s jobId now = run_settle en dbJob ?mode now (run_generation en dbJob ?mode ?pre)"
      by (rule processor_runs [OF g nd nc rq None])
    have gp: "getJob ?pre jobId = Some (dbJob\<lparr>j_status := ''running'', j_progress := 30\<rparr>)"
      by (rule getJob_pre_generation [OF g])
    obtain ex src err cb u where
      r: "run_generation en dbJob ?mode ?pre = (ex, src, err, cb, u)" and e: "ev_eq ?pre u"
      by (cases rule: run_generation_cases [of en dbJob ?mode ?pre]) auto
    from gp have gu: "getJob u jobId = Some (dbJob\<lparr>j_status := ''running'', j_progress := 30\<rparr>)"
      by (simp add: ev_eq_getJob [OF e, symmetric])
    show ?thesis
      using gu by (cases ex) (simp_all add: p r run_settle_fails [OF m] id)
  qed
  then obtain t row where
    p: "processor en s jobId now = \<lparr>result = Thrown msg, called_backend = called_backend (processor en s jobId now), after = t\<rparr>"
    and t: "getJob t jobId = Some row" "j_client_id row = j_client_id dbJob"
    by blast
  have r: "result (processor en s jobId now) = Thrown msg" and af: "after (processor en s jobId now) = t"
    by (subst p, simp)+
  have d: "after (deliver en s jobId now) = on_failed en t jobId msg now"
    and dr: "result (deliver en s jobId now) = Thrown msg"
    by (simp_all add: deliver_def Let_def r af)
  show "result (deliver en s jobId now) = Thrown msg"
    by (rule dr)
  show "map_option j_status (getJob (after (deliver en s jobId now)) jobId) = Some ''error''"
    unfolding d by (rule on_failed_job(1) [OF t])
  show "map_option j_error_text (getJob (after (deliver en s jobId now)) jobId) = Some (Some msg)"
    unfolding d by (rule on_failed_job(2) [OF t])
  show "\<forall>h \<in> set (holds (after (deliver en s jobId now))).
                h_job_id h = jobId \<and> h_client_id h = j_client_id dbJob \<longrightarrow> h_status h \<noteq> ''held''"
    unfolding d by (rule on_failed_job(4) [OF t])
qed

theorem event_failure_swallowed_decision_failure_fatal_witness:
  "getJob ex_queued_store 0 = Some ex_job
   \<and> j_status ex_job = ''queued''
   \<and> decision_fails ex_env_decision_down ''analysed'' = Some ''connection terminated''
   \<and> result (deliver ex_env_decision_down ex_queued_store 0 0) = Thrown ''connection terminated''
   \<and> map_option j_status (getJob (after (deliver ex_env_decision_down ex_queued_store 0 0)) 0)
        = Some ''error''
   \<and> map_option j_error_text (getJob (after (deliver ex_env_decision_down ex_queued_store 0 0)) 0)
        = Some (Some ''connection terminated'')
   \<and> result (deliver (ex_env_decision_down\<lparr>event_fails := no_fail\<rparr>) ex_queued_store 0 0)
        = result (deliver (ex_env_decision_down\<lparr>event_fails := all_fail\<rparr>) ex_queued_store 0 0)
   \<and> ev_eq (after (deliver (ex_env_decision_down\<lparr>event_fails := no_fail\<rparr>) ex_queued_store 0 0))
            (after (deliver (ex_env_decision_down\<lparr>event_fails := all_fail\<rparr>) ex_queued_store 0 0))"
proof -
  have h1: "getJob ex_queued_store 0 = Some ex_job"
    by code_simp
  have h2: "j_status ex_job \<noteq> ''done''" "j_status ex_job \<noteq> ''canceled''" "j_status ex_job = ''queued''"
    "j_request_json ex_job = Some \<lparr>b_mode = ModeString ''quick_boost'', b_items = Some [ex_item], b_extra = []\<rparr>"
    by (simp_all add: ex_job_def)
  have h3: "decision_fails ex_env_decision_down ''analysed'' = Some ''connection terminated''"
    by (simp add: ex_env_decision_down_def ex_decision_down_def)
  from event_failure_swallowed_decision_failure_fatal
         [where en = ex_env_decision_down and ef = no_fail and s = ex_queued_store and jobId = 0
            and now = 0 and ef' = all_fail and dbJob = ex_job
            and reqJson = "\<lparr>b_mode = ModeString ''quick_boost'', b_items = Some [ex_item], b_extra = []\<rparr>"
            and msg = "''connection terminated''"]
       h1 h2 h3
  show ?thesis by simp
qed

text \<open>
  Claim C6 as stated fails on the decision log: the same job, store and backend output,
  once with every insert succeeding and once with the insert of the \<^verbatim>\<open>analysed\<close> decision
  failing, end \<^verbatim>\<open>done\<close> in the first run and \<^verbatim>\<open>error\<close> in the second.
\<close>

theorem decision_log_failure_changes_outcome:
  "ex_env_decision_down = (ex_env False (Inr (JObj [])))\<lparr>decision_fails := ex_decision_down\<rparr>
   \<and> map_option j_status (getJob (after (deliver (ex_env False (Inr (JObj []))) ex_queued_store 0 0)) 0)
        = Some ''done''
   \<and> map_option j_status (getJob (after (deliver ex_env_decision_down ex_queued_store 0 0)) 0)
        = Some ''error''"
proof -
  have "ex_env_decision_down = (ex_env False (Inr (JObj [])))\<lparr>decision_fails := ex_decision_down\<rparr>"
    by (simp add: ex_env_decision_down_def ex_env_def)
  moreover have
    "map_option j_status (getJob (after (deliver (ex_env False (Inr (JObj []))) ex_queued_store 0 0)) 0)
        = Some ''done''"
    "map_option j_status (getJob (after (deliver ex_env_decision_down ex_queued_store 0 0)) 0)
        = Some ''error''"
    by code_simp+
  ultimately show ?thesis
    by simp
qed

section \<open>The quota bound\<close>

lemma month_total_append [simp]:
  "month_total c m (xs @ ys) = month_total c m xs + month_total c m ys"
  by (simp add: month_total_def)

lemma month_total_ledger_insert_le:
  assumes "0 \<le> k"
  shows "month_total c m (ledger_insert c' j st k now logs) \<le> month_total c m logs + k"
  using assms by (simp add: ledger_insert_def month_total_def)

lemma month_total_ledger_insert_other:
  assumes "c \<noteq> c'"
  shows "month_total c m (ledger_insert c' j st k now logs) = month_total c m logs"
  using assms by (simp add: ledger_insert_def month_total_def)

lemma ledger_insert_rows:
  assumes "l \<in> set (ledger_insert c j st k now logs)"
  shows "l \<in> set logs \<or> (l_created_at l = now \<and> l_aej_used l = k)"
  using assms by (auto simp: ledger_insert_def split: if_splits)

lemma month_total_nonneg:
  assumes "\<forall>l \<in> set logs. 0 \<le> l_aej_used l"
  shows "0 \<le> month_total c m logs"
  using assms by (induction logs) (simp_all add: month_total_def)

lemma month_total_future:
  assumes "\<forall>l \<in> set logs. l_created_at l < m"
  shows "month_total c m logs = 0"
  using assms by (induction logs) (simp_all add: month_total_def)

lemma release_Nil [simp]: "release c j now [] = []"
  by (simp add: release_def)

lemma release_Cons:
  "release c j now (h # hs) =
     (if h_job_id h = j \<and> h_client_id h = c \<and> h_status h = ''held''
      then h\<lparr>h_status := ''released'', h_released_at := Some now\<rparr> else h) # release c j now hs"
  by (simp add: release_def)

lemma held_total_Nil [simp]: "held_total c [] = 0"
  by (simp add: held_total_def)

lemma held_total_Cons:
  "held_total c (h # hs) =
     (if h_client_id h = c \<and> h_status h = ''held'' then h_aej_estimated h else 0) + held_total c hs"
  by (simp add: held_total_def)

lemma held_total_append [simp]:
  "held_total c (xs @ ys) = held_total c xs + held_total c ys"
  by (simp add: held_total_def)

lemma held_total_release_other:
  assumes "c \<noteq> c'"
  shows "held_total c (release c' j now hs) = held_total c hs"
proof (induction hs)
  case Nil
  show ?case by simp
next
  case (Cons h hs)
  show ?case
  proof (cases "h_job_id h = j \<and> h_client_id h = c' \<and> h_status h = ''held''")
    case True
    with assms Cons show ?thesis
      by (auto simp: release_Cons held_total_Cons)
  next
    case False
    with Cons show ?thesis
      by (auto simp: release_Cons held_total_Cons)
  qed
qed

lemma held_total_release_le:
  assumes "\<forall>h \<in> set hs. 0 \<le> h_aej_estimated h"
  shows "held_total c (release c' j now hs) \<le> held_total c hs"
  using assms
proof (induction hs)
  case Nil
  show ?case by simp
next
  case (Cons h hs)
  then have ih: "held_total c (release c' j now hs) \<le> held_total c hs" and p: "0 \<le> h_aej_estimated h"
    by simp_all
  show ?case
  proof (cases "h_job_id h = j \<and> h_client_id h = c' \<and> h_status h = ''held''")
    case True
    with ih p show ?thesis
      using held_neq_released by (auto simp: release_Cons held_total_Cons)
  next
    case False
    with ih show ?thesis
      by (auto simp: release_Cons held_total_Cons)
  qed
qed

lemma held_total_release_held:
  assumes "\<forall>h \<in> set hs. 0 \<le> h_aej_estimated h"
    and "h \<in> set hs" and "h_job_id h = j" and "h_client_id h = c" and "h_status h = ''held''"
  shows "held_total c (release c j now hs) \<le> held_total c hs - h_aej_estimated h"
  using assms(1,2)
proof (induction hs)
  case Nil
  then show ?case by simp
next
  case (Cons x xs)
  then have nn: "\<forall>h \<in> set xs. 0 \<le> h_aej_estimated h"
    by simp
  show ?case
  proof (cases "x = h")
    case True
    have "held_total c (release c j now xs) \<le> held_total c xs"
      by (rule held_total_release_le [OF nn])
    with True assms(3-5) show ?thesis
      using held_neq_released by (auto simp: release_Cons held_total_Cons)
  next
    case False
    with Cons have ih: "held_total c (release c j now xs) \<le> held_total c xs - h_aej_estimated h"
      by simp
    from Cons.prems have p: "0 \<le> h_aej_estimated x"
      by simp
    show ?thesis
    proof (cases "h_job_id x = j \<and> h_client_id x = c \<and> h_status x = ''held''")
      case True
      with ih p show ?thesis
        using held_neq_released by (auto simp: release_Cons held_total_Cons)
    next
      case False
      with ih show ?thesis
        by (auto simp: release_Cons held_total_Cons)
    qed
  qed
qed

lemma release_rows:
  assumes "h' \<in> set (release c j now hs)"
  shows "\<exists>h \<in> set hs. h_aej_estimated h' = h_aej_estimated h \<and> h_job_id h' = h_job_id h
           \<and> h_client_id h' = h_client_id h"
proof -
  from assms obtain h where "h \<in> set hs"
    and "h' = (if h_job_id h = j \<and> h_client_id h = c \<and> h_status h = ''held''
               then h\<lparr>h_status := ''released'', h_released_at := Some now\<rparr> else h)"
    unfolding release_def by auto
  then show ?thesis
    by (cases "h_job_id h = j \<and> h_client_id h = c \<and> h_status h = ''held''") auto
qed

lemma release_keeps_other_jobs:
  assumes "h \<in> set hs" and "h_job_id h \<noteq> j"
  shows "h \<in> set (release c j now hs)"
proof -
  have "(if h_job_id h = j \<and> h_client_id h = c \<and> h_status h = ''held''
         then h\<lparr>h_status := ''released'', h_released_at := Some now\<rparr> else h) \<in> set (release c j now hs)"
    unfolding release_def using assms(1) by (intro imageI [THEN subst [OF set_map [symmetric], where P = "\<lambda>S. _ \<in> S"]])
  with assms(2) show ?thesis by simp
qed

lemma quota_of_cong: "site_settings s = site_settings s' \<Longrightarrow> quota_of s c = quota_of s' c"
  by (simp add: quota_of_def settings_of_def)

lemma quota_inv_cong:
  assumes "jobs s = jobs s'" and "holds s = holds s'" and "aej_logs s = aej_logs s'"
    and "site_settings s = site_settings s'"
  shows "quota_inv s m = quota_inv s' m"
  using assms by (simp add: quota_inv_def consumed_of_def held_of_def quota_of_cong [OF assms(4)])

lemma quota_inv_later:
  assumes "quota_inv s m" and "m \<le> m'"
  shows "quota_inv s m'"
proof (cases "m = m'")
  case True
  with assms show ?thesis by simp
next
  case False
  with assms(2) have lt: "m < m'" by simp
  from assms(1) have l: "\<forall>l \<in> set (aej_logs s). l_created_at l \<le> m \<and> 0 \<le> l_aej_used l"
    and h: "\<forall>h \<in> set (holds s). 0 \<le> h_aej_estimated h"
    and j: "\<forall>row \<in> set (jobs s). job_covered (holds s) row"
    and q: "\<forall>c. 0 \<le> quota_of s c \<longrightarrow> consumed_of s c m + held_of s c \<le> quota_of s c"
    by (simp_all add: quota_inv_def)
  have z: "month_total c m' (aej_logs s) = 0" for c
    by (rule month_total_future) (use l lt in force)
  have nn: "0 \<le> month_total c m (aej_logs s)" for c
    by (rule month_total_nonneg) (use l in simp)
  have 4: "consumed_of s c m' + held_of s c \<le> quota_of s c" if "0 \<le> quota_of s c" for c
  proof -
    from q that have "consumed_of s c m + held_of s c \<le> quota_of s c"
      by simp
    with nn [of c] have "held_of s c \<le> quota_of s c"
      by (simp add: consumed_of_def)
    then show ?thesis
      by (simp add: consumed_of_def z)
  qed
  have 1: "l_created_at x \<le> m' \<and> 0 \<le> l_aej_used x" if "x \<in> set (aej_logs s)" for x
    using l that lt by force
  from 1 h j 4 show ?thesis
    by (simp add: quota_inv_def)
qed

lemma job_covered_append:
  "job_covered hs row \<Longrightarrow> job_covered (hs @ hs') row"
  by (auto simp: job_covered_def)

text \<open>Admission commits only what fits, whatever the store.\<close>

lemma admission_fits:
  assumes "jobs_create ef s hdrs c req now = (Created jid st est, s')"
  shows "consumed_of s' c now + held_of s' c \<le> quota_of s' c"
proof -
  from jobs_create_Created [OF assms] have f: "consumed_of s c now + held_of s c + est \<le> quota_of s c"
    by blast
  note cs = jobs_create_Created_store [OF assms]
  from cs have h: "holds s' = holds s @ [\<lparr>h_job_id = jid, h_client_id = c, h_aej_estimated = est,
                                    h_status = ''held'', h_released_at = None\<rparr>]"
    by (elim conjE)
  from cs have l: "aej_logs s' = aej_logs s"
    by (elim conjE)
  from cs have q: "site_settings s' = site_settings s"
    by (elim conjE)
  have "held_of s' c = held_of s c + est"
    by (simp add: held_of_def h held_total_Cons)
  moreover have "consumed_of s' c now = consumed_of s c now"
    by (simp add: consumed_of_def l)
  moreover have "quota_of s' c = quota_of s c"
    by (rule quota_of_cong [OF q])
  ultimately show ?thesis
    using f by simp
qed

lemma quota_inv_jobs_create:
  assumes "quota_inv s m"
  shows "quota_inv (snd (jobs_create ef s hdrs c req m)) m"
proof (cases "\<exists>jid st est. fst (jobs_create ef s hdrs c req m) = Created jid st est")
  case False
  then have "\<forall>jid st est. fst (jobs_create ef s hdrs c req m) \<noteq> Created jid st est"
    by simp
  from jobs_create_other_store [OF prod.collapse [symmetric] this]
  have "quota_inv (snd (jobs_create ef s hdrs c req m)) m = quota_inv s m"
    by (intro quota_inv_cong) simp_all
  with assms show ?thesis by simp
next
  case True
  then obtain jid st est where "fst (jobs_create ef s hdrs c req m) = Created jid st est"
    by blast
  then have cr: "jobs_create ef s hdrs c req m = (Created jid st est, snd (jobs_create ef s hdrs c req m))"
    by (simp add: prod_eq_iff)
  let ?s' = "snd (jobs_create ef s hdrs c req m)"
  let ?h = "\<lparr>h_job_id = jid, h_client_id = c, h_aej_estimated = est,
             h_status = ''held'', h_released_at = None\<rparr>"
  note cs = jobs_create_Created_store [OF cr]
  from cs have h: "holds ?s' = holds s @ [?h]"
    by (elim conjE)
  from cs have l: "aej_logs ?s' = aej_logs s"
    by (elim conjE)
  from cs have q: "site_settings ?s' = site_settings s"
    by (elim conjE)
  from cs have j: "\<exists>j. jobs ?s' = jobs s @ [j] \<and> j_id j = jid \<and> j_status j = ''queued''
                 \<and> j_client_id j = c \<and> j_request_json j \<noteq> None \<and> j_aej_estimated j = est"
    by (elim conjE)
  from jobs_create_Created [OF cr] obtain mode items where
    v: "validateCreatePayload req = Valid mode items" and e: "est = aejEstimated mode (length items)"
    by blast
  from valid_shape [OF v] have am: "mode \<in> set ALLOWED_MODES" and n1: "1 \<le> length items"
    by auto
  from aejEstimated_allowed [OF am n1] obtain u where
    u: "aejEstimated mode (length items) = u * int (length items)" "8 \<le> u"
    by blast
  have "u * 1 \<le> u * int (length items)"
    by (rule mult_left_mono) (use n1 u(2) in simp_all)
  then have "u \<le> aejEstimated mode (length items)"
    by (simp only: u(1) mult_1_right)
  with u(2) e have est8: "8 \<le> est"
    by linarith
  from assms have il: "\<forall>l \<in> set (aej_logs s). l_created_at l \<le> m \<and> 0 \<le> l_aej_used l"
    and ih: "\<forall>h \<in> set (holds s). 0 \<le> h_aej_estimated h"
    and ij: "\<forall>row \<in> set (jobs s). job_covered (holds s) row"
    and iq: "\<forall>c. 0 \<le> quota_of s c \<longrightarrow> consumed_of s c m + held_of s c \<le> quota_of s c"
    by (simp_all add: quota_inv_def)
  have 1: "\<forall>l \<in> set (aej_logs ?s'). l_created_at l \<le> m \<and> 0 \<le> l_aej_used l"
    using il by (simp add: l)
  have 2: "\<forall>h \<in> set (holds ?s'). 0 \<le> h_aej_estimated h"
    using ih est8 by (simp add: h)
  have 3: "\<forall>row \<in> set (jobs ?s'). job_covered (holds ?s') row"
  proof
    fix row assume r: "row \<in> set (jobs ?s')"
    from j obtain nj where nj: "jobs ?s' = jobs s @ [nj]" "j_id nj = jid" "j_status nj = ''queued''"
      "j_client_id nj = c" "j_request_json nj \<noteq> None"
      by blast
    show "job_covered (holds ?s') row"
    proof (cases "row \<in> set (jobs s)")
      case True
      with ij show ?thesis
        unfolding h by (intro job_covered_append) simp
    next
      case False
      with r nj have "row = nj" by simp
      with nj est8 show ?thesis
        by (simp add: job_covered_def h)
    qed
  qed
  have 4: "\<forall>c'. 0 \<le> quota_of ?s' c' \<longrightarrow> consumed_of ?s' c' m + held_of ?s' c' \<le> quota_of ?s' c'"
  proof (intro allI impI)
    fix c' assume "0 \<le> quota_of ?s' c'"
    then have q0: "0 \<le> quota_of s c'"
      by (simp add: quota_of_cong [OF q])
    show "consumed_of ?s' c' m + held_of ?s' c' \<le> quota_of ?s' c'"
    proof (cases "c' = c")
      case True
      then show ?thesis
        using admission_fits [OF cr] by simp
    next
      case False
      then have "held_of ?s' c' = held_of s c'"
        by (simp add: held_of_def h held_total_Cons)
      moreover have "consumed_of ?s' c' m = consumed_of s c' m"
        by (simp add: consumed_of_def l)
      ultimately show ?thesis
        using iq q0 by (simp add: quota_of_cong [OF q])
    qed
  qed
  from 1 2 3 4 show ?thesis
    by (simp add: quota_inv_def)
qed

lemma setJob_rows:
  assumes "row' \<in> set (jobs (setJob j f s))"
  shows "(row' \<in> set (jobs s) \<and> j_id row' \<noteq> j) \<or> (\<exists>row \<in> set (jobs s). j_id row = j \<and> row' = f row)"
  using assms by (auto simp: setJob_def)

lemma run_settle_rows:
  assumes "decision_fails en ''modified'' = None"
    and "row' \<in> set (jobs (after (run_settle en dbJob mode now (ex, src, err, cb, u))))"
  shows "(row' \<in> set (jobs u) \<and> j_id row' \<noteq> j_id dbJob) \<or> j_status row' = ''done''"
proof -
  let ?c = "j_client_id dbJob" and ?j = "j_id dbJob"
  define Y where "Y = (case ex of
                    Some x \<Rightarrow> logAEJ ?c ?j ''generation'' (if src = ''openai'' then 5 else 1) now u
                  | None \<Rightarrow> logJobEvent (event_fails en) ?j ?c ''fallback''
                              ''Using deterministic fallback''
                              (logAEJ ?c ?j ''generation'' (if src = ''openai'' then 5 else 1) now u))"
  define f1 where "f1 = (\<lambda>j::job_row. j\<lparr>j_status := ''done'', j_progress := 100,
                            j_result_json := Some
                              \<lparr>r_ok = True,
                               results = [\<lparr>exec = (case ex of Some x \<Rightarrow> x
                                                    | None \<Rightarrow> buildDeterministicFallback mode),
                                           source = src, llm_error = err,
                                           r_status = ''ready_to_review''\<rparr>]\<rparr>\<rparr>)"
  define X where "X = logAEJ ?c ?j ''application'' 1 now
                 (insert_decision ?c ?j ''modified'' (decision_reason_modified src)
                 (logJobEvent (event_fails en) ?j ?c ''done'' ''Job finished''
                 (setJob ?j f1 Y)))"
  define f2 where "f2 = (\<lambda>j::job_row. j\<lparr>j_aej_final := Some (computeAEJTotal ?c ?j X)\<rparr>)"
  have af: "after (run_settle en dbJob mode now (ex, src, err, cb, u))
              = releaseHold ?c ?j now (setJob ?j f2 X)"
    unfolding X_def f2_def f1_def Y_def by (simp add: run_settle_unfold [OF assms(1)])
  have jY: "jobs Y = jobs u"
    by (cases ex) (simp_all add: Y_def)
  have jX: "jobs X = jobs (setJob ?j f1 Y)"
    by (simp add: X_def)
  have rX: "(x \<in> set (jobs u) \<and> j_id x \<noteq> ?j) \<or> (j_id x = ?j \<and> j_status x = ''done'')"
    if "x \<in> set (jobs X)" for x
  proof -
    from that have "x \<in> set (jobs (setJob ?j f1 Y))"
      by (simp only: jX)
    from setJob_rows [OF this] show ?thesis
      by (auto simp: jY f1_def)
  qed
  from assms(2) have "row' \<in> set (jobs (setJob ?j f2 X))"
    by (simp add: af)
  from setJob_rows [OF this] show ?thesis
  proof
    assume "row' \<in> set (jobs X) \<and> j_id row' \<noteq> ?j"
    with rX [of row'] show ?thesis by blast
  next
    assume "\<exists>row \<in> set (jobs X). j_id row = ?j \<and> row' = f2 row"
    then obtain row where "row \<in> set (jobs X)" "j_id row = ?j" "row' = f2 row"
      by blast
    with rX [of row] have "j_status row' = ''done''"
      by (simp add: f2_def)
    then show ?thesis by simp
  qed
qed

text \<open>
  A delivery of a job that the worker runs, with the decision log up: what it leaves in
  the holds, the ledger, the settings and the jobs.
\<close>

lemma deliver_completes:
  assumes "getJob s jobId = Some dbJob" and "j_status dbJob \<noteq> ''done''"
    and "j_status dbJob \<noteq> ''canceled''" and "j_request_json dbJob = Some reqJson"
    and "decision_fails en ''analysed'' = None" and "decision_fails en ''modified'' = None"
  shows "result (deliver en s jobId now) = Completed jobId"
    and "holds (after (deliver en s jobId now)) = release (j_client_id dbJob) jobId now (holds s)"
    and "\<exists>g. (g = 1 \<or> g = 5) \<and> aej_logs (after (deliver en s jobId now))
           = ledger_insert (j_client_id dbJob) jobId ''application'' 1 now
               (ledger_insert (j_client_id dbJob) jobId ''generation'' g now
                  (ledger_insert (j_client_id dbJob) jobId ''decision'' 1 now
                     (ledger_insert (j_client_id dbJob) jobId ''analyse'' 1 now (aej_logs s))))"
    and "site_settings (after (deliver en s jobId now)) = site_settings s"
    and "\<forall>row' \<in> set (jobs (after (deliver en s jobId now))).
           (row' \<in> set (jobs s) \<and> j_id row' \<noteq> jobId) \<or> j_status row' = ''done''"
proof -
  let ?mode = "normalizeMode (if mode_truthy (b_mode reqJson) then b_mode reqJson else ModeString (j_mode dbJob))"
  let ?c = "j_client_id dbJob"
  let ?pre = "setJob jobId (\<lambda>j. j\<lparr>j_progress := 30\<rparr>)
                 (logAEJ ?c jobId ''decision'' 1 now
                    (insert_decision ?c jobId ''analysed'' decision_reason_analysed
                       (log_analyse dbJob now (mark_running en dbJob s))))"
  have id: "j_id dbJob = jobId"
    using assms(1) by (rule getJob_id)
  have p: "processor en s jobId now = run_settle en dbJob ?mode now (run_generation en dbJob ?mode ?pre)"
    by (rule processor_runs [OF assms(1-5)])
  have gp: "getJob ?pre jobId = Some (dbJob\<lparr>j_status := ''running'', j_progress := 30\<rparr>)"
    by (rule getJob_pre_generation [OF assms(1)])
  obtain ex src err cb u where
    r: "run_generation en dbJob ?mode ?pre = (ex, src, err, cb, u)" and e: "ev_eq ?pre u"
    and sr: "src = ''deterministic'' \<or> src = ''openai''"
    by (cases rule: run_generation_cases [of en dbJob ?mode ?pre]) auto
  from gp have gu: "getJob u (j_id dbJob) = Some (dbJob\<lparr>j_status := ''running'', j_progress := 30\<rparr>)"
    by (simp add: ev_eq_getJob [OF e, symmetric] id)
  note ok = run_settle_ok [OF assms(6) gu, of ?mode now ex src err cb]
  have res: "result (processor en s jobId now) = Completed jobId"
    using ok(1) by (simp add: p r id)
  then have d: "deliver en s jobId now = processor en s jobId now"
    by (simp add: deliver_def Let_def)
  have a: "after (deliver en s jobId now) = after (run_settle en dbJob ?mode now (ex, src, err, cb, u))"
    by (simp only: d p r)
  have lp: "aej_logs ?pre = ledger_insert ?c jobId ''decision'' 1 now
                     (ledger_insert ?c jobId ''analyse'' 1 now (aej_logs s))"
    and hp: "holds ?pre = holds s" and sp: "site_settings ?pre = site_settings s"
    by (simp_all add: log_analyse_def mark_running_def id)
  from e have hu: "holds u = holds s" and lu: "aej_logs u = aej_logs ?pre"
    and su: "site_settings u = site_settings s" and ju: "jobs u = jobs ?pre"
    by (simp_all only: ev_eq_def hp sp)
  show "result (deliver en s jobId now) = Completed jobId"
    by (simp add: d res)
  show "holds (after (deliver en s jobId now)) = release ?c jobId now (holds s)"
    by (simp only: a ok(4) id hu)
  have "aej_logs (after (deliver en s jobId now))
           = ledger_insert ?c jobId ''application'' 1 now
               (ledger_insert ?c jobId ''generation'' (if src = ''openai'' then 5 else 1) now
                  (ledger_insert ?c jobId ''decision'' 1 now
                     (ledger_insert ?c jobId ''analyse'' 1 now (aej_logs s))))"
    by (simp only: a ok(5) id lu lp)
  then show "\<exists>g. (g = 1 \<or> g = 5) \<and> aej_logs (after (deliver en s jobId now))
           = ledger_insert ?c jobId ''application'' 1 now
               (ledger_insert ?c jobId ''generation'' g now
                  (ledger_insert ?c jobId ''decision'' 1 now
                     (ledger_insert ?c jobId ''analyse'' 1 now (aej_logs s))))"
    by (cases "src = ''openai''") auto
  show "site_settings (after (deliver en s jobId now)) = site_settings s"
    by (simp only: a ok(6) su)
  show "\<forall>row' \<in> set (jobs (after (deliver en s jobId now))).
           (row' \<in> set (jobs s) \<and> j_id row' \<noteq> jobId) \<or> j_status row' = ''done''"
  proof
    fix row' assume "row' \<in> set (jobs (after (deliver en s jobId now)))"
    then have "row' \<in> set (jobs (after (run_settle en dbJob ?mode now (ex, src, err, cb, u))))"
      by (simp only: a)
    then have "(row' \<in> set (jobs u) \<and> j_id row' \<noteq> jobId) \<or> j_status row' = ''done''"
      using run_settle_rows [OF assms(6), of row' dbJob ?mode now ex src err cb u] by (simp only: id)
    moreover have "x \<in> set (jobs s)" if "x \<in> set (jobs u)" "j_id x \<noteq> jobId" for x
      using that by (auto simp: ju setJob_def log_analyse_def mark_running_def id)
    ultimately show "(row' \<in> set (jobs s) \<and> j_id row' \<noteq> jobId) \<or> j_status row' = ''done''"
      by blast
  qed
qed

lemma getJob_in_jobs: "getJob s j = Some row \<Longrightarrow> row \<in> set (jobs s)"
  by (auto simp: getJob_def find_Some_iff)

lemma deliver_not_found:
  assumes "getJob s jobId = None"
  shows "after (deliver en s jobId now) = s"
  using assms by (simp add: deliver_def processor_def on_failed_def Let_def)

lemma deliver_done:
  assumes "getJob s jobId = Some row" and "j_status row = ''done''"
  shows "after (deliver en s jobId now) = s"
  using assms by (simp add: deliver_def processor_done Let_def)

lemma month_total_after_run:
  assumes "g = 1 \<or> g = 5"
  shows "month_total c m
           (ledger_insert c' j ''application'' 1 now
              (ledger_insert c' j ''generation'' g now
                 (ledger_insert c' j ''decision'' 1 now
                    (ledger_insert c' j ''analyse'' 1 now logs))))
         \<le> month_total c m logs + 8"
proof -
  have g: "0 \<le> g" "g \<le> 5"
    using assms by auto
  have "month_total c m (ledger_insert c' j ''analyse'' 1 now logs) \<le> month_total c m logs + 1"
    by (rule month_total_ledger_insert_le) simp
  moreover have "month_total c m (ledger_insert c' j ''decision'' 1 now
                    (ledger_insert c' j ''analyse'' 1 now logs))
                 \<le> month_total c m (ledger_insert c' j ''analyse'' 1 now logs) + 1"
    by (rule month_total_ledger_insert_le) simp
  moreover have "month_total c m (ledger_insert c' j ''generation'' g now
                 (ledger_insert c' j ''decision'' 1 now
                    (ledger_insert c' j ''analyse'' 1 now logs)))
                 \<le> month_total c m (ledger_insert c' j ''decision'' 1 now
                    (ledger_insert c' j ''analyse'' 1 now logs)) + g"
    by (rule month_total_ledger_insert_le) (rule g(1))
  moreover have "month_total c m
           (ledger_insert c' j ''application'' 1 now
              (ledger_insert c' j ''generation'' g now
                 (ledger_insert c' j ''decision'' 1 now
                    (ledger_insert c' j ''analyse'' 1 now logs))))
         \<le> month_total c m (ledger_insert c' j ''generation'' g now
                 (ledger_insert c' j ''decision'' 1 now
                    (ledger_insert c' j ''analyse'' 1 now logs))) + 1"
    by (rule month_total_ledger_insert_le) simp
  ultimately show ?thesis
    using g(2) by linarith
qed

lemma month_total_after_run_other:
  assumes "c \<noteq> c'"
  shows "month_total c m
           (ledger_insert c' j ''application'' 1 now
              (ledger_insert c' j ''generation'' g now
                 (ledger_insert c' j ''decision'' 1 now
                    (ledger_insert c' j ''analyse'' 1 now logs))))
         = month_total c m logs"
  by (simp add: month_total_ledger_insert_other [OF assms])

lemma rows_after_run:
  assumes "g = 1 \<or> g = 5"
    and "l \<in> set (ledger_insert c' j ''application'' 1 now
              (ledger_insert c' j ''generation'' g now
                 (ledger_insert c' j ''decision'' 1 now
                    (ledger_insert c' j ''analyse'' 1 now logs))))"
  shows "l \<in> set logs \<or> (l_created_at l = now \<and> 0 \<le> l_aej_used l)"
proof -
  have g: "0 \<le> g"
    using assms(1) by auto
  from ledger_insert_rows [OF assms(2)] show ?thesis
  proof
    assume "l \<in> set (ledger_insert c' j ''generation'' g now
                 (ledger_insert c' j ''decision'' 1 now
                    (ledger_insert c' j ''analyse'' 1 now logs)))"
    from ledger_insert_rows [OF this] show ?thesis
    proof
      assume "l \<in> set (ledger_insert c' j ''decision'' 1 now
                    (ledger_insert c' j ''analyse'' 1 now logs))"
      from ledger_insert_rows [OF this] show ?thesis
      proof
        assume "l \<in> set (ledger_insert c' j ''analyse'' 1 now logs)"
        from ledger_insert_rows [OF this] show ?thesis
          by auto
      qed simp
    qed (use g in simp)
  qed simp
qed

lemma quota_inv_deliver:
  assumes "quota_inv s m" and "decision_fails en ''analysed'' = None"
    and "decision_fails en ''modified'' = None"
  shows "quota_inv (after (deliver en s jobId m)) m"
proof (cases "getJob s jobId")
  case None
  with assms(1) show ?thesis
    by (simp add: deliver_not_found)
next
  case (Some dbJob)
  from assms(1) have il: "\<forall>l \<in> set (aej_logs s). l_created_at l \<le> m \<and> 0 \<le> l_aej_used l"
    and ih: "\<forall>h \<in> set (holds s). 0 \<le> h_aej_estimated h"
    and ij: "\<forall>row \<in> set (jobs s). job_covered (holds s) row"
    and iq: "\<forall>c. 0 \<le> quota_of s c \<longrightarrow> consumed_of s c m + held_of s c \<le> quota_of s c"
    by (simp_all add: quota_inv_def)
  from Some have "dbJob \<in> set (jobs s)"
    by (rule getJob_in_jobs)
  with ij have cov: "job_covered (holds s) dbJob"
    by simp
  have id: "j_id dbJob = jobId"
    using Some by (rule getJob_id)
  show ?thesis
  proof (cases "j_status dbJob = ''done''")
    case True
    with Some assms(1) show ?thesis
      by (simp add: deliver_done)
  next
    case False
    with cov have st: "j_status dbJob = ''queued''"
      by (simp add: job_covered_def)
    with cov obtain reqJson h where rq: "j_request_json dbJob = Some reqJson"
      and h: "h \<in> set (holds s)" "h_job_id h = jobId" "h_client_id h = j_client_id dbJob"
        "h_status h = ''held''" "8 \<le> h_aej_estimated h"
      by (auto simp: job_covered_def id)
    have nc: "j_status dbJob \<noteq> ''canceled''"
      using st by simp
    let ?c = "j_client_id dbJob"
    let ?s' = "after (deliver en s jobId m)"
    note dc = deliver_completes [OF Some False nc rq assms(2,3), of m]
    from dc(3) obtain g where g: "g = 1 \<or> g = 5"
      and l': "aej_logs ?s' = ledger_insert ?c jobId ''application'' 1 m
               (ledger_insert ?c jobId ''generation'' g m
                  (ledger_insert ?c jobId ''decision'' 1 m
                     (ledger_insert ?c jobId ''analyse'' 1 m (aej_logs s))))"
      by blast
    note h' = dc(2) and q' = dc(4) and j' = dc(5)
    have 1: "\<forall>l \<in> set (aej_logs ?s'). l_created_at l \<le> m \<and> 0 \<le> l_aej_used l"
    proof
      fix l assume "l \<in> set (aej_logs ?s')"
      then have "l \<in> set (aej_logs s) \<or> (l_created_at l = m \<and> 0 \<le> l_aej_used l)"
        unfolding l' by (rule rows_after_run [OF g])
      with il show "l_created_at l \<le> m \<and> 0 \<le> l_aej_used l"
        by auto
    qed
    have 2: "\<forall>x \<in> set (holds ?s'). 0 \<le> h_aej_estimated x"
    proof
      fix x assume "x \<in> set (holds ?s')"
      then have "x \<in> set (release ?c jobId m (holds s))"
        by (simp only: h')
      from release_rows [OF this] ih show "0 \<le> h_aej_estimated x"
        by auto
    qed
    have 3: "\<forall>row \<in> set (jobs ?s'). job_covered (holds ?s') row"
    proof
      fix row assume "row \<in> set (jobs ?s')"
      with j' have "(row \<in> set (jobs s) \<and> j_id row \<noteq> jobId) \<or> j_status row = ''done''"
        by blast
      then show "job_covered (holds ?s') row"
      proof
        assume r: "row \<in> set (jobs s) \<and> j_id row \<noteq> jobId"
        with ij have c: "job_covered (holds s) row"
          by simp
        show ?thesis
        proof (cases "j_status row = ''queued''")
          case True
          with c obtain x where x: "x \<in> set (holds s)" "h_job_id x = j_id row"
            "h_client_id x = j_client_id row" "h_status x = ''held''" "8 \<le> h_aej_estimated x"
            and rj: "j_request_json row \<noteq> None"
            by (auto simp: job_covered_def)
          from x(1,2) r have "x \<in> set (release ?c jobId m (holds s))"
            by (intro release_keeps_other_jobs) simp_all
          with x rj True show ?thesis
            unfolding h' job_covered_def by blast
        next
          case False
          with c show ?thesis
            by (simp add: job_covered_def)
        qed
      next
        assume "j_status row = ''done''"
        then show ?thesis
          by (simp add: job_covered_def)
      qed
    qed
    have 4: "\<forall>c. 0 \<le> quota_of ?s' c \<longrightarrow> consumed_of ?s' c m + held_of ?s' c \<le> quota_of ?s' c"
    proof (intro allI impI)
      fix c assume "0 \<le> quota_of ?s' c"
      then have q0: "0 \<le> quota_of s c"
        by (simp add: quota_of_cong [OF q'])
      with iq have old: "consumed_of s c m + held_of s c \<le> quota_of s c"
        by simp
      show "consumed_of ?s' c m + held_of ?s' c \<le> quota_of ?s' c"
      proof (cases "c = ?c")
        case True
        have "consumed_of ?s' c m \<le> consumed_of s c m + 8"
          unfolding consumed_of_def l' by (rule month_total_after_run [OF g])
        moreover have "held_of ?s' c \<le> held_of s c - h_aej_estimated h"
          unfolding held_of_def h' True
          by (rule held_total_release_held [OF ih h(1,2,3,4)])
        ultimately show ?thesis
          using old h(5) by (simp add: quota_of_cong [OF q'])
      next
        case False
        have "consumed_of ?s' c m = consumed_of s c m"
          unfolding consumed_of_def l' by (rule month_total_after_run_other [OF False])
        moreover have "held_of ?s' c = held_of s c"
          unfolding held_of_def h' by (rule held_total_release_other [OF False])
        ultimately show ?thesis
          using old by (simp add: quota_of_cong [OF q'])
      qed
    qed
    from 1 2 3 4 show ?thesis
      by (simp add: quota_inv_def)
  qed
qed

lemma quota_inv_apply_op:
  assumes "quota_inv s m" and "decision_log_up x"
  shows "quota_inv (apply_op s m x) m"
proof (cases x)
  case (Admit ef hdrs c req)
  with assms(1) show ?thesis
    by (simp add: apply_op_def quota_inv_jobs_create)
next
  case (Deliver en jobId)
  with assms show ?thesis
    by (simp add: apply_op_def decision_log_up_def quota_inv_deliver)
qed

lemma quota_inv_run_ops:
  assumes "quota_inv s m" and "sorted (m # map fst xs)" and "\<forall>x \<in> set xs. decision_log_up (snd x)"
  shows "quota_inv (run_ops s xs) (last (m # map fst xs))"
  using assms
proof (induction xs arbitrary: s m)
  case Nil
  then show ?case by simp
next
  case (Cons x xs)
  from Cons.prems(2) have le: "m \<le> fst x" and so: "sorted (fst x # map fst xs)"
    by simp_all
  from Cons.prems(1) le have "quota_inv s (fst x)"
    by (rule quota_inv_later)
  moreover from Cons.prems(3) have "decision_log_up (snd x)"
    by simp
  ultimately have "quota_inv (apply_op s (fst x) (snd x)) (fst x)"
    by (rule quota_inv_apply_op)
  from Cons.IH [OF this so] Cons.prems(3)
  show ?case by simp
qed

lemma quota_inv_start:
  assumes "jobs s = []" and "holds s = []" and "aej_logs s = []"
  shows "quota_inv s m"
  using assms by (simp add: quota_inv_def consumed_of_def held_of_def month_total_def)

text \<open>
  Claim C1, as the code has it. Immediately after a committed admission, whatever the
  store before it, the ledger consumption of the tenant for the month plus its held holds
  is at most its quota. And from a store with no job, no hold and no ledger entry, after
  any number of admissions and deliveries that run one after the other, in months that do
  not decrease, while the decision log accepts the inserts of every run, the consumption
  of the current month plus the held holds is at most the quota, for every tenant whose
  quota is not negative. The quota is the one the code reads: 500 when the tenant has no
  settings row, or a stored quota that is null or 0. The bound is the one of the states
  between two operations: inside a run the ledger entries are written before the hold is
  released.
\<close>

theorem quota_bound_between_operations:
  "(jobs_create ef s hdrs c req now = (Created jid st est, s') \<longrightarrow>
      consumed_of s' c now + held_of s' c \<le> quota_of s' c)
   \<and> (jobs s0 = [] \<and> holds s0 = [] \<and> aej_logs s0 = []
       \<and> sorted (map fst xs) \<and> list_all decision_log_up (map snd xs)
       \<and> 0 \<le> quota_of (run_ops s0 (take n xs)) t
      \<longrightarrow> consumed_of (run_ops s0 (take n xs)) t (time_after t0 (take n xs))
            + held_of (run_ops s0 (take n xs)) t
          \<le> quota_of (run_ops s0 (take n xs)) t)"
proof (intro conjI impI)
  assume "jobs_create ef s hdrs c req now = (Created jid st est, s')"
  then show "consumed_of s' c now + held_of s' c \<le> quota_of s' c"
    by (rule admission_fits)
next
  let ?ys = "take n xs"
  assume a: "jobs s0 = [] \<and> holds s0 = [] \<and> aej_logs s0 = []
       \<and> sorted (map fst xs) \<and> list_all decision_log_up (map snd xs)
       \<and> 0 \<le> quota_of (run_ops s0 (take n xs)) t"
  show "consumed_of (run_ops s0 ?ys) t (time_after t0 ?ys) + held_of (run_ops s0 ?ys) t
          \<le> quota_of (run_ops s0 ?ys) t"
  proof (cases "?ys = []")
    case True
    from a have "quota_inv s0 t0"
      by (intro quota_inv_start) simp_all
    then have q: "\<forall>c. 0 \<le> quota_of s0 c \<longrightarrow> consumed_of s0 c t0 + held_of s0 c \<le> quota_of s0 c"
      by (simp add: quota_inv_def)
    from a have "0 \<le> quota_of s0 t"
      unfolding True by simp
    with q have "consumed_of s0 t t0 + held_of s0 t \<le> quota_of s0 t"
      by blast
    then show ?thesis
      unfolding True by (simp add: time_after_def)
  next
    case False
    then obtain y ys where y: "?ys = y # ys"
      by (cases ?ys) auto
    from a have "sorted (map fst ?ys)"
      by (simp add: take_map [symmetric])
    then have so: "sorted (fst y # map fst (y # ys))"
      by (simp add: y)
    from a have up: "\<forall>x \<in> set (y # ys). decision_log_up (snd x)"
      unfolding y [symmetric] by (auto simp: list_all_iff dest: in_set_takeD)
    from a have "quota_inv s0 (fst y)"
      by (intro quota_inv_start) simp_all
    from quota_inv_run_ops [OF this so up]
    have "quota_inv (run_ops s0 ?ys) (last (map fst (y # ys)))"
      by (simp add: y)
    moreover have "time_after t0 ?ys = last (map fst (y # ys))"
      by (simp add: time_after_def y last_map)
    ultimately show ?thesis
      using a by (simp add: quota_inv_def)
  qed
qed

lemma ex_ops_run:
  "run_ops (ex_store 20) (take 2 ex_ops) = ex_done_store"
  by (simp add: ex_ops_def apply_op_def ex_queued_store_created ex_done_store_run del: One_nat_def)

theorem quota_bound_between_operations_witness:
  "jobs_create no_fail (ex_store 20) (ex_headers (Some ''tok'')) ''t1''
       (ex_request ''quick_boost'' 1) 0 = (Created 0 ''queued'' 8, ex_queued_store)
   \<and> consumed_of ex_queued_store ''t1'' 0 + held_of ex_queued_store ''t1''
       \<le> quota_of ex_queued_store ''t1''
   \<and> jobs (ex_store 20) = [] \<and> holds (ex_store 20) = [] \<and> aej_logs (ex_store 20) = []
   \<and> sorted (map fst ex_ops) \<and> list_all decision_log_up (map snd ex_ops)
   \<and> run_ops (ex_store 20) (take 2 ex_ops) = ex_done_store
   \<and> time_after 0 (take 2 ex_ops) = 0
   \<and> 0 \<le> quota_of ex_done_store ''t1''
   \<and> consumed_of ex_done_store ''t1'' 0 + held_of ex_done_store ''t1''
       \<le> quota_of ex_done_store ''t1''"
proof -
  have a: "jobs (ex_store 20) = [] \<and> holds (ex_store 20) = [] \<and> aej_logs (ex_store 20) = []"
    by (simp add: ex_store_def)
  have b: "sorted (map fst ex_ops) \<and> list_all decision_log_up (map snd ex_ops)"
    by (simp add: ex_ops_def decision_log_up_def ex_env_def)
  have c: "time_after 0 (take 2 ex_ops) = 0"
    by (simp add: ex_ops_def time_after_def)
  have d: "0 \<le> quota_of ex_done_store ''t1''"
    by code_simp
  from quota_bound_between_operations
    [where ef = no_fail and s = "ex_store 20" and hdrs = "ex_headers (Some ''tok'')"
       and c = "''t1''" and req = "ex_request ''quick_boost'' 1" and now = 0 and jid = 0
       and st = "''queued''" and est = 8 and s' = ex_queued_store
       and ?s0.0 = "ex_store 20" and xs = ex_ops and n = 2 and t = "''t1''" and ?t0.0 = 0]
  show ?thesis
    using a b c d by (simp only: ex_ops_run ex_queued_store_created simp_thms)
qed

text \<open>
  Claim C1 as stated fails inside a run, and after a failed run. Under a quota of 8 the
  tenant creates a \<^verbatim>\<open>quick_boost\<close> job of one item, with a hold of 8; once the worker has
  written the ledger entry of the analyse stage the consumption is 1 and the hold is still
  held: 9 for a quota of 8. Under a quota of 9 the tenant creates the same job; its run
  fails on the decision log after the analyse entry, and the \<^verbatim>\<open>failed\<close> handler releases the
  hold (consumption 1, nothing held); a second job of estimate 8 is admitted (1 + 0 + 8 is
  at most 9); the queue, which gives every job three attempts, delivers the first job
  again, and this run completes with the output of the backend, its ledger entries summing
  up to 8: consumption 8 and a hold of 8 for a quota of 9.
\<close>

theorem quota_bound_broken_inside_and_after_failed_run:
  "jobs_create no_fail (ex_store 8) (ex_headers (Some ''tok'')) ''t1''
       (ex_request ''quick_boost'' 1) 0 = (Created 0 ''queued'' 8, ex_tight_store)
   \<and> getJob ex_tight_store 0 = Some ex_job
   \<and> quota_of (log_analyse ex_job 0 (mark_running (ex_env False (Inr (JObj []))) ex_job ex_tight_store)) ''t1'' = 8
   \<and> consumed_of (log_analyse ex_job 0 (mark_running (ex_env False (Inr (JObj []))) ex_job ex_tight_store)) ''t1'' 0 = 1
   \<and> held_of (log_analyse ex_job 0 (mark_running (ex_env False (Inr (JObj []))) ex_job ex_tight_store)) ''t1'' = 8
   \<and> sorted (map fst ex_ops_retry)
   \<and> fst (jobs_create no_fail (ex_store 9) (ex_headers None) ''t1'' (ex_request ''quick_boost'' 1) 0)
       = Created 0 ''queued'' 8
   \<and> result (deliver ex_env_decision_down (run_ops (ex_store 9) (take 1 ex_ops_retry)) 0 0)
       = Thrown ''connection terminated''
   \<and> consumed_of (run_ops (ex_store 9) (take 2 ex_ops_retry)) ''t1'' 0 = 1
   \<and> held_of (run_ops (ex_store 9) (take 2 ex_ops_retry)) ''t1'' = 0
   \<and> fst (jobs_create no_fail (run_ops (ex_store 9) (take 2 ex_ops_retry)) (ex_headers None) ''t1''
            (ex_request ''quick_boost'' 1) 0)
       = Created 1 ''queued'' 8
   \<and> result (deliver (ex_env False (Inr (JObj []))) (run_ops (ex_store 9) (take 3 ex_ops_retry)) 0 0)
       = Completed 0
   \<and> quota_of (run_ops (ex_store 9) ex_ops_retry) ''t1'' = 9
   \<and> consumed_of (run_ops (ex_store 9) ex_ops_retry) ''t1'' 0 = 8
   \<and> held_of (run_ops (ex_store 9) ex_ops_retry) ''t1'' = 8"
  by code_simp

end
